theory Spec2Isabelle
  imports Main
begin

section \<open>JavaScript strings and values\<close>

text \<open>
  A JavaScript string is a HOL \<open>string\<close>; every \<open>char\<close> stands for one UTF-16 code
  unit below 256, so \<open>length\<close> is JavaScript's \<open>.length\<close>, \<open>take n\<close> is
  \<open>.substring(0, n)\<close> and \<open>.slice(0, n)\<close> for \<open>n \<ge> 0\<close>. Code units from 256 on
  are outside the model. \<open>undefined\<close> and \<open>null\<close> are \<open>None\<close>.
\<close>

definition isWhiteSpace :: "char \<Rightarrow> bool" where
  "isWhiteSpace c = (c = CHR 0x09 \<or> c = CHR 0x0A \<or> c = CHR 0x0B \<or> c = CHR 0x0C \<or> c = CHR 0x0D
      \<or> c = CHR '' '' \<or> c = CHR 0xA0)"

text \<open>\<open>String.prototype.trim\<close>: white space and line terminators go from both ends.\<close>

definition trim :: "string \<Rightarrow> string" where
  "trim str = rev (dropWhile isWhiteSpace (rev (dropWhile isWhiteSpace str)))"

definition upperChars :: string where
  "upperChars = ''ABCDEFGHIJKLMNOPQRSTUVWXYZ'' @
     [CHR 0xC0, CHR 0xC1, CHR 0xC2, CHR 0xC3, CHR 0xC4, CHR 0xC5, CHR 0xC6, CHR 0xC7,
      CHR 0xC8, CHR 0xC9, CHR 0xCA, CHR 0xCB, CHR 0xCC, CHR 0xCD, CHR 0xCE, CHR 0xCF,
      CHR 0xD0, CHR 0xD1, CHR 0xD2, CHR 0xD3, CHR 0xD4, CHR 0xD5, CHR 0xD6,
      CHR 0xD8, CHR 0xD9, CHR 0xDA, CHR 0xDB, CHR 0xDC, CHR 0xDD, CHR 0xDE]"

definition lowerChars :: string where
  "lowerChars = ''abcdefghijklmnopqrstuvwxyz'' @
     [CHR 0xE0, CHR 0xE1, CHR 0xE2, CHR 0xE3, CHR 0xE4, CHR 0xE5, CHR 0xE6, CHR 0xE7,
      CHR 0xE8, CHR 0xE9, CHR 0xEA, CHR 0xEB, CHR 0xEC, CHR 0xED, CHR 0xEE, CHR 0xEF,
      CHR 0xF0, CHR 0xF1, CHR 0xF2, CHR 0xF3, CHR 0xF4, CHR 0xF5, CHR 0xF6,
      CHR 0xF8, CHR 0xF9, CHR 0xFA, CHR 0xFB, CHR 0xFC, CHR 0xFD, CHR 0xFE]"

definition lowerChar :: "char \<Rightarrow> char" where
  "lowerChar c = (case map_of (zip upperChars lowerChars) c of Some l \<Rightarrow> l | None \<Rightarrow> c)"

definition toLowerCase :: "string \<Rightarrow> string" where
  "toLowerCase str = map lowerChar str"

text \<open>\<open>String.prototype.includes\<close>: the second string occurs somewhere in the first.\<close>

fun str_includes :: "string \<Rightarrow> string \<Rightarrow> bool" where
  "str_includes [] sub = (sub = [])"
| "str_includes (c # cs) sub = (take (length sub) (c # cs) = sub \<or> str_includes cs sub)"

text \<open>\<open>str.replace(/c/g, r)\<close> for a one-character pattern.\<close>

definition replaceAll :: "char \<Rightarrow> string \<Rightarrow> string \<Rightarrow> string" where
  "replaceAll c r str = concat (map (\<lambda>x. if x = c then r else [x]) str)"

definition digitChar :: "nat \<Rightarrow> char" where
  "digitChar d = ''0123456789'' ! (d mod 10)"

fun natToString :: "nat \<Rightarrow> string" where
  "natToString n = (if n < 10 then [digitChar n] else natToString (n div 10) @ [digitChar (n mod 10)])"

declare natToString.simps [simp del]

text \<open>\<open>String(n)\<close> for an integer \<open>n\<close>.\<close>

definition intToString :: "int \<Rightarrow> string" where
  "intToString i = (if i < 0 then CHR ''-'' # natToString (nat (- i)) else natToString (nat i))"

text \<open>\<open>v || d\<close> for a string-or-missing \<open>v\<close>: the empty string is falsy.\<close>

definition truthyStr :: "string option \<Rightarrow> bool" where
  "truthyStr v = (case v of None \<Rightarrow> False | Some x \<Rightarrow> x \<noteq> [])"

definition strOr :: "string option \<Rightarrow> string \<Rightarrow> string" where
  "strOr v d = (case v of None \<Rightarrow> d | Some x \<Rightarrow> if x = [] then d else x)"

section \<open>Card profiles and envelopes (vaultRegistrar.js)\<close>

text \<open>
  A profile is a JavaScript object whose properties are strings: a map from the property
  name to its value. \<open>Photo: null\<close> and an absent property are both \<open>None\<close>.
\<close>

type_synonym profile = "string \<Rightarrow> string option"

definition escapeXml :: "string option \<Rightarrow> string" where
  "escapeXml unsafe = (case unsafe of None \<Rightarrow> [] | Some v \<Rightarrow>
     replaceAll (CHR 0x27) ''&apos;''
       (replaceAll (CHR 0x22) ''&quot;''
         (replaceAll CHR ''>'' ''&gt;''
           (replaceAll CHR ''<'' ''&lt;''
             (replaceAll CHR ''&'' ''&amp;'' v)))))"

text \<open>One line of a template literal, with its line feed.\<close>

definition ln :: "string \<Rightarrow> string" where
  "ln str = str @ [CHR 0x0A]"

definition soapEnvNs :: "string \<Rightarrow> string" where
  "soapEnvNs soapVersion =
     (if soapVersion = ''1.2'' then ''http://www.w3.org/2003/05/soap-envelope''
      else ''http://schemas.xmlsoap.org/soap/envelope/'')"

definition photoTag :: "profile \<Rightarrow> string" where
  "photoTag p = (if truthyStr (p ''Photo'') then ''<Photo>'' @ escapeXml (p ''Photo'') @ ''</Photo>''
                 else ''<Photo></Photo>'')"

definition buildAddCardEnvelope :: "profile \<Rightarrow> string \<Rightarrow> string \<Rightarrow> string" where
  \<open>buildAddCardEnvelope p namespace soapVersion = concat
   [ln ''<?xml version="1.0" encoding="utf-8"?>'',
    ln (''<soap:Envelope xmlns:xsi="http://www.w3.org/2001/XMLSchema-instance" xmlns:xsd="http://www.w3.org/2001/XMLSchema" xmlns:soap="''
          @ soapEnvNs soapVersion @ ''">''),
    ln ''  <soap:Body>'',
    ln (''    <AddCard xmlns="'' @ namespace @ ''">''),
    ln ''      <CardProfile>'',
    ln (''        <CardNo>'' @ escapeXml (p ''CardNo'') @ ''</CardNo>''),
    ln (''        <Name>'' @ escapeXml (p ''Name'') @ ''</Name>''),
    ln (''        <CardPinNo>'' @ escapeXml (Some (strOr (p ''CardPinNo'') '''')) @ ''</CardPinNo>''),
    ln (''        <CardType>'' @ escapeXml (Some (strOr (p ''CardType'') '''')) @ ''</CardType>''),
    ln (''        <Department>'' @ escapeXml (p ''Department'') @ ''</Department>''),
    ln (''        <Company>'' @ escapeXml (p ''Company'') @ ''</Company>''),
    ln (''        <Gentle>'' @ escapeXml (Some (strOr (p ''Gentle'') '''')) @ ''</Gentle>''),
    ln (''        <AccessLevel>'' @ escapeXml (p ''AccessLevel'') @ ''</AccessLevel>''),
    ln (''        <FaceAccessLevel>'' @ escapeXml (p ''FaceAccessLevel'') @ ''</FaceAccessLevel>''),
    ln (''        <LiftAccessLevel>'' @ escapeXml (Some (strOr (p ''LiftAccessLevel'') '''')) @ ''</LiftAccessLevel>''),
    ln (''        <BypassAP>'' @ escapeXml (Some (strOr (p ''BypassAP'') ''false'')) @ ''</BypassAP>''),
    ln (''        <ActiveStatus>'' @ escapeXml (p ''ActiveStatus'') @ ''</ActiveStatus>''),
    ln (''        <NonExpired>'' @ escapeXml (p ''NonExpired'') @ ''</NonExpired>''),
    ln (''        <ExpiredDate>'' @ escapeXml (p ''ExpiredDate'') @ ''</ExpiredDate>''),
    ln (''        <VehicleNo>'' @ escapeXml (Some (strOr (p ''VehicleNo'') '''')) @ ''</VehicleNo>''),
    ln (''        <FloorNo>'' @ escapeXml (Some (strOr (p ''FloorNo'') '''')) @ ''</FloorNo>''),
    ln (''        <UnitNo>'' @ escapeXml (Some (strOr (p ''UnitNo'') '''')) @ ''</UnitNo>''),
    ln (''        <ParkingNo>'' @ escapeXml (Some (strOr (p ''ParkingNo'') '''')) @ ''</ParkingNo>''),
    ln (''        <StaffNo>'' @ escapeXml (Some (strOr (p ''StaffNo'') '''')) @ ''</StaffNo>''),
    ln (''        <Title>'' @ escapeXml (Some (strOr (p ''Title'') '''')) @ ''</Title>''),
    ln (''        <Position>'' @ escapeXml (Some (strOr (p ''Position'') '''')) @ ''</Position>''),
    ln (''        <NRIC>'' @ escapeXml (Some (strOr (p ''NRIC'') '''')) @ ''</NRIC>''),
    ln (''        <Passport>'' @ escapeXml (Some (strOr (p ''Passport'') '''')) @ ''</Passport>''),
    ln (''        <Race>'' @ escapeXml (Some (strOr (p ''Race'') '''')) @ ''</Race>''),
    ln (''        <DOB>'' @ escapeXml (Some (strOr (p ''DOB'') '''')) @ ''</DOB>''),
    ln (''        <JoiningDate>'' @ escapeXml (Some (strOr (p ''JoiningDate'') '''')) @ ''</JoiningDate>''),
    ln (''        <ResignDate>'' @ escapeXml (Some (strOr (p ''ResignDate'') '''')) @ ''</ResignDate>''),
    ln (''        <Address1>'' @ escapeXml (Some (strOr (p ''Address1'') '''')) @ ''</Address1>''),
    ln (''        <Address2>'' @ escapeXml (Some (strOr (p ''Address2'') '''')) @ ''</Address2>''),
    ln (''        <PostalCode>'' @ escapeXml (Some (strOr (p ''PostalCode'') '''')) @ ''</PostalCode>''),
    ln (''        <City>'' @ escapeXml (Some (strOr (p ''City'') '''')) @ ''</City>''),
    ln (''        <State>'' @ escapeXml (Some (strOr (p ''State'') '''')) @ ''</State>''),
    ln (''        <Email>'' @ escapeXml (p ''Email'') @ ''</Email>''),
    ln (''        <MobileNo>'' @ escapeXml (p ''MobileNo'') @ ''</MobileNo>''),
    ln (''        '' @ photoTag p),
    ln (''        <Download>'' @ escapeXml (p ''Download'') @ ''</Download>''),
    ln ''      </CardProfile>'',
    ln ''    </AddCard>'',
    ln ''  </soap:Body>'',
    ''</soap:Envelope>'']\<close>

definition buildUpdateCardEnvelope :: "profile \<Rightarrow> string \<Rightarrow> string \<Rightarrow> string" where
  \<open>buildUpdateCardEnvelope p namespace soapVersion = concat
   [ln ''<?xml version="1.0" encoding="utf-8"?>'',
    ln (''<soap:Envelope xmlns:xsi="http://www.w3.org/2001/XMLSchema-instance" xmlns:xsd="http://www.w3.org/2001/XMLSchema" xmlns:soap="''
          @ soapEnvNs soapVersion @ ''">''),
    ln ''  <soap:Body>'',
    ln (''    <UpdateCard xmlns="'' @ namespace @ ''">''),
    ln (''      <CardNo>'' @ escapeXml (p ''CardNo'') @ ''</CardNo>''),
    ln ''      <CardProfile>'',
    ln (''        <CardNo>'' @ escapeXml (p ''CardNo'') @ ''</CardNo>''),
    ln (''        <Name>'' @ escapeXml (Some (strOr (p ''Name'') '''')) @ ''</Name>''),
    ln (''        <CardPinNo>'' @ escapeXml (Some (strOr (p ''CardPinNo'') '''')) @ ''</CardPinNo>''),
    ln (''        <CardType>'' @ escapeXml (Some (strOr (p ''CardType'') '''')) @ ''</CardType>''),
    ln (''        <Department>'' @ escapeXml (Some (strOr (p ''Department'') '''')) @ ''</Department>''),
    ln (''        <Company>'' @ escapeXml (Some (strOr (p ''Company'') '''')) @ ''</Company>''),
    ln (''        <Gentle>'' @ escapeXml (Some (strOr (p ''Gentle'') '''')) @ ''</Gentle>''),
    ln (''        <AccessLevel>'' @ escapeXml (Some (strOr (p ''AccessLevel'') '''')) @ ''</AccessLevel>''),
    ln (''        <FaceAccessLevel>'' @ escapeXml (Some (strOr (p ''FaceAccessLevel'') '''')) @ ''</FaceAccessLevel>''),
    ln (''        <LiftAccessLevel>'' @ escapeXml (Some (strOr (p ''LiftAccessLevel'') '''')) @ ''</LiftAccessLevel>''),
    ln (''        <BypassAP>'' @ escapeXml (Some (strOr (p ''BypassAP'') ''false'')) @ ''</BypassAP>''),
    ln (''        <ActiveStatus>'' @ escapeXml (Some (strOr (p ''ActiveStatus'') ''true'')) @ ''</ActiveStatus>''),
    ln (''        <NonExpired>'' @ escapeXml (Some (strOr (p ''NonExpired'') ''true'')) @ ''</NonExpired>''),
    ln (''        <ExpiredDate>'' @ escapeXml (Some (strOr (p ''ExpiredDate'') '''')) @ ''</ExpiredDate>''),
    ln (''        <VehicleNo>'' @ escapeXml (Some (strOr (p ''VehicleNo'') '''')) @ ''</VehicleNo>''),
    ln (''        <FloorNo>'' @ escapeXml (Some (strOr (p ''FloorNo'') '''')) @ ''</FloorNo>''),
    ln (''        <UnitNo>'' @ escapeXml (Some (strOr (p ''UnitNo'') '''')) @ ''</UnitNo>''),
    ln (''        <ParkingNo>'' @ escapeXml (Some (strOr (p ''ParkingNo'') '''')) @ ''</ParkingNo>''),
    ln (''        <StaffNo>'' @ escapeXml (Some (strOr (p ''StaffNo'') '''')) @ ''</StaffNo>''),
    ln (''        <Title>'' @ escapeXml (Some (strOr (p ''Title'') '''')) @ ''</Title>''),
    ln (''        <Position>'' @ escapeXml (Some (strOr (p ''Position'') '''')) @ ''</Position>''),
    ln (''        <NRIC>'' @ escapeXml (Some (strOr (p ''NRIC'') '''')) @ ''</NRIC>''),
    ln (''        <Passport>'' @ escapeXml (Some (strOr (p ''Passport'') '''')) @ ''</Passport>''),
    ln (''        <Race>'' @ escapeXml (Some (strOr (p ''Race'') '''')) @ ''</Race>''),
    ln (''        <DOB>'' @ escapeXml (Some (strOr (p ''DOB'') '''')) @ ''</DOB>''),
    ln (''        <JoiningDate>'' @ escapeXml (Some (strOr (p ''JoiningDate'') '''')) @ ''</JoiningDate>''),
    ln (''        <ResignDate>'' @ escapeXml (Some (strOr (p ''ResignDate'') '''')) @ ''</ResignDate>''),
    ln (''        <Address1>'' @ escapeXml (Some (strOr (p ''Address1'') '''')) @ ''</Address1>''),
    ln (''        <Address2>'' @ escapeXml (Some (strOr (p ''Address2'') '''')) @ ''</Address2>''),
    ln (''        <PostalCode>'' @ escapeXml (Some (strOr (p ''PostalCode'') '''')) @ ''</PostalCode>''),
    ln (''        <City>'' @ escapeXml (Some (strOr (p ''City'') '''')) @ ''</City>''),
    ln (''        <State>'' @ escapeXml (Some (strOr (p ''State'') '''')) @ ''</State>''),
    ln (''        <Email>'' @ escapeXml (Some (strOr (p ''Email'') '''')) @ ''</Email>''),
    ln (''        <MobileNo>'' @ escapeXml (Some (strOr (p ''MobileNo'') '''')) @ ''</MobileNo>''),
    ln (''        '' @ photoTag p),
    ln (''        <Download>'' @ escapeXml (Some (strOr (p ''Download'') ''true'')) @ ''</Download>''),
    ln ''      </CardProfile>'',
    ln ''    </UpdateCard>'',
    ln ''  </soap:Body>'',
    ''</soap:Envelope>'']\<close>

subsection \<open>Reading the tags of an envelope\<close>

text \<open>
  The tag structure of a text, as the remote parser sees it: for each \<open><...>\<close> in order,
  what stands between the brackets and the character data that follows up to the next
  \<open><\<close>.
\<close>

datatype scan_state = Outside | InTag string | After string string

fun scan :: "scan_state \<Rightarrow> string \<Rightarrow> (string \<times> string) list" where
  "scan Outside [] = []"
| "scan Outside (c # cs) = (if c = CHR ''<'' then scan (InTag []) cs else scan Outside cs)"
| "scan (InTag n) [] = []"
| "scan (InTag n) (c # cs) =
     (if c = CHR ''>'' then scan (After (rev n) []) cs else scan (InTag (c # n)) cs)"
| "scan (After n t) [] = [(n, rev t)]"
| "scan (After n t) (c # cs) =
     (if c = CHR ''<'' then (n, rev t) # scan (InTag []) cs else scan (After n (c # t)) cs)"

definition tagsOf :: "string \<Rightarrow> (string \<times> string) list" where
  "tagsOf text = scan Outside text"

definition isOpenTag :: "string \<Rightarrow> bool" where
  "isOpenTag n = (case n of [] \<Rightarrow> False | c # _ \<Rightarrow> c \<noteq> CHR ''/'' \<and> c \<noteq> CHR ''?'')"

text \<open>The elements between \<open><CardProfile>\<close> and \<open></CardProfile>\<close>, each with its content.\<close>

definition profileBlock :: "string \<Rightarrow> (string \<times> string) list" where
  "profileBlock text =
     filter (\<lambda>e. isOpenTag (fst e))
       (takeWhile (\<lambda>e. fst e \<noteq> ''/CardProfile'')
          (drop 1 (dropWhile (\<lambda>e. fst e \<noteq> ''CardProfile'') (tagsOf text))))"

text \<open>The elements that stand before \<open><CardProfile>\<close>.\<close>

definition beforeProfileBlock :: "string \<Rightarrow> (string \<times> string) list" where
  "beforeProfileBlock text =
     filter (\<lambda>e. isOpenTag (fst e))
       (takeWhile (\<lambda>e. fst e \<noteq> ''CardProfile'') (tagsOf text))"


subsection \<open>Well-formed escaping\<close>

definition entities :: "string list" where
  "entities = [''&amp;'', ''&lt;'', ''&gt;'', ''&quot;'', ''&apos;'']"

text \<open>Every \<open>&\<close> of the text is the first character of one of the five entities.\<close>

fun ampersandsBeginEntities :: "string \<Rightarrow> bool" where
  "ampersandsBeginEntities [] = True"
| "ampersandsBeginEntities (c # cs) =
     ((if c = CHR ''&'' then list_ex (\<lambda>e. take (length e) (c # cs) = e) entities else True)
      \<and> ampersandsBeginEntities cs)"

text \<open>What the five passes of \<open>escapeXml\<close> make of one character.\<close>

definition escapeChar :: "char \<Rightarrow> string" where
  "escapeChar c = (if c = CHR ''&'' then ''&amp;'' else if c = CHR ''<'' then ''&lt;''
     else if c = CHR ''>'' then ''&gt;'' else if c = CHR 0x22 then ''&quot;''
     else if c = CHR 0x27 then ''&apos;'' else [c])"

text \<open>The shape of a field line of both templates: eight blanks, the element, a line feed.\<close>

definition fieldLine :: "string \<Rightarrow> string \<Rightarrow> string" where
  "fieldLine tag v = ln (''        <'' @ tag @ ''>'' @ v @ ''</'' @ tag @ ''>'')"

section \<open>Rows and the profile mappers (vaultRegistrar.js)\<close>

text \<open>
  A row is the object \<open>sheet_to_json\<close> yields: a property per column header; an absent
  header is \<open>None\<close> (\<open>undefined\<close>). A cell, like the \<open>cardNo\<close> of an override, is a
  JavaScript value that the code consults for its truth value, for the text \<open>String(v)\<close>
  and for \<open>typeof v\<close> only. So a number is kept as its truth value (false for 0 and
  \<open>NaN\<close>) with the text \<open>String\<close> gives it, and a value that is neither a string, a number
  nor a boolean (an array, an object: always truthy) as the text \<open>String\<close> gives it.
\<close>

datatype cell = CStr string | CNum bool string | CBool bool | CObj string

type_synonym row = "string \<Rightarrow> cell option"

definition truthy :: "cell option \<Rightarrow> bool" where
  "truthy v = (case v of None \<Rightarrow> False | Some (CStr x) \<Rightarrow> x \<noteq> []
               | Some (CNum nonzero text) \<Rightarrow> nonzero | Some (CBool b) \<Rightarrow> b
               | Some (CObj text) \<Rightarrow> True)"

definition cellToString :: "cell \<Rightarrow> string" where
  "cellToString c = (case c of CStr x \<Rightarrow> x | CNum nonzero text \<Rightarrow> text
                     | CBool b \<Rightarrow> (if b then ''true'' else ''false'')
                     | CObj text \<Rightarrow> text)"

text \<open>\<open>a || b || ... || z\<close>: the first truthy operand, else the last one.\<close>

fun orChain :: "cell option list \<Rightarrow> cell option" where
  "orChain [] = None"
| "orChain [v] = v"
| "orChain (v # w # vs) = (if truthy v then v else orChain (w # vs))"

text \<open>\<open>function s(val, def = '')\<close>, always called with one argument.\<close>

definition s_str :: "cell option \<Rightarrow> string" where
  "s_str val = (case val of None \<Rightarrow> [] | Some v \<Rightarrow> trim (cellToString v))"

definition DEFAULT_ACCESS_LEVEL :: string where
  "DEFAULT_ACCESS_LEVEL = ''00''"

definition DEFAULT_FACE_ACCESS_LEVEL :: string where
  "DEFAULT_FACE_ACCESS_LEVEL = ''00''"

definition DEFAULT_LIFT_ACCESS_LEVEL :: string where
  "DEFAULT_LIFT_ACCESS_LEVEL = ''00''"

text \<open>The object literal a mapper returns; \<open>Photo: null\<close> is the absent entry.\<close>

definition mapRowToProfile :: "row \<Rightarrow> profile" where
  "mapRowToProfile row =
    (let name = s_str (orChain [row ''Card Name [Max 50]'', row ''Card Name'', row ''Name'',
                  row ''Employee Name'', row ''Employee'', row ''Nama'']);
         staffNoRaw = s_str (orChain [row ''Staff No [Max 15]'', row ''Staff No. [Max 10]'',
                  row ''Emp. No'', row ''Employee ID'', row ''ID'', row ''NIK'']);
         cardNoRaw = s_str (orChain [row ''Card No #[Max 10]'', row ''Card No [Max 10]'',
                  row ''Card No'', row ''CardNo'', row ''Card Number'']);
         department = s_str (orChain [row ''Department [Max 50]'', row ''Department'',
                  row ''Departement'', row ''Dept'']);
         company = s_str (orChain [row ''Company [Max 50]'', row ''Company'',
                  Some (CStr ''Merdeka Tsingsan Indonesia'')]);
         email = s_str (orChain [row ''Email [Max 50]'', row ''Email'', row ''Email Address'',
                  Some (CStr [])]);
         mobile = s_str (orChain [row ''Mobile No. [Max 20]'', row ''Mobile No'', row ''Phone'',
                  Some (CStr [])]);
         faceAccessLevel0 = s_str (orChain [row ''Face Access Level [Max 3]'',
                  row ''Face Access Level'', row ''FaceAccessLevel'', Some (CStr [])]);
         faceAccessLevel = (if faceAccessLevel0 = [] then DEFAULT_FACE_ACCESS_LEVEL
                            else faceAccessLevel0);
         liftAccessLevel0 = s_str (orChain [row ''Lift Access Level [Max 3]'',
                  row ''Lift Access Level'', row ''LiftAccessLevel'', Some (CStr [])]);
         liftAccessLevel = (if liftAccessLevel0 = [] then DEFAULT_LIFT_ACCESS_LEVEL
                            else liftAccessLevel0);
         accessLevel0 = s_str (orChain [row ''Access Level [Max 3]'', row ''Access Level'',
                  row ''AccessLevel'']);
         messHallRaw = s_str (orChain [row ''MessHall'', row ''Mess Hall'', Some (CStr [])]);
         messHall = trim (toLowerCase messHallRaw);
         accessLevel1 =
           (if accessLevel0 = [] then
              (if messHall = ''labota'' then ''1''
               else if messHall = ''makarti'' then ''2''
               else if messHall = [] \<or> messHall = ''no access!!'' then []
               else [])
            else accessLevel0);
         accessLevel = (if accessLevel1 = [] then DEFAULT_ACCESS_LEVEL else accessLevel1);
         cardNo = take 10 (if cardNoRaw = [] then [] else cardNoRaw)
     in map_of
      [(''CardNo'', cardNo),
       (''StaffNo'', staffNoRaw),
       (''Name'', name),
       (''Department'', department),
       (''Company'', company),
       (''AccessLevel'', accessLevel),
       (''FaceAccessLevel'', faceAccessLevel),
       (''LiftAccessLevel'', liftAccessLevel),
       (''Email'', email),
       (''MobileNo'', mobile),
       (''ActiveStatus'', ''true''),
       (''NonExpired'', ''true''),
       (''ExpiredDate'', []),
       (''Download'', ''true'')])"

subsection \<open>Clipping and date normalisation of the update mapper\<close>

text \<open>The table \<open>MAX\<close> (here \<open>MAX_table\<close>) of \<open>mapRowToUpdateProfile\<close>; a key it lacks reads as \<open>undefined\<close>,
  which \<open>m && ...\<close> treats like 0.\<close>

definition MAX_table :: "(string \<times> nat) list" where
  "MAX_table = [(''Name'', 40), (''Department'', 30), (''Company'', 30), (''Title'', 25),
          (''Position'', 25), (''Address1'', 50), (''Email'', 50), (''MobileNo'', 20),
          (''VehicleNo'', 15), (''StaffNo'', 15)]"

definition maxOf :: "(string \<times> nat) list \<Rightarrow> string \<Rightarrow> nat" where
  "maxOf table k = (case map_of table k of None \<Rightarrow> 0 | Some m \<Rightarrow> m)"

definition clip :: "string option \<Rightarrow> nat \<Rightarrow> string" where
  "clip v m = (case v of None \<Rightarrow> [] | Some x \<Rightarrow>
     (let sVal = trim x in if m \<noteq> 0 \<and> length sVal > m then take m sVal else sVal))"

definition isDigit :: "char \<Rightarrow> bool" where
  "isDigit c = (c \<in> set ''0123456789'')"

text \<open>The test \<open>/^\d+(\.\d+)?$/\<close>.\<close>

definition isNumericText :: "string \<Rightarrow> bool" where
  "isNumericText t =
     (let ip = takeWhile isDigit t; r = dropWhile isDigit t
      in ip \<noteq> [] \<and> (r = [] \<or> (hd r = CHR ''.'' \<and> tl r \<noteq> [] \<and> list_all isDigit (tl r))))"

definition digitValue :: "char \<Rightarrow> nat" where
  "digitValue c = length (takeWhile (\<lambda>d. d \<noteq> c) ''0123456789'')"

definition digitsToNat :: "string \<Rightarrow> nat" where
  "digitsToNat ds = foldl (\<lambda>acc c. 10 * acc + digitValue c) 0 ds"

text \<open>
  The arithmetic of doubles. A double is kept as a pair \<open>(m, e)\<close> that stands for
  \<open>m * 2 ^ e\<close>. \<open>roundMagnitude n d\<close> is the double nearest to the fraction \<open>n / d\<close>, a tie
  going to the even mantissa: with \<open>2 ^ e \<le> n / d < 2 ^ (e + 1)\<close> the mantissa is the
  quotient by \<open>2 ^ (e - 52)\<close>, of 53 binary digits, rounded. The exponent is not bounded;
  see \<open>serialTimeValue\<close> for why that changes nothing there.
\<close>

fun bitLength :: "nat \<Rightarrow> nat" where
  "bitLength n = (if n = 0 then 0 else 1 + bitLength (n div 2))"

declare bitLength.simps [simp del]

definition roundMagnitude :: "nat \<Rightarrow> nat \<Rightarrow> int \<times> int" where
  "roundMagnitude n d =
     (if n = 0 then (0, 0)
      else
       (let e0 = int (bitLength n) - int (bitLength d);
            e = (if d * 2 ^ nat e0 \<le> n * 2 ^ nat (- e0) then e0 else e0 - 1);
            k = e - 52;
            scaled = n * 2 ^ nat (- k);
            unit = d * 2 ^ nat k;
            q = scaled div unit;
            r = scaled mod unit
        in (int (if unit < 2 * r \<or> (2 * r = unit \<and> odd q) then q + 1 else q), k)))"

definition roundDouble :: "int \<Rightarrow> nat \<Rightarrow> int \<times> int" where
  "roundDouble num den =
     (if num < 0 then (let r = roundMagnitude (nat (- num)) den in (- fst r, snd r))
      else roundMagnitude (nat num) den)"

text \<open>The value of a double as a fraction, and \<open>x - c\<close> and \<open>x * c\<close> for a whole number \<open>c\<close>.\<close>

definition fractionOf :: "int \<times> int \<Rightarrow> int \<times> nat" where
  "fractionOf x = (fst x * 2 ^ nat (snd x), 2 ^ nat (- snd x))"

definition subDouble :: "int \<times> int \<Rightarrow> int \<Rightarrow> int \<times> int" where
  "subDouble x c =
     (let num = fst (fractionOf x); den = snd (fractionOf x)
      in roundDouble (num - c * int den) den)"

definition mulDouble :: "int \<times> int \<Rightarrow> int \<Rightarrow> int \<times> int" where
  "mulDouble x c =
     (let num = fst (fractionOf x); den = snd (fractionOf x)
      in roundDouble (num * c) den)"

text \<open>
  The time value of \<open>new Date((parseFloat(t) - 25569) * 86400 * 1000)\<close> for a text that
  passed the test: \<open>parseFloat\<close> gives the double nearest to the decimal numeral (as Node
  does, also beyond 20 significant digits), every operation rounds its exact result, and
  the date is invalid (\<open>None\<close>) beyond \<open>8.64e15\<close>, else the product cut towards zero to
  whole milliseconds. A numeral too large for a double gives \<open>Infinity\<close> in JavaScript
  and a value beyond \<open>8.64e15\<close> here, an invalid date both times; a numeral below the
  smallest normal double is rounded otherwise in JavaScript, to a value as negligible
  beside 25569, so that the difference is the double -25569 both times.
\<close>

definition serialTimeValue :: "string \<Rightarrow> int option" where
  "serialTimeValue t =
     (let ip = takeWhile isDigit t;
          fp = drop 1 (dropWhile isDigit t);
          den = 10 ^ length fp;
          serial = roundDouble (int (digitsToNat ip * den + digitsToNat fp)) den;
          ms = mulDouble (mulDouble (subDouble serial 25569) 86400) 1000;
          num = fst (fractionOf ms);
          unit = int (snd (fractionOf ms))
      in if \<bar>num\<bar> \<le> 8640000000000000 * unit
         then Some (if 0 \<le> num then num div unit else - ((- num) div unit))
         else None)"

text \<open>
  \<open>getUTCFullYear\<close>, \<open>getUTCMonth\<close> (from 0) and \<open>getUTCDate\<close> of a day number counted
  from 1 January 1970, in the proleptic Gregorian calendar.
\<close>

definition civilFromDays :: "int \<Rightarrow> int \<times> nat \<times> int" where
  "civilFromDays days =
     (let z = days + 719468;
          era = z div 146097;
          doe = z - era * 146097;
          yoe = (doe - doe div 1460 + doe div 36524 - doe div 146096) div 365;
          doy = doe - (365 * yoe + yoe div 4 - yoe div 100);
          mp = (5 * doy + 2) div 153;
          d = doy - (153 * mp + 2) div 5 + 1;
          m = (if mp < 10 then mp + 3 else mp - 9);
          y = yoe + era * 400 + (if m \<le> 2 then 1 else 0)
      in (y, nat (m - 1), d))"

definition months :: "string list" where
  "months = [''Jan'', ''Feb'', ''Mar'', ''Apr'', ''May'', ''Jun'', ''Jul'', ''Aug'', ''Sep'',
             ''Oct'', ''Nov'', ''Dec'']"

definition normalizeExcelDate :: "string option \<Rightarrow> string" where
  "normalizeExcelDate val = (case val of None \<Rightarrow> [] | Some v \<Rightarrow>
     (let sVal = trim v in
      if sVal = [] then []
      else if isNumericText sVal then
        (case serialTimeValue sVal of
           None \<Rightarrow> sVal
         | Some ms \<Rightarrow>
            (case civilFromDays (ms div 86400000) of (year, mon, day) \<Rightarrow>
               intToString day @ '' '' @ months ! mon @ '' '' @ intToString year))
      else sVal))"

definition onlyBits :: "string \<Rightarrow> string" where
  "onlyBits str = filter (\<lambda>c. c = CHR ''0'' \<or> c = CHR ''1'') str"

definition mapRowToUpdateProfile :: "row \<Rightarrow> profile" where
  "mapRowToUpdateProfile row =
    (let cardNo = take 10 (s_str (orChain [row ''CARD NO'', row ''Card No'', row ''CardNo'',
                    row ''Card Number'']));
         name = clip (Some (s_str (orChain [row ''NAME'', row ''Name'', row ''Card Name'',
                    row ''Employee Name'']))) (maxOf MAX_table ''Name'');
         company = clip (Some (s_str (orChain [row ''COMPANY'', row ''Company''])))
                    (maxOf MAX_table ''Company'');
         staffNo = clip (Some (s_str (orChain [row ''STAFF ID'', row ''Staff No'',
                    row ''Employee ID'', row ''ID'']))) (maxOf MAX_table ''StaffNo'');
         department = clip (Some (s_str (orChain [row ''DEPARTMENT'', row ''Department''])))
                    (maxOf MAX_table ''Department'');
         title = clip (Some (s_str (orChain [row ''TITLE'', row ''Title''])))
                    (maxOf MAX_table ''Title'');
         position = clip (Some (s_str (orChain [row ''POSITION'', row ''Position''])))
                    (maxOf MAX_table ''Position'');
         gentle = s_str (orChain [row ''GENDER'', row ''Gender'', row ''Gentle'']);
         ktpPassport = s_str (orChain [row ''KTP/PASPORT NO'', row ''KTP/PASSPORT NO'',
                    row ''NRIC/Passport'']);
         dob = normalizeExcelDate (Some (s_str (orChain [row ''DATE OF BIRTH'', row ''DOB''])));
         address = clip (Some (s_str (orChain [row ''ADDRESS'', row ''Address''])))
                    (maxOf MAX_table ''Address1'');
         mobile = clip (Some (s_str (orChain [row ''PHONE NO'', row ''Mobile No'', row ''Phone''])))
                    (maxOf MAX_table ''MobileNo'');
         joining = normalizeExcelDate (Some (s_str (orChain [row ''DATE OF HIRE'',
                    row ''Joining Date''])));
         resign = normalizeExcelDate (Some (s_str (orChain [row ''WORK PERIOD END'',
                    row ''Resign Date''])));
         race = s_str (orChain [row ''RACE'', row ''Race'']);
         cardStatus = toLowerCase (s_str (orChain [row ''CARD STATUS'', row ''Status'',
                    row ''STATUS'']));
         activeStatus =
           (if cardStatus \<noteq> [] then
              (if str_includes cardStatus ''active'' then ''true''
               else if str_includes cardStatus ''inactive'' then ''false'' else ''true'')
            else ''true'');
         vehicleNoExplicit = s_str (orChain [row ''VEHICLE NO'', row ''Vehicle No'',
                    row ''VehicleNo'']);
         messRaw = s_str (orChain [row ''MESSHALL'', row ''MessHall'', row ''Mess Hall'']);
         mess = toLowerCase messRaw;
         messDigits = onlyBits messRaw;
         vehicleNo1 =
           (if vehicleNoExplicit = [] then
              (if str_includes mess ''makarti'' then ''Makarti MessHall''
               else if str_includes mess ''labota'' then ''Labota Messhall''
               else ''Local Hire / No Access!!'')
            else vehicleNoExplicit);
         accessLevel1 =
           (if vehicleNoExplicit = [] then
              (if messDigits = ''00'' \<or> str_includes (toLowerCase messRaw) ''no access''
                    \<or> str_includes (toLowerCase messRaw) ''local hire'' then ''00''
               else if messDigits = ''01'' \<or> str_includes (toLowerCase messRaw) ''labota''
                 then ''01''
               else if messDigits = ''10'' \<or> str_includes (toLowerCase messRaw) ''makarti''
                 then ''10''
               else if messDigits = ''11'' \<or> (str_includes (toLowerCase messRaw) ''makarti''
                    \<and> str_includes (toLowerCase messRaw) ''labota'') then ''11''
               else [])
            else
              (if messDigits = ''00'' then ''00''
               else if messDigits = ''01'' then ''01''
               else if messDigits = ''10'' then ''10''
               else if messDigits = ''11'' then ''11''
               else []));
         accessLevelExplicit = s_str (orChain [row ''ACCESS LEVEL'', row ''Access Level'',
                    row ''AccessLevel'']);
         accessLevel2 = (if accessLevel1 = [] \<and> accessLevelExplicit \<noteq> []
                         then accessLevelExplicit else accessLevel1);
         accessLevel = (if accessLevel2 = [] then DEFAULT_ACCESS_LEVEL else accessLevel2);
         faceAccessLevelExplicit = s_str (orChain [row ''FACE ACCESS LEVEL'',
                    row ''Face Access Level'', row ''FaceAccessLevel'']);
         liftAccessLevelExplicit = s_str (orChain [row ''LIFT ACCESS LEVEL'',
                    row ''Lift Access Level'', row ''LiftAccessLevel'']);
         vehicleNo =
           (if vehicleNo1 \<noteq> [] then
              (let v = toLowerCase vehicleNo1;
                   vehicleNo2 =
                     (if str_includes v ''makarti'' then ''Makarti''
                      else if str_includes v ''labota'' then ''Labota''
                      else if str_includes v ''local'' \<or> str_includes v ''no access''
                        then ''NoAccess''
                      else vehicleNo1)
               in clip (Some vehicleNo2) (maxOf MAX_table ''VehicleNo''))
            else vehicleNo1)
     in map_of
      [(''CardNo'', cardNo),
       (''Name'', name),
       (''Company'', company),
       (''Department'', department),
       (''StaffNo'', staffNo),
       (''Title'', title),
       (''Position'', position),
       (''Gentle'', gentle),
       (''NRIC'', ktpPassport),
       (''Passport'', []),
       (''Race'', race),
       (''DOB'', dob),
       (''JoiningDate'', joining),
       (''ResignDate'', resign),
       (''Address1'', address),
       (''Email'', []),
       (''MobileNo'', mobile),
       (''ActiveStatus'', activeStatus),
       (''NonExpired'', ''true''),
       (''ExpiredDate'', []),
       (''AccessLevel'', accessLevel),
       (''FaceAccessLevel'', strOr (Some faceAccessLevelExplicit) DEFAULT_FACE_ACCESS_LEVEL),
       (''LiftAccessLevel'', strOr (Some liftAccessLevelExplicit) DEFAULT_LIFT_ACCESS_LEVEL),
       (''VehicleNo'', vehicleNo),
       (''Download'', ''true'')])"

subsection \<open>Blank cells and the card-number columns\<close>

text \<open>A blank cell: no such column, or a text of white space only.\<close>

definition blankCell :: "cell option \<Rightarrow> bool" where
  "blankCell v = (case v of None \<Rightarrow> True | Some (CStr x) \<Rightarrow> trim x = [] | Some _ \<Rightarrow> False)"

text \<open>The columns \<open>mapRowToProfile\<close> and \<open>mapRowToUpdateProfile\<close> read the card number from.\<close>

definition createCardNoColumns :: "string list" where
  "createCardNoColumns =
     [''Card No #[Max 10]'', ''Card No [Max 10]'', ''Card No'', ''CardNo'', ''Card Number'']"

definition updateCardNoColumns :: "string list" where
  "updateCardNoColumns = [''CARD NO'', ''Card No'', ''CardNo'', ''Card Number'']"

section \<open>Photos, transport and responses (vaultRegistrar.js)\<close>

text \<open>
  The directory of the input file: a file name maps to the base64 text of the file when
  the file exists. \<open>path.join\<close> and read errors are not modelled.
\<close>

type_synonym filesys = "string \<Rightarrow> string option"

definition photoCandidates :: "string option \<Rightarrow> string option \<Rightarrow> string list" where
  "photoCandidates cardNo staffNo =
     (if truthyStr cardNo
      then [strOr cardNo [] @ ''.jpg'', strOr cardNo [] @ ''.jpeg'', strOr cardNo [] @ ''.png'']
      else []) @
     (if truthyStr staffNo
      then [strOr staffNo [] @ ''.jpg'', strOr staffNo [] @ ''.jpeg'', strOr staffNo [] @ ''.png'']
      else [])"

fun firstExisting :: "filesys \<Rightarrow> string list \<Rightarrow> string option" where
  "firstExisting fs [] = None"
| "firstExisting fs (fname # fnames) =
     (case fs fname of Some b64 \<Rightarrow> Some b64 | None \<Rightarrow> firstExisting fs fnames)"

text \<open>\<open>tryAttachPhoto\<close> mutates the profile; the model returns the new profile.\<close>

definition tryAttachPhoto :: "filesys \<Rightarrow> profile \<Rightarrow> profile \<times> bool" where
  "tryAttachPhoto fs p =
     (case firstExisting fs (photoCandidates (p ''CardNo'') (p ''StaffNo'')) of
        Some b64 \<Rightarrow> (p(''Photo'' \<mapsto> b64), True)
      | None \<Rightarrow> (p, False))"

definition photoExists :: "filesys \<Rightarrow> string option \<Rightarrow> string option \<Rightarrow> bool" where
  "photoExists fs cardNo staffNo =
     (case firstExisting fs (photoCandidates cardNo staffNo) of Some _ \<Rightarrow> True | None \<Rightarrow> False)"

text \<open>
  What \<open>postAddCard\<close> and \<open>postUpdateCard\<close> return: the HTTP status and the two fields
  scraped from the body (\<open>None\<close> when the tag is not found). The field \<open>status\<close> is
  \<open>'ok'\<close> exactly when \<open>res.ok\<close>, that is for a status from 200 to 299.
\<close>

record resp =
  httpStatus :: int
  errCode :: "string option"
  errMessage :: "string option"

definition status :: "resp \<Rightarrow> string" where
  "status r = (if 200 \<le> httpStatus r \<and> httpStatus r \<le> 299 then ''ok'' else ''error'')"

text \<open>
  The remote end: from its state and the envelope posted it gives a response, or the
  message of the exception that \<open>fetch\<close> throws, and its next state.
\<close>

type_synonym 'n transport = "'n \<Rightarrow> string \<Rightarrow> (string + resp) \<times> 'n"

subsection \<open>\<open>Number(text)\<close>\<close>

text \<open>
  The numeric value of a string, as \<open>Number\<close> reads it: \<open>Finite m e\<close> is the exact value
  \<open>m * 10^e\<close> of the literal. JavaScript rounds this value to the nearest double (ties
  to even) before it compares; \<open>isZero\<close> and \<open>isOne\<close> below say which exact values
  round to 0 and to 1.
\<close>

datatype jsnum = NaN | Infinite | Finite int int

definition parseExponent :: "string \<Rightarrow> int option" where
  "parseExponent t =
     (let neg = (t \<noteq> [] \<and> hd t = CHR ''-'');
          ds = (if t \<noteq> [] \<and> (hd t = CHR ''+'' \<or> hd t = CHR ''-'') then tl t else t)
      in if ds \<noteq> [] \<and> list_all isDigit ds
         then Some (if neg then - int (digitsToNat ds) else int (digitsToNat ds))
         else None)"

definition parseUnsignedDecimal :: "string \<Rightarrow> jsnum" where
  "parseUnsignedDecimal t =
     (if t = ''Infinity'' then Infinite
      else
       (let ip = takeWhile isDigit t;
            r1 = dropWhile isDigit t;
            hasDot = (r1 \<noteq> [] \<and> hd r1 = CHR ''.'');
            fp = (if hasDot then takeWhile isDigit (tl r1) else []);
            r2 = (if hasDot then dropWhile isDigit (tl r1) else r1);
            mant = int (digitsToNat (ip @ fp))
        in if ip = [] \<and> fp = [] then NaN
           else if r2 = [] then Finite mant (- int (length fp))
           else if hd r2 = CHR ''e'' \<or> hd r2 = CHR ''E'' then
             (case parseExponent (tl r2) of
                None \<Rightarrow> NaN
              | Some ex \<Rightarrow> Finite mant (ex - int (length fp)))
           else NaN))"

definition radixDigit :: "char \<Rightarrow> nat" where
  "radixDigit c =
     (let l = lowerChar c in length (takeWhile (\<lambda>d. d \<noteq> l) ''0123456789abcdef''))"

definition parseRadix :: "nat \<Rightarrow> string \<Rightarrow> jsnum" where
  "parseRadix b ds =
     (if ds \<noteq> [] \<and> list_all (\<lambda>c. radixDigit c < b) ds
      then Finite (int (foldl (\<lambda>acc c. b * acc + radixDigit c) 0 ds)) 0
      else NaN)"

definition jsNumber :: "string \<Rightarrow> jsnum" where
  "jsNumber text =
     (let t = trim text in
      if t = [] then Finite 0 0
      else if take 2 (toLowerCase t) = ''0x'' then parseRadix 16 (drop 2 t)
      else if take 2 (toLowerCase t) = ''0o'' then parseRadix 8 (drop 2 t)
      else if take 2 (toLowerCase t) = ''0b'' then parseRadix 2 (drop 2 t)
      else if hd t = CHR ''-'' then
        (case parseUnsignedDecimal (tl t) of Finite m e \<Rightarrow> Finite (- m) e | v \<Rightarrow> v)
      else if hd t = CHR ''+'' then parseUnsignedDecimal (tl t)
      else parseUnsignedDecimal t)"

text \<open>
  \<open>x === 0\<close>: the value rounds to zero, that is, its magnitude is at most \<open>2^-1075\<close>,
  half the least positive double.
\<close>

definition isZero :: "jsnum \<Rightarrow> bool" where
  "isZero x = (case x of
      Finite m e \<Rightarrow> m = 0 \<or> (e < 0 \<and> \<bar>m\<bar> * 2 ^ 1075 \<le> 10 ^ nat (- e))
    | _ \<Rightarrow> False)"

text \<open>
  \<open>x === 1\<close>: the value rounds to one, that is, it lies between \<open>1 - 2^-54\<close> and
  \<open>1 + 2^-53\<close>, the midpoints to the neighbouring doubles.
\<close>

definition isOne :: "jsnum \<Rightarrow> bool" where
  "isOne x = (case x of
      Finite m e \<Rightarrow>
        (if 0 \<le> e then m * 10 ^ nat e = 1
         else (2 ^ 54 - 1) * 10 ^ nat (- e) \<le> m * 2 ^ 54
              \<and> m * 2 ^ 53 \<le> (2 ^ 53 + 1) * 10 ^ nat (- e))
    | _ \<Rightarrow> False)"

section \<open>The batch orchestrators (vaultRegistrar.js)\<close>

record errorRecord =
  code :: string
  message :: string
  e_errCode :: "string option"
  e_cardNo :: "string option"
  e_index :: "nat option"
  e_name :: "string option"

definition mkError :: "string \<Rightarrow> string \<Rightarrow> errorRecord" where
  "mkError c m = \<lparr>code = c, message = m, e_errCode = None, e_cardNo = None, e_index = None,
                  e_name = None\<rparr>"

record detail =
  d_cardNo :: "string option"
  d_name :: "string option"
  d_hasPhoto :: bool
  d_respCode :: "string option"
  d_respMessage :: "string option"
  d_profile :: "profile option"

record result =
  attempted :: nat
  registered :: nat
  withPhoto :: nat
  withoutPhoto :: nat
  errors :: "errorRecord list"
  details :: "detail list"

definition emptyResult :: result where
  "emptyResult = \<lparr>attempted = 0, registered = 0, withPhoto = 0, withoutPhoto = 0, errors = [],
                   details = []\<rparr>"

text \<open>
  An element of \<open>overrides\<close>: an object with, possibly, a numeric \<open>index\<close>, a \<open>cardNo\<close>
  of any type and a boolean \<open>downloadCard\<close> (\<open>None\<close> when absent or \<open>null\<close>; for
  \<open>index\<close> and \<open>downloadCard\<close> also when of another type).
\<close>

record override =
  ov_index :: "int option"
  ov_cardNo :: "cell option"
  ov_downloadCard :: "bool option"

subsection \<open>\<open>registerJobToVault\<close> (create)\<close>

text \<open>The \<open>Map\<close> built from the overrides: a later entry for an index replaces an earlier one,
  and a \<open>cardNo\<close> that is not a string counts as absent.\<close>

definition overrideMapOf :: "override list \<Rightarrow> int \<Rightarrow> (string option \<times> bool option) option" where
  "overrideMapOf overrides =
     foldl (\<lambda>m ov. case ov_index ov of
                     None \<Rightarrow> m
                   | Some i \<Rightarrow> m(i \<mapsto> ((case ov_cardNo ov of
                                           Some (CStr c) \<Rightarrow> Some (take 10 (trim c))
                                         | _ \<Rightarrow> None),
                                        ov_downloadCard ov)))
       Map.empty overrides"

text \<open>The profile of row \<open>i\<close> after mapping and override.\<close>

definition createProfile ::
  "(int \<Rightarrow> (string option \<times> bool option) option) \<Rightarrow> nat \<Rightarrow> row \<Rightarrow> profile" where
  "createProfile overrideMap i row =
     (let profile = mapRowToProfile row in
      case overrideMap (int i) of
        None \<Rightarrow> profile
      | Some (cardNoVal, downloadCardVal) \<Rightarrow>
          (let p1 = (case cardNoVal of None \<Rightarrow> profile
                     | Some c \<Rightarrow> profile(''CardNo'' \<mapsto> c));
               p2 = (case downloadCardVal of None \<Rightarrow> p1
                     | Some b \<Rightarrow> p1(''DownloadCard'' \<mapsto> (if b then ''true'' else ''false'')))
           in p2))"

text \<open>One turn of the loop of \<open>registerJobToVault\<close>.\<close>

definition registerRow ::
  "'n transport \<Rightarrow> filesys \<Rightarrow> string \<Rightarrow> string \<Rightarrow> (int \<Rightarrow> (string option \<times> bool option) option)
     \<Rightarrow> nat \<Rightarrow> row \<Rightarrow> result \<times> 'n \<Rightarrow> result \<times> 'n" where
  "registerRow post fs ns ver overrideMap i row st =
     (case st of (res0, net) \<Rightarrow>
      let profile = createProfile overrideMap i row;
          res = res0\<lparr>attempted := attempted res0 + 1\<rparr>
      in if \<not> truthyStr (profile ''CardNo'') then
           (res\<lparr>errors := errors res @
                   [(mkError ''CARD_NO_MISSING'' ''Card No is required'')
                      \<lparr>e_index := Some i, e_name := profile ''Name''\<rparr>],
                 details := details res @
                   [\<lparr>d_cardNo = Some [], d_name = profile ''Name'', d_hasPhoto = False,
                     d_respCode = Some ''CARD_NO_MISSING'',
                     d_respMessage = Some ''Card No is required'', d_profile = None\<rparr>]\<rparr>,
            net)
         else
          (case tryAttachPhoto fs profile of (profileP, hasPhoto) \<Rightarrow>
           let res1 = (if hasPhoto then res\<lparr>withPhoto := withPhoto res + 1\<rparr>
                       else res\<lparr>withoutPhoto := withoutPhoto res + 1\<rparr>);
               envelope = buildAddCardEnvelope profileP ns ver
           in case post net envelope of
                (Inl msg, net') \<Rightarrow>
                  (res1\<lparr>errors := errors res1 @
                          [(mkError ''REQUEST_FAILED'' msg)\<lparr>e_cardNo := profileP ''CardNo''\<rparr>]\<rparr>,
                   net')
              | (Inr r, net') \<Rightarrow>
                  (let errCodeNum = (case errCode r of None \<Rightarrow> NaN | Some c \<Rightarrow> jsNumber c);
                       bizSuccess = ((200 \<le> httpStatus r \<and> httpStatus r < 300)
                                     \<and> (isZero errCodeNum \<or> isOne errCodeNum));
                       res2 =
                         (if bizSuccess then res1\<lparr>registered := registered res1 + 1\<rparr>
                          else if \<not> (200 \<le> httpStatus r \<and> httpStatus r < 300) then
                            res1\<lparr>errors := errors res1 @
                              [(mkError ''HTTP_ERROR'' (''HTTP '' @ intToString (httpStatus r)))
                                 \<lparr>e_cardNo := profileP ''CardNo''\<rparr>]\<rparr>
                          else
                            res1\<lparr>errors := errors res1 @
                              [(mkError ''VAULT_ERROR'' (strOr (errMessage r) ''Unknown error''))
                                 \<lparr>e_errCode := errCode r, e_cardNo := profileP ''CardNo''\<rparr>]\<rparr>)
                   in (res2\<lparr>details := details res2 @
                          [\<lparr>d_cardNo = profileP ''CardNo'', d_name = profileP ''Name'',
                            d_hasPhoto = hasPhoto, d_respCode = errCode r,
                            d_respMessage = errMessage r, d_profile = None\<rparr>]\<rparr>,
                       net'))))"

fun registerRows ::
  "'n transport \<Rightarrow> filesys \<Rightarrow> string \<Rightarrow> string \<Rightarrow> (int \<Rightarrow> (string option \<times> bool option) option)
     \<Rightarrow> nat \<Rightarrow> row list \<Rightarrow> result \<times> 'n \<Rightarrow> result \<times> 'n" where
  "registerRows post fs ns ver overrideMap i [] st = st"
| "registerRows post fs ns ver overrideMap i (row # rows) st =
     registerRows post fs ns ver overrideMap (Suc i) rows
       (registerRow post fs ns ver overrideMap i row st)"

text \<open>
  \<open>registerJobToVault\<close>, from the point where the directory has been looked up
  (\<open>dirExists\<close>) and the rows have been read.
\<close>

definition registerJobToVault ::
  "'n transport \<Rightarrow> filesys \<Rightarrow> string \<Rightarrow> string \<Rightarrow> string \<Rightarrow> bool \<Rightarrow> row list \<Rightarrow> override list
     \<Rightarrow> 'n \<Rightarrow> result \<times> 'n" where
  "registerJobToVault post fs ns ver outputDir dirExists rows overrides net =
     (if \<not> dirExists then
        (emptyResult\<lparr>errors := [mkError ''OUTPUT_NOT_FOUND''
                                   (''Output directory not found: '' @ outputDir)]\<rparr>, net)
      else if rows = [] then
        (emptyResult\<lparr>errors := [mkError ''NO_ROWS'' ''No rows found in Excel/CSV outputs.'']\<rparr>,
         net)
      else registerRows post fs ns ver (overrideMapOf overrides) 0 rows (emptyResult, net))"

subsection \<open>\<open>updateCsvPathToVault\<close> (update)\<close>

text \<open>The profile of row \<open>i\<close> after mapping and override: the first override with that index.\<close>

definition updateProfile :: "override list \<Rightarrow> nat \<Rightarrow> row \<Rightarrow> profile" where
  "updateProfile overrides i row =
     (let profile = mapRowToUpdateProfile row in
      case find (\<lambda>ov. ov_index ov = Some (int i)) overrides of
        None \<Rightarrow> profile
      | Some ov \<Rightarrow>
          (let p1 = (if truthy (ov_cardNo ov)
                     then profile(''CardNo'' \<mapsto> take 10 (s_str (ov_cardNo ov)))
                     else profile);
               p2 = (case ov_downloadCard ov of None \<Rightarrow> p1
                     | Some b \<Rightarrow> p1(''Download'' \<mapsto> (if b then ''true'' else ''false'')))
           in p2))"

text \<open>The classification of a response by the update operations.\<close>

definition updateOk :: "resp \<Rightarrow> bool" where
  "updateOk r = (status r = ''ok'' \<and> (\<not> truthyStr (errCode r) \<or> errCode r = Some ''0''))"

text \<open>One turn of the loop of \<open>updateCsvPathToVault\<close>.\<close>

definition updateRow ::
  "'n transport \<Rightarrow> filesys \<Rightarrow> string \<Rightarrow> string \<Rightarrow> override list \<Rightarrow> nat \<Rightarrow> row
     \<Rightarrow> result \<times> 'n \<Rightarrow> result \<times> 'n" where
  "updateRow post fs ns ver overrides i row st =
     (case st of (res, net) \<Rightarrow>
      case tryAttachPhoto fs (updateProfile overrides i row) of (profile, hasPhoto) \<Rightarrow>
      let res1 = (if hasPhoto then res\<lparr>withPhoto := withPhoto res + 1\<rparr>
                  else res\<lparr>withoutPhoto := withoutPhoto res + 1\<rparr>);
          envelope = buildUpdateCardEnvelope profile ns ver
      in case post net envelope of
           (Inr r, net') \<Rightarrow>
             (let ok = updateOk r;
                  res2 =
                    (if ok then res1\<lparr>registered := registered res1 + 1\<rparr>
                     else res1\<lparr>errors := errors res1 @
                       [(mkError ''VAULT_ERROR'' (strOr (errMessage r) ''Unknown error''))
                          \<lparr>e_errCode := errCode r, e_cardNo := profile ''CardNo'',
                           e_index := Some i\<rparr>]\<rparr>)
              in (res2\<lparr>details := details res2 @
                     [\<lparr>d_cardNo = profile ''CardNo'', d_name = profile ''Name'',
                       d_hasPhoto = truthyStr (profile ''Photo''), d_respCode = errCode r,
                       d_respMessage = errMessage r, d_profile = Some profile\<rparr>]\<rparr>,
                  net'))
         | (Inl msg, net') \<Rightarrow>
             (res1\<lparr>errors := errors res1 @
                [(mkError ''REQUEST_FAILED'' msg)
                   \<lparr>e_cardNo := profile ''CardNo'', e_index := Some i\<rparr>]\<rparr>,
              net'))"

fun updateRows ::
  "'n transport \<Rightarrow> filesys \<Rightarrow> string \<Rightarrow> string \<Rightarrow> override list \<Rightarrow> nat \<Rightarrow> row list
     \<Rightarrow> result \<times> 'n \<Rightarrow> result \<times> 'n" where
  "updateRows post fs ns ver overrides i [] st = st"
| "updateRows post fs ns ver overrides i (row # rows) st =
     updateRows post fs ns ver overrides (Suc i) rows (updateRow post fs ns ver overrides i row st)"

text \<open>\<open>updateCsvPathToVault\<close> on the rows read (no rows when reading fails).\<close>

definition updateCsvPathToVault ::
  "'n transport \<Rightarrow> filesys \<Rightarrow> string \<Rightarrow> string \<Rightarrow> row list \<Rightarrow> override list \<Rightarrow> 'n
     \<Rightarrow> result \<times> 'n" where
  "updateCsvPathToVault post fs ns ver rows overrides net =
     updateRows post fs ns ver overrides 0 rows
       (emptyResult\<lparr>attempted := length rows\<rparr>, net)"

subsection \<open>\<open>updateCsvRowToVault\<close> (one row) and the preview\<close>

text \<open>
  The override of a single-row update: \<open>cardNo\<close> (of any type), \<open>downloadCard\<close> and its own
  properties among the profile fields, each as the text \<open>String(val)\<close> gives.
\<close>

record rowOverride =
  ro_cardNo :: "cell option"
  ro_downloadCard :: "bool option"
  ro_fields :: "string \<Rightarrow> string option"

definition overrideKeys :: "string list" where
  "overrideKeys =
     [''Name'', ''Department'', ''Company'', ''Gentle'', ''AccessLevel'', ''FaceAccessLevel'',
      ''LiftAccessLevel'', ''BypassAP'', ''ActiveStatus'', ''NonExpired'', ''ExpiredDate'',
      ''VehicleNo'', ''FloorNo'', ''UnitNo'', ''ParkingNo'', ''StaffNo'', ''Title'', ''Position'',
      ''NRIC'', ''Passport'', ''Race'', ''DOB'', ''JoiningDate'', ''ResignDate'',
      ''Address1'', ''Address2'', ''PostalCode'', ''City'', ''State'', ''Email'', ''MobileNo'',
      ''Download'']"

definition applyFieldOverrides :: "(string \<Rightarrow> string option) \<Rightarrow> profile \<Rightarrow> profile" where
  "applyFieldOverrides flds p =
     foldl (\<lambda>q key. case flds key of None \<Rightarrow> q | Some val \<Rightarrow> q(key \<mapsto> val)) p overrideKeys"

text \<open>The profile of a single-row update after mapping and override.\<close>

definition singleProfile :: "rowOverride option \<Rightarrow> row \<Rightarrow> profile" where
  "singleProfile override row =
     (let profile = mapRowToUpdateProfile row in
      case override of
        None \<Rightarrow> profile
      | Some ov \<Rightarrow>
          (let p1 = (if truthy (ro_cardNo ov)
                     then profile(''CardNo'' \<mapsto> take 10 (s_str (ro_cardNo ov)))
                     else profile);
               p2 = (case ro_downloadCard ov of None \<Rightarrow> p1
                     | Some b \<Rightarrow> p1(''Download'' \<mapsto> (if b then ''true'' else ''false'')))
           in applyFieldOverrides (ro_fields ov) p2))"

record rowStatus =
  rs_ok :: bool
  rs_code :: "string option"
  rs_message :: "string option"

text \<open>
  \<open>updateCsvRowToVault\<close> on the rows read. The result for an index out of range has no
  \<open>rowStatus\<close>.
\<close>

definition updateCsvRowToVault ::
  "'n transport \<Rightarrow> filesys \<Rightarrow> string \<Rightarrow> string \<Rightarrow> row list \<Rightarrow> int \<Rightarrow> rowOverride option \<Rightarrow> 'n
     \<Rightarrow> (result \<times> rowStatus option) \<times> 'n" where
  "updateCsvRowToVault post fs ns ver rows index override net =
     (if index < 0 \<or> index \<ge> int (length rows) then
        ((emptyResult\<lparr>errors :=
            [mkError ''INDEX_OUT_OF_RANGE''
               (''Index out of range. index='' @ intToString index @ '', rows=''
                  @ intToString (int (length rows)))]\<rparr>, None), net)
      else
       (let row = rows ! nat index in
        case tryAttachPhoto fs (singleProfile override row) of (profile, hasPhoto) \<Rightarrow>
        let res1 = (if hasPhoto then emptyResult\<lparr>attempted := 1, withPhoto := 1\<rparr>
                    else emptyResult\<lparr>attempted := 1, withoutPhoto := 1\<rparr>);
            envelope = buildUpdateCardEnvelope profile ns ver
        in case post net envelope of
             (Inr r, net') \<Rightarrow>
               (let ok = updateOk r;
                    res2 =
                      (if ok then res1\<lparr>registered := 1\<rparr>
                       else res1\<lparr>errors :=
                         [(mkError ''VAULT_ERROR'' (strOr (errMessage r) ''Unknown error''))
                            \<lparr>e_errCode := errCode r, e_cardNo := profile ''CardNo''\<rparr>]\<rparr>)
                in ((res2\<lparr>details :=
                       [\<lparr>d_cardNo = profile ''CardNo'', d_name = profile ''Name'',
                         d_hasPhoto = truthyStr (profile ''Photo''), d_respCode = errCode r,
                         d_respMessage = errMessage r, d_profile = Some profile\<rparr>]\<rparr>,
                     Some \<lparr>rs_ok = (errors res2 = []), rs_code = errCode r,
                            rs_message = errMessage r\<rparr>),
                    net'))
           | (Inl msg, net') \<Rightarrow>
               ((res1\<lparr>errors :=
                   [(mkError ''REQUEST_FAILED'' msg)\<lparr>e_cardNo := profile ''CardNo''\<rparr>]\<rparr>,
                 Some \<lparr>rs_ok = False, rs_code = None,
                        rs_message = (if msg = [] then None else Some msg)\<rparr>),
                net')))"

text \<open>\<open>previewUpdateCsvPathToVault\<close>: per row the mapped profile and whether a photo exists.\<close>

definition previewUpdateCsvPathToVault :: "filesys \<Rightarrow> row list \<Rightarrow> (profile \<times> bool) list" where
  "previewUpdateCsvPathToVault fs rows =
     map (\<lambda>row. let profile = mapRowToUpdateProfile row
                in (profile, photoExists fs (profile ''CardNo'') (profile ''StaffNo''))) rows"

section \<open>The retry after a batch pass (scripts/updateFromExcel.js)\<close>

text \<open>The table \<open>MAX\<close> of the automatic retry, in the order of its keys.\<close>

definition retry_MAX_table :: "(string \<times> nat) list" where
  "retry_MAX_table =
     [(''Name'', 50), (''Department'', 50), (''Company'', 50), (''Title'', 50), (''Position'', 50),
      (''Address1'', 50), (''Address2'', 50), (''Email'', 50), (''MobileNo'', 20),
      (''VehicleNo'', 50), (''StaffNo'', 15)]"

definition isTruncated :: "string \<Rightarrow> bool" where
  "isTruncated msg = str_includes (toLowerCase msg) ''truncated''"

text \<open>The override the retry builds from the previewed profile of the row.\<close>

definition retryOverride :: "profile \<Rightarrow> rowOverride" where
  "retryOverride profile =
     (let clipped =
            foldl (\<lambda>ov km. case km of (key, m) \<Rightarrow>
                     if truthyStr (profile key) then ov(key \<mapsto> take m (strOr (profile key) []))
                     else ov)
              Map.empty retry_MAX_table;
          flds = (case profile ''Download'' of None \<Rightarrow> clipped
                    | Some d \<Rightarrow> clipped(''Download'' \<mapsto> d))
      in \<lparr>ro_cardNo = None, ro_downloadCard = None, ro_fields = flds\<rparr>)"

record retryError =
  re_index :: nat
  re_cardNo :: "string option"
  re_message :: string

text \<open>
  One turn of the retry loop, for the error \<open>e\<close> of the first pass. An error without an
  index would make \<open>updateCsvRowToVault\<close> throw a \<open>TypeError\<close>, which ends the script:
  that is \<open>None\<close>.
\<close>

definition retryStep ::
  "'n transport \<Rightarrow> filesys \<Rightarrow> string \<Rightarrow> string \<Rightarrow> row list \<Rightarrow> (profile \<times> bool) list
     \<Rightarrow> errorRecord \<Rightarrow> nat \<times> retryError list \<times> 'n \<Rightarrow> (nat \<times> retryError list \<times> 'n) option" where
  "retryStep post fs ns ver rows preview e st =
     (case st of (retryUpdated, retryErrors, net) \<Rightarrow>
      case e_index e of
        None \<Rightarrow> None
      | Some idx \<Rightarrow>
         (let profile = (if idx < length preview then fst (preview ! idx) else Map.empty);
              override = retryOverride profile
          in case updateCsvRowToVault post fs ns ver rows (int idx) (Some override) net of
               ((single, rowStatus), net') \<Rightarrow>
                 if (case rowStatus of None \<Rightarrow> False | Some rs \<Rightarrow> rs_ok rs)
                 then Some (retryUpdated + 1, retryErrors, net')
                 else
                  (let msg = (case rowStatus of None \<Rightarrow> ''Unknown error''
                              | Some rs \<Rightarrow> strOr (rs_message rs) ''Unknown error'')
                   in Some (retryUpdated,
                            retryErrors @ [\<lparr>re_index = idx, re_cardNo = e_cardNo e,
                                             re_message = msg\<rparr>],
                            net'))))"

fun retryLoop ::
  "'n transport \<Rightarrow> filesys \<Rightarrow> string \<Rightarrow> string \<Rightarrow> row list \<Rightarrow> (profile \<times> bool) list
     \<Rightarrow> errorRecord list \<Rightarrow> nat \<times> retryError list \<times> 'n \<Rightarrow> (nat \<times> retryError list \<times> 'n) option" where
  "retryLoop post fs ns ver rows preview [] st = Some st"
| "retryLoop post fs ns ver rows preview (e # es) st =
     (case retryStep post fs ns ver rows preview e st of
        None \<Rightarrow> None
      | Some st' \<Rightarrow> retryLoop post fs ns ver rows preview es st')"

record outcome =
  firstPass :: result
  retryUpdated :: nat
  retryErrors :: "retryError list"
  exitCode :: int

text \<open>
  \<open>main\<close> without \<open>--card\<close>, from the point where the file has been found: the batch pass
  with no overrides, then the automatic retry.
\<close>

definition mainBatch ::
  "'n transport \<Rightarrow> filesys \<Rightarrow> string \<Rightarrow> string \<Rightarrow> row list \<Rightarrow> 'n \<Rightarrow> outcome \<times> 'n" where
  "mainBatch post fs ns ver rows net =
     (case updateCsvPathToVault post fs ns ver rows [] net of (res, net1) \<Rightarrow>
      if length (errors res) > 0 then
        (let preview = previewUpdateCsvPathToVault fs rows;
             retryTargets = filter (\<lambda>e. isTruncated (message e)) (errors res)
         in if length retryTargets > 0 then
              (case retryLoop post fs ns ver rows preview retryTargets (0, [], net1) of
                 None \<Rightarrow>
                   (\<lparr>firstPass = res, retryUpdated = 0, retryErrors = [], exitCode = 1\<rparr>, net1)
               | Some (updated, errs, net2) \<Rightarrow>
                   (\<lparr>firstPass = res, retryUpdated = updated, retryErrors = errs,
                     exitCode = (if errs = [] then 0 else 2)\<rparr>, net2))
            else (\<lparr>firstPass = res, retryUpdated = 0, retryErrors = [], exitCode = 2\<rparr>, net1))
      else (\<lparr>firstPass = res, retryUpdated = 0, retryErrors = [], exitCode = 0\<rparr>, net1))"

section \<open>Test doubles for the remote end\<close>

text \<open>A remote end that answers every call with the same response and counts the calls.\<close>

definition constantTransport :: "resp \<Rightarrow> nat transport" where
  "constantTransport r n envelope = (Inr r, Suc n)"

text \<open>A remote end that answers the \<open>n\<close>-th call with the \<open>n\<close>-th entry of a script and
  fails with \<open>no route\<close> after the script's end; its state is the number of calls.\<close>

definition scriptedTransport :: "(string + resp) list \<Rightarrow> nat transport" where
  "scriptedTransport script n envelope =
     (if n < length script then script ! n else Inl ''no route'', Suc n)"

text \<open>A remote end observed: the same answers, with every envelope received kept in order.\<close>

definition recording :: "'n transport \<Rightarrow> ('n \<times> string list) transport" where
  "recording post st envelope =
     (case st of (n, received) \<Rightarrow>
      case post n envelope of (answer, n') \<Rightarrow> (answer, (n', received @ [envelope])))"

text \<open>The envelope the retry of row \<open>idx\<close> posts, along the code path of the retry: preview,
  override, \<open>updateCsvRowToVault\<close>.\<close>

definition retryEnvelope :: "filesys \<Rightarrow> string \<Rightarrow> string \<Rightarrow> row list \<Rightarrow> nat \<Rightarrow> string" where
  "retryEnvelope fs ns ver rows idx =
     buildUpdateCardEnvelope
       (fst (tryAttachPhoto fs
          (singleProfile (Some (retryOverride (fst (previewUpdateCsvPathToVault fs rows ! idx))))
             (rows ! idx))))
       ns ver"

text \<open>The message the retry reports for an answer that is not a success.\<close>

definition retryMessage :: "string + resp \<Rightarrow> string" where
  "retryMessage answer =
     (case answer of
        Inl msg \<Rightarrow> (if msg = [] then ''Unknown error'' else msg)
      | Inr r \<Rightarrow> strOr (errMessage r) ''Unknown error'')"

definition retrySucceeds :: "string + resp \<Rightarrow> bool" where
  "retrySucceeds answer = (case answer of Inl msg \<Rightarrow> False | Inr r \<Rightarrow> updateOk r)"

text \<open>The answers a remote end in state \<open>n\<close> gives to a sequence of envelopes.\<close>

fun answersOf :: "'n transport \<Rightarrow> 'n \<Rightarrow> string list \<Rightarrow> (string + resp) list" where
  "answersOf post n [] = []"
| "answersOf post n (envelope # envelopes) =
     fst (post n envelope) # answersOf post (snd (post n envelope)) envelopes"

text \<open>
  What the retries of the rows \<open>idxs\<close> meet at a remote end in state \<open>n\<close>: per row its
  index, the error of the first pass and the answer to its retry envelope, the envelopes
  being posted in this order.
\<close>

definition retryOutcomes ::
  "'n transport \<Rightarrow> filesys \<Rightarrow> string \<Rightarrow> string \<Rightarrow> row list \<Rightarrow> 'n \<Rightarrow> errorRecord list \<Rightarrow> nat list
     \<Rightarrow> (nat \<times> errorRecord \<times> (string + resp)) list" where
  "retryOutcomes post fs ns ver rows n targets idxs =
     zip idxs (zip targets (answersOf post n (map (retryEnvelope fs ns ver rows) idxs)))"

section \<open>Properties\<close>

subsection \<open>escapeXml\<close>

lemma replaceAll_concat_map:
  "replaceAll c r (concat (map f xs)) = concat (map (\<lambda>x. replaceAll c r (f x)) xs)"
  by (induction xs) (simp_all add: replaceAll_def)

lemma replaceAll_pointwise: "replaceAll c r xs = concat (map (\<lambda>x. replaceAll c r [x]) xs)"
  by (induction xs) (simp_all add: replaceAll_def)

text \<open>The five passes, in the order of the source, amount to one pass of \<open>escapeChar\<close>:
  the ampersand goes first, and no later pass touches what an earlier one wrote.\<close>

lemma escapeXml_concat: "escapeXml (Some v) = concat (map escapeChar v)"
proof -
  have first: "replaceAll CHR ''&'' ''&amp;'' v
      = concat (map (\<lambda>x. replaceAll CHR ''&'' ''&amp;'' [x]) v)"
    by (rule replaceAll_pointwise)
  have one: "\<And>x. replaceAll (CHR 0x27) ''&apos;''
       (replaceAll (CHR 0x22) ''&quot;''
         (replaceAll CHR ''>'' ''&gt;''
           (replaceAll CHR ''<'' ''&lt;''
             (replaceAll CHR ''&'' ''&amp;'' [x])))) = escapeChar x"
    by (simp add: replaceAll_def escapeChar_def)
  show ?thesis
    unfolding escapeXml_def option.case
    by (subst first) (simp only: replaceAll_concat_map one)
qed

lemma set_escapeChar:
  "c \<in> set (escapeChar x) \<Longrightarrow>
     c \<noteq> CHR ''<'' \<and> c \<noteq> CHR ''>'' \<and> c \<noteq> CHR 0x22 \<and> c \<noteq> CHR 0x27"
  by (auto simp: escapeChar_def split: if_splits)

lemma escapeXml_chars:
  assumes "c \<in> set (escapeXml v)"
  shows "c \<noteq> CHR ''<'' \<and> c \<noteq> CHR ''>'' \<and> c \<noteq> CHR 0x22 \<and> c \<noteq> CHR 0x27"
proof (cases v)
  case None
  with assms show ?thesis by (simp add: escapeXml_def)
next
  case (Some str)
  with assms obtain x where "c \<in> set (escapeChar x)"
    by (auto simp: escapeXml_concat)
  then show ?thesis by (rule set_escapeChar)
qed

lemma escapeXml_no_lt [simp]: "CHR ''<'' \<notin> set (escapeXml v)"
  using escapeXml_chars by blast

lemma escapeXml_no_gt [simp]: "CHR ''>'' \<notin> set (escapeXml v)"
  using escapeXml_chars by blast

lemma amp_escapeChar:
  "ampersandsBeginEntities rest \<Longrightarrow> ampersandsBeginEntities (escapeChar x @ rest)"
  by (simp add: escapeChar_def entities_def)

lemma amp_concat: "ampersandsBeginEntities (concat (map escapeChar v))"
  by (induction v) (simp_all add: amp_escapeChar)

lemma amp_escapeXml: "ampersandsBeginEntities (escapeXml v)"
  by (cases v) (simp_all add: escapeXml_concat amp_concat, simp add: escapeXml_def)

subsection \<open>The tags of the two envelopes\<close>

lemma scan_InTag_append:
  "CHR ''>'' \<notin> set x \<Longrightarrow> scan (InTag m) (x @ r) = scan (InTag (rev x @ m)) r"
  by (induction x arbitrary: m) auto

lemma scan_After_append:
  "CHR ''<'' \<notin> set x \<Longrightarrow> scan (After n t) (x @ r) = scan (After n (rev x @ t)) r"
  by (induction x arbitrary: t) auto

lemma soapEnvNs_no_gt: "CHR ''>'' \<notin> set (soapEnvNs v)"
  by (simp add: soapEnvNs_def)

lemma fieldLine_folds:
  "ln (''        <CardNo>'' @ x @ ''</CardNo>'') = fieldLine ''CardNo'' x"
  "ln (''        <Name>'' @ x @ ''</Name>'') = fieldLine ''Name'' x"
  "ln (''        <CardPinNo>'' @ x @ ''</CardPinNo>'') = fieldLine ''CardPinNo'' x"
  "ln (''        <CardType>'' @ x @ ''</CardType>'') = fieldLine ''CardType'' x"
  "ln (''        <Department>'' @ x @ ''</Department>'') = fieldLine ''Department'' x"
  "ln (''        <Company>'' @ x @ ''</Company>'') = fieldLine ''Company'' x"
  "ln (''        <Gentle>'' @ x @ ''</Gentle>'') = fieldLine ''Gentle'' x"
  "ln (''        <AccessLevel>'' @ x @ ''</AccessLevel>'') = fieldLine ''AccessLevel'' x"
  "ln (''        <FaceAccessLevel>'' @ x @ ''</FaceAccessLevel>'') = fieldLine ''FaceAccessLevel'' x"
  "ln (''        <LiftAccessLevel>'' @ x @ ''</LiftAccessLevel>'') = fieldLine ''LiftAccessLevel'' x"
  "ln (''        <BypassAP>'' @ x @ ''</BypassAP>'') = fieldLine ''BypassAP'' x"
  "ln (''        <ActiveStatus>'' @ x @ ''</ActiveStatus>'') = fieldLine ''ActiveStatus'' x"
  "ln (''        <NonExpired>'' @ x @ ''</NonExpired>'') = fieldLine ''NonExpired'' x"
  "ln (''        <ExpiredDate>'' @ x @ ''</ExpiredDate>'') = fieldLine ''ExpiredDate'' x"
  "ln (''        <VehicleNo>'' @ x @ ''</VehicleNo>'') = fieldLine ''VehicleNo'' x"
  "ln (''        <FloorNo>'' @ x @ ''</FloorNo>'') = fieldLine ''FloorNo'' x"
  "ln (''        <UnitNo>'' @ x @ ''</UnitNo>'') = fieldLine ''UnitNo'' x"
  "ln (''        <ParkingNo>'' @ x @ ''</ParkingNo>'') = fieldLine ''ParkingNo'' x"
  "ln (''        <StaffNo>'' @ x @ ''</StaffNo>'') = fieldLine ''StaffNo'' x"
  "ln (''        <Title>'' @ x @ ''</Title>'') = fieldLine ''Title'' x"
  "ln (''        <Position>'' @ x @ ''</Position>'') = fieldLine ''Position'' x"
  "ln (''        <NRIC>'' @ x @ ''</NRIC>'') = fieldLine ''NRIC'' x"
  "ln (''        <Passport>'' @ x @ ''</Passport>'') = fieldLine ''Passport'' x"
  "ln (''        <Race>'' @ x @ ''</Race>'') = fieldLine ''Race'' x"
  "ln (''        <DOB>'' @ x @ ''</DOB>'') = fieldLine ''DOB'' x"
  "ln (''        <JoiningDate>'' @ x @ ''</JoiningDate>'') = fieldLine ''JoiningDate'' x"
  "ln (''        <ResignDate>'' @ x @ ''</ResignDate>'') = fieldLine ''ResignDate'' x"
  "ln (''        <Address1>'' @ x @ ''</Address1>'') = fieldLine ''Address1'' x"
  "ln (''        <Address2>'' @ x @ ''</Address2>'') = fieldLine ''Address2'' x"
  "ln (''        <PostalCode>'' @ x @ ''</PostalCode>'') = fieldLine ''PostalCode'' x"
  "ln (''        <City>'' @ x @ ''</City>'') = fieldLine ''City'' x"
  "ln (''        <State>'' @ x @ ''</State>'') = fieldLine ''State'' x"
  "ln (''        <Email>'' @ x @ ''</Email>'') = fieldLine ''Email'' x"
  "ln (''        <MobileNo>'' @ x @ ''</MobileNo>'') = fieldLine ''MobileNo'' x"
  "ln (''        <Download>'' @ x @ ''</Download>'') = fieldLine ''Download'' x"
  by (simp_all add: fieldLine_def)

lemma photo_fold:
  "ln (''        '' @ photoTag p) = fieldLine ''Photo'' (escapeXml (Some (strOr (p ''Photo'') [])))"
  by (cases "p ''Photo''")
     (simp_all add: photoTag_def fieldLine_def truthyStr_def strOr_def escapeXml_def replaceAll_def)

lemma scan_fieldLine:
  assumes "CHR ''>'' \<notin> set tag" "CHR ''<'' \<notin> set v"
  shows "scan (After n t) (fieldLine tag v @ rest) =
    (n, rev t @ ''        '') # (tag, v) # scan (After (CHR ''/'' # tag) [CHR 0x0A]) rest"
  using assms
  by (simp add: fieldLine_def ln_def scan_InTag_append scan_After_append)

lemma scan_add_header:
  assumes "CHR ''>'' \<notin> set ns"
  shows \<open>scan Outside
   (ln ''<?xml version="1.0" encoding="utf-8"?>'' @
    ln (''<soap:Envelope xmlns:xsi="http://www.w3.org/2001/XMLSchema-instance" xmlns:xsd="http://www.w3.org/2001/XMLSchema" xmlns:soap="''
          @ soapEnvNs ver @ ''">'') @
    ln ''  <soap:Body>'' @
    ln (''    <AddCard xmlns="'' @ ns @ ''">'') @
    ln ''      <CardProfile>'' @ rest) =
   [(''?xml version="1.0" encoding="utf-8"?'', [CHR 0x0A]),
    (''soap:Envelope xmlns:xsi="http://www.w3.org/2001/XMLSchema-instance" xmlns:xsd="http://www.w3.org/2001/XMLSchema" xmlns:soap="''
          @ soapEnvNs ver @ ''"'', CHR 0x0A # ''  ''),
    (''soap:Body'', CHR 0x0A # ''    ''),
    (''AddCard xmlns="'' @ ns @ ''"'', CHR 0x0A # ''      '')] @
    scan (After ''CardProfile'' [CHR 0x0A]) rest\<close>
  using assms
  by (simp add: ln_def scan_InTag_append soapEnvNs_no_gt)

lemma scan_update_header:
  assumes "CHR ''>'' \<notin> set ns"
  shows \<open>scan Outside
   (ln ''<?xml version="1.0" encoding="utf-8"?>'' @
    ln (''<soap:Envelope xmlns:xsi="http://www.w3.org/2001/XMLSchema-instance" xmlns:xsd="http://www.w3.org/2001/XMLSchema" xmlns:soap="''
          @ soapEnvNs ver @ ''">'') @
    ln ''  <soap:Body>'' @
    ln (''    <UpdateCard xmlns="'' @ ns @ ''">'') @
    ln (''      <CardNo>'' @ escapeXml v @ ''</CardNo>'') @
    ln ''      <CardProfile>'' @ rest) =
   [(''?xml version="1.0" encoding="utf-8"?'', [CHR 0x0A]),
    (''soap:Envelope xmlns:xsi="http://www.w3.org/2001/XMLSchema-instance" xmlns:xsd="http://www.w3.org/2001/XMLSchema" xmlns:soap="''
          @ soapEnvNs ver @ ''"'', CHR 0x0A # ''  ''),
    (''soap:Body'', CHR 0x0A # ''    ''),
    (''UpdateCard xmlns="'' @ ns @ ''"'', CHR 0x0A # ''      ''),
    (''CardNo'', escapeXml v),
    (''/CardNo'', CHR 0x0A # ''      '')] @
    scan (After ''CardProfile'' [CHR 0x0A]) rest\<close>
  using assms
  by (simp add: ln_def scan_InTag_append scan_After_append soapEnvNs_no_gt)

lemma scan_add_footer:
  \<open>scan (After n t)
   (ln ''      </CardProfile>'' @ ln ''    </AddCard>'' @ ln ''  </soap:Body>'' @ ''</soap:Envelope>'') =
   [(n, rev t @ ''      ''), (''/CardProfile'', CHR 0x0A # ''    ''), (''/AddCard'', CHR 0x0A # ''  ''),
    (''/soap:Body'', [CHR 0x0A]), (''/soap:Envelope'', [])]\<close>
  by (simp add: ln_def)

lemma scan_update_footer:
  \<open>scan (After n t)
   (ln ''      </CardProfile>'' @ ln ''    </UpdateCard>'' @ ln ''  </soap:Body>'' @ ''</soap:Envelope>'') =
   [(n, rev t @ ''      ''), (''/CardProfile'', CHR 0x0A # ''    ''), (''/UpdateCard'', CHR 0x0A # ''  ''),
    (''/soap:Body'', [CHR 0x0A]), (''/soap:Envelope'', [])]\<close>
  by (simp add: ln_def)

lemma profileBlock_add:
  assumes "CHR ''>'' \<notin> set ns"
  shows "profileBlock (buildAddCardEnvelope p ns ver) =
     [(''CardNo'', escapeXml (p ''CardNo'')),
      (''Name'', escapeXml (p ''Name'')),
      (''CardPinNo'', escapeXml (Some (strOr (p ''CardPinNo'') []))),
      (''CardType'', escapeXml (Some (strOr (p ''CardType'') []))),
      (''Department'', escapeXml (p ''Department'')),
      (''Company'', escapeXml (p ''Company'')),
      (''Gentle'', escapeXml (Some (strOr (p ''Gentle'') []))),
      (''AccessLevel'', escapeXml (p ''AccessLevel'')),
      (''FaceAccessLevel'', escapeXml (p ''FaceAccessLevel'')),
      (''LiftAccessLevel'', escapeXml (Some (strOr (p ''LiftAccessLevel'') []))),
      (''BypassAP'', escapeXml (Some (strOr (p ''BypassAP'') ''false''))),
      (''ActiveStatus'', escapeXml (p ''ActiveStatus'')),
      (''NonExpired'', escapeXml (p ''NonExpired'')),
      (''ExpiredDate'', escapeXml (p ''ExpiredDate'')),
      (''VehicleNo'', escapeXml (Some (strOr (p ''VehicleNo'') []))),
      (''FloorNo'', escapeXml (Some (strOr (p ''FloorNo'') []))),
      (''UnitNo'', escapeXml (Some (strOr (p ''UnitNo'') []))),
      (''ParkingNo'', escapeXml (Some (strOr (p ''ParkingNo'') []))),
      (''StaffNo'', escapeXml (Some (strOr (p ''StaffNo'') []))),
      (''Title'', escapeXml (Some (strOr (p ''Title'') []))),
      (''Position'', escapeXml (Some (strOr (p ''Position'') []))),
      (''NRIC'', escapeXml (Some (strOr (p ''NRIC'') []))),
      (''Passport'', escapeXml (Some (strOr (p ''Passport'') []))),
      (''Race'', escapeXml (Some (strOr (p ''Race'') []))),
      (''DOB'', escapeXml (Some (strOr (p ''DOB'') []))),
      (''JoiningDate'', escapeXml (Some (strOr (p ''JoiningDate'') []))),
      (''ResignDate'', escapeXml (Some (strOr (p ''ResignDate'') []))),
      (''Address1'', escapeXml (Some (strOr (p ''Address1'') []))),
      (''Address2'', escapeXml (Some (strOr (p ''Address2'') []))),
      (''PostalCode'', escapeXml (Some (strOr (p ''PostalCode'') []))),
      (''City'', escapeXml (Some (strOr (p ''City'') []))),
      (''State'', escapeXml (Some (strOr (p ''State'') []))),
      (''Email'', escapeXml (p ''Email'')),
      (''MobileNo'', escapeXml (p ''MobileNo'')),
      (''Photo'', escapeXml (Some (strOr (p ''Photo'') []))),
      (''Download'', escapeXml (p ''Download''))]"
  unfolding profileBlock_def tagsOf_def buildAddCardEnvelope_def fieldLine_folds photo_fold
    concat.simps scan_add_header [OF assms]
  by (simp add: scan_fieldLine scan_add_footer isOpenTag_def)

lemma profileBlock_update:
  assumes "CHR ''>'' \<notin> set ns"
  shows "profileBlock (buildUpdateCardEnvelope p ns ver) =
     [(''CardNo'', escapeXml (p ''CardNo'')),
      (''Name'', escapeXml (Some (strOr (p ''Name'') []))),
      (''CardPinNo'', escapeXml (Some (strOr (p ''CardPinNo'') []))),
      (''CardType'', escapeXml (Some (strOr (p ''CardType'') []))),
      (''Department'', escapeXml (Some (strOr (p ''Department'') []))),
      (''Company'', escapeXml (Some (strOr (p ''Company'') []))),
      (''Gentle'', escapeXml (Some (strOr (p ''Gentle'') []))),
      (''AccessLevel'', escapeXml (Some (strOr (p ''AccessLevel'') []))),
      (''FaceAccessLevel'', escapeXml (Some (strOr (p ''FaceAccessLevel'') []))),
      (''LiftAccessLevel'', escapeXml (Some (strOr (p ''LiftAccessLevel'') []))),
      (''BypassAP'', escapeXml (Some (strOr (p ''BypassAP'') ''false''))),
      (''ActiveStatus'', escapeXml (Some (strOr (p ''ActiveStatus'') ''true''))),
      (''NonExpired'', escapeXml (Some (strOr (p ''NonExpired'') ''true''))),
      (''ExpiredDate'', escapeXml (Some (strOr (p ''ExpiredDate'') []))),
      (''VehicleNo'', escapeXml (Some (strOr (p ''VehicleNo'') []))),
      (''FloorNo'', escapeXml (Some (strOr (p ''FloorNo'') []))),
      (''UnitNo'', escapeXml (Some (strOr (p ''UnitNo'') []))),
      (''ParkingNo'', escapeXml (Some (strOr (p ''ParkingNo'') []))),
      (''StaffNo'', escapeXml (Some (strOr (p ''StaffNo'') []))),
      (''Title'', escapeXml (Some (strOr (p ''Title'') []))),
      (''Position'', escapeXml (Some (strOr (p ''Position'') []))),
      (''NRIC'', escapeXml (Some (strOr (p ''NRIC'') []))),
      (''Passport'', escapeXml (Some (strOr (p ''Passport'') []))),
      (''Race'', escapeXml (Some (strOr (p ''Race'') []))),
      (''DOB'', escapeXml (Some (strOr (p ''DOB'') []))),
      (''JoiningDate'', escapeXml (Some (strOr (p ''JoiningDate'') []))),
      (''ResignDate'', escapeXml (Some (strOr (p ''ResignDate'') []))),
      (''Address1'', escapeXml (Some (strOr (p ''Address1'') []))),
      (''Address2'', escapeXml (Some (strOr (p ''Address2'') []))),
      (''PostalCode'', escapeXml (Some (strOr (p ''PostalCode'') []))),
      (''City'', escapeXml (Some (strOr (p ''City'') []))),
      (''State'', escapeXml (Some (strOr (p ''State'') []))),
      (''Email'', escapeXml (Some (strOr (p ''Email'') []))),
      (''MobileNo'', escapeXml (Some (strOr (p ''MobileNo'') []))),
      (''Photo'', escapeXml (Some (strOr (p ''Photo'') []))),
      (''Download'', escapeXml (Some (strOr (p ''Download'') ''true'')))]"
  unfolding profileBlock_def tagsOf_def buildUpdateCardEnvelope_def fieldLine_folds photo_fold
    concat.simps scan_update_header [OF assms]
  by (simp add: scan_fieldLine scan_update_footer isOpenTag_def)

lemma beforeProfileBlock_add:
  assumes "CHR ''>'' \<notin> set ns"
  shows "filter (\<lambda>e. fst e = ''CardNo'') (beforeProfileBlock (buildAddCardEnvelope p ns ver)) = []"
  unfolding beforeProfileBlock_def tagsOf_def buildAddCardEnvelope_def fieldLine_folds photo_fold
    concat.simps scan_add_header [OF assms]
  by (simp add: scan_fieldLine isOpenTag_def)

lemma beforeProfileBlock_update:
  assumes "CHR ''>'' \<notin> set ns"
  shows "filter (\<lambda>e. fst e = ''CardNo'') (beforeProfileBlock (buildUpdateCardEnvelope p ns ver))
     = [(''CardNo'', escapeXml (p ''CardNo''))]"
  unfolding beforeProfileBlock_def tagsOf_def buildUpdateCardEnvelope_def fieldLine_folds photo_fold
    concat.simps scan_update_header [OF assms]
  by (simp add: scan_fieldLine isOpenTag_def)

lemma tag_structure_add:
  assumes "CHR ''>'' \<notin> set ns"
  shows "map fst (tagsOf (buildAddCardEnvelope p ns ver))
       = map fst (tagsOf (buildAddCardEnvelope p' ns ver))"
  unfolding tagsOf_def buildAddCardEnvelope_def fieldLine_folds photo_fold concat.simps
    scan_add_header [OF assms]
  by (simp add: scan_fieldLine scan_add_footer)

lemma tag_structure_update:
  assumes "CHR ''>'' \<notin> set ns"
  shows "map fst (tagsOf (buildUpdateCardEnvelope p ns ver))
       = map fst (tagsOf (buildUpdateCardEnvelope p' ns ver))"
  unfolding tagsOf_def buildUpdateCardEnvelope_def fieldLine_folds photo_fold concat.simps
    scan_update_header [OF assms]
  by (simp add: scan_fieldLine scan_update_footer)

subsection \<open>Claims on escaping and on the envelopes\<close>

text \<open>
  C10. For every input value, \<open>escapeXml\<close> returns a string with no literal \<open><\<close>,
  \<open>>\<close>, double quote or single quote, in which every \<open>&\<close> begins one of the entities
  \<open>&amp;\<close>, \<open>&lt;\<close>, \<open>&gt;\<close>, \<open>&quot;\<close>, \<open>&apos;\<close>; it maps \<open>null\<close> and
  \<open>undefined\<close> to the empty string; consequently the sequence of tags of a built envelope
  (create or update) is the same whatever the field values are.
\<close>

theorem escapeXml_output_safe:
  "CHR ''<'' \<notin> set (escapeXml v) \<and> CHR ''>'' \<notin> set (escapeXml v)
   \<and> CHR 0x22 \<notin> set (escapeXml v) \<and> CHR 0x27 \<notin> set (escapeXml v)
   \<and> ampersandsBeginEntities (escapeXml v)
   \<and> escapeXml None = []
   \<and> (CHR ''>'' \<notin> set ns \<longrightarrow>
        map fst (tagsOf (buildAddCardEnvelope p ns ver))
          = map fst (tagsOf (buildAddCardEnvelope p' ns ver))
      \<and> map fst (tagsOf (buildUpdateCardEnvelope p ns ver))
          = map fst (tagsOf (buildUpdateCardEnvelope p' ns ver)))"
proof -
  have chars: "CHR ''<'' \<notin> set (escapeXml v) \<and> CHR ''>'' \<notin> set (escapeXml v)
      \<and> CHR 0x22 \<notin> set (escapeXml v) \<and> CHR 0x27 \<notin> set (escapeXml v)"
    using escapeXml_chars [of _ v] by blast
  have none: "escapeXml None = []"
    by (simp add: escapeXml_def)
  show ?thesis
    using chars none amp_escapeXml [of v] tag_structure_add [of ns p ver p']
      tag_structure_update [of ns p ver p']
    by blast
qed

theorem escapeXml_output_safe_witness:
  "CHR ''>'' \<notin> set ''http://tempuri.org/''
   \<and> CHR ''<'' \<notin> set (escapeXml (Some ''</Name><Download>false''))
   \<and> ampersandsBeginEntities (escapeXml (Some ''</Name><Download>false''))
   \<and> map fst (tagsOf (buildAddCardEnvelope [''Name'' \<mapsto> ''</Name><Download>false''] ''http://tempuri.org/'' ''1.1''))
       = map fst (tagsOf (buildAddCardEnvelope Map.empty ''http://tempuri.org/'' ''1.1''))
   \<and> map fst (tagsOf (buildUpdateCardEnvelope [''Name'' \<mapsto> ''</Name><Download>false''] ''http://tempuri.org/'' ''1.1''))
       = map fst (tagsOf (buildUpdateCardEnvelope Map.empty ''http://tempuri.org/'' ''1.1''))"
  using escapeXml_output_safe [where v = "Some ''</Name><Download>false''"
      and ns = "''http://tempuri.org/''" and ver = "''1.1''"
      and p = "[''Name'' \<mapsto> ''</Name><Download>false'']" and p' = Map.empty]
  by simp

text \<open>
  C6, as stated, fails: the seventh tag of the profile block is \<open>Gentle\<close>, not
  \<open>Gender\<close>, and a missing \<open>BypassAP\<close> is rendered as \<open>false\<close>, not as an empty tag.
  The envelope of the profile with no property at all shows both.
\<close>

theorem envelope_tags_counterexample:
  "map fst (profileBlock (buildAddCardEnvelope Map.empty ''http://tempuri.org/'' ''1.1''))
     \<noteq> [''CardNo'', ''Name'', ''CardPinNo'', ''CardType'', ''Department'', ''Company'', ''Gender'', ''AccessLevel'', ''FaceAccessLevel'', ''LiftAccessLevel'', ''BypassAP'', ''ActiveStatus'', ''NonExpired'', ''ExpiredDate'', ''VehicleNo'', ''FloorNo'', ''UnitNo'', ''ParkingNo'', ''StaffNo'', ''Title'', ''Position'', ''NRIC'', ''Passport'', ''Race'', ''DOB'', ''JoiningDate'', ''ResignDate'', ''Address1'', ''Address2'', ''PostalCode'', ''City'', ''State'', ''Email'', ''MobileNo'', ''Photo'', ''Download'']
   \<and> (''BypassAP'', ''false'')
       \<in> set (profileBlock (buildAddCardEnvelope Map.empty ''http://tempuri.org/'' ''1.1''))
   \<and> (''BypassAP'', [])
       \<notin> set (profileBlock (buildAddCardEnvelope Map.empty ''http://tempuri.org/'' ''1.1''))"
proof -
  have ns: "CHR ''>'' \<notin> set ''http://tempuri.org/''"
    by simp
  show ?thesis
    unfolding profileBlock_add [OF ns]
    by (simp add: escapeXml_def strOr_def replaceAll_def)
qed

text \<open>
  C6 (amended). For every profile, the profile block of the built envelope holds exactly
  one tag per field, in the fixed order \<open>CardNo\<close>, \<open>Name\<close>, \<open>CardPinNo\<close>, \<open>CardType\<close>,
  \<open>Department\<close>, \<open>Company\<close>, \<open>Gentle\<close> (the tag of the gender field), \<open>AccessLevel\<close>,
  \<open>FaceAccessLevel\<close>, \<open>LiftAccessLevel\<close>, \<open>BypassAP\<close>, \<open>ActiveStatus\<close>, \<open>NonExpired\<close>,
  \<open>ExpiredDate\<close>, \<open>VehicleNo\<close>, \<open>FloorNo\<close>, \<open>UnitNo\<close>, \<open>ParkingNo\<close>, \<open>StaffNo\<close>,
  \<open>Title\<close>, \<open>Position\<close>, \<open>NRIC\<close>, \<open>Passport\<close>, \<open>Race\<close>, \<open>DOB\<close>, \<open>JoiningDate\<close>,
  \<open>ResignDate\<close>, \<open>Address1\<close>, \<open>Address2\<close>, \<open>PostalCode\<close>, \<open>City\<close>, \<open>State\<close>,
  \<open>Email\<close>, \<open>MobileNo\<close>, \<open>Photo\<close>, \<open>Download\<close>. No tag is omitted; the content of
  every tag is the XML-escaped value; a missing value gives an empty tag, except
  \<open>BypassAP\<close>, which then holds \<open>false\<close>, and, in the update envelope, \<open>ActiveStatus\<close>,
  \<open>NonExpired\<close> and \<open>Download\<close>, which then hold \<open>true\<close>. The update envelope repeats
  \<open>CardNo\<close> once before the profile block, the create envelope does not. (The namespace
  is configuration and is taken to hold no \<open>>\<close>.)
\<close>

theorem envelope_profile_block:
  "CHR ''>'' \<notin> set ns \<longrightarrow>
   profileBlock (buildAddCardEnvelope p ns ver) =
     [(''CardNo'', escapeXml (p ''CardNo'')),
      (''Name'', escapeXml (p ''Name'')),
      (''CardPinNo'', escapeXml (Some (strOr (p ''CardPinNo'') []))),
      (''CardType'', escapeXml (Some (strOr (p ''CardType'') []))),
      (''Department'', escapeXml (p ''Department'')),
      (''Company'', escapeXml (p ''Company'')),
      (''Gentle'', escapeXml (Some (strOr (p ''Gentle'') []))),
      (''AccessLevel'', escapeXml (p ''AccessLevel'')),
      (''FaceAccessLevel'', escapeXml (p ''FaceAccessLevel'')),
      (''LiftAccessLevel'', escapeXml (Some (strOr (p ''LiftAccessLevel'') []))),
      (''BypassAP'', escapeXml (Some (strOr (p ''BypassAP'') ''false''))),
      (''ActiveStatus'', escapeXml (p ''ActiveStatus'')),
      (''NonExpired'', escapeXml (p ''NonExpired'')),
      (''ExpiredDate'', escapeXml (p ''ExpiredDate'')),
      (''VehicleNo'', escapeXml (Some (strOr (p ''VehicleNo'') []))),
      (''FloorNo'', escapeXml (Some (strOr (p ''FloorNo'') []))),
      (''UnitNo'', escapeXml (Some (strOr (p ''UnitNo'') []))),
      (''ParkingNo'', escapeXml (Some (strOr (p ''ParkingNo'') []))),
      (''StaffNo'', escapeXml (Some (strOr (p ''StaffNo'') []))),
      (''Title'', escapeXml (Some (strOr (p ''Title'') []))),
      (''Position'', escapeXml (Some (strOr (p ''Position'') []))),
      (''NRIC'', escapeXml (Some (strOr (p ''NRIC'') []))),
      (''Passport'', escapeXml (Some (strOr (p ''Passport'') []))),
      (''Race'', escapeXml (Some (strOr (p ''Race'') []))),
      (''DOB'', escapeXml (Some (strOr (p ''DOB'') []))),
      (''JoiningDate'', escapeXml (Some (strOr (p ''JoiningDate'') []))),
      (''ResignDate'', escapeXml (Some (strOr (p ''ResignDate'') []))),
      (''Address1'', escapeXml (Some (strOr (p ''Address1'') []))),
      (''Address2'', escapeXml (Some (strOr (p ''Address2'') []))),
      (''PostalCode'', escapeXml (Some (strOr (p ''PostalCode'') []))),
      (''City'', escapeXml (Some (strOr (p ''City'') []))),
      (''State'', escapeXml (Some (strOr (p ''State'') []))),
      (''Email'', escapeXml (p ''Email'')),
      (''MobileNo'', escapeXml (p ''MobileNo'')),
      (''Photo'', escapeXml (Some (strOr (p ''Photo'') []))),
      (''Download'', escapeXml (p ''Download''))]
   \<and> profileBlock (buildUpdateCardEnvelope p ns ver) =
     [(''CardNo'', escapeXml (p ''CardNo'')),
      (''Name'', escapeXml (Some (strOr (p ''Name'') []))),
      (''CardPinNo'', escapeXml (Some (strOr (p ''CardPinNo'') []))),
      (''CardType'', escapeXml (Some (strOr (p ''CardType'') []))),
      (''Department'', escapeXml (Some (strOr (p ''Department'') []))),
      (''Company'', escapeXml (Some (strOr (p ''Company'') []))),
      (''Gentle'', escapeXml (Some (strOr (p ''Gentle'') []))),
      (''AccessLevel'', escapeXml (Some (strOr (p ''AccessLevel'') []))),
      (''FaceAccessLevel'', escapeXml (Some (strOr (p ''FaceAccessLevel'') []))),
      (''LiftAccessLevel'', escapeXml (Some (strOr (p ''LiftAccessLevel'') []))),
      (''BypassAP'', escapeXml (Some (strOr (p ''BypassAP'') ''false''))),
      (''ActiveStatus'', escapeXml (Some (strOr (p ''ActiveStatus'') ''true''))),
      (''NonExpired'', escapeXml (Some (strOr (p ''NonExpired'') ''true''))),
      (''ExpiredDate'', escapeXml (Some (strOr (p ''ExpiredDate'') []))),
      (''VehicleNo'', escapeXml (Some (strOr (p ''VehicleNo'') []))),
      (''FloorNo'', escapeXml (Some (strOr (p ''FloorNo'') []))),
      (''UnitNo'', escapeXml (Some (strOr (p ''UnitNo'') []))),
      (''ParkingNo'', escapeXml (Some (strOr (p ''ParkingNo'') []))),
      (''StaffNo'', escapeXml (Some (strOr (p ''StaffNo'') []))),
      (''Title'', escapeXml (Some (strOr (p ''Title'') []))),
      (''Position'', escapeXml (Some (strOr (p ''Position'') []))),
      (''NRIC'', escapeXml (Some (strOr (p ''NRIC'') []))),
      (''Passport'', escapeXml (Some (strOr (p ''Passport'') []))),
      (''Race'', escapeXml (Some (strOr (p ''Race'') []))),
      (''DOB'', escapeXml (Some (strOr (p ''DOB'') []))),
      (''JoiningDate'', escapeXml (Some (strOr (p ''JoiningDate'') []))),
      (''ResignDate'', escapeXml (Some (strOr (p ''ResignDate'') []))),
      (''Address1'', escapeXml (Some (strOr (p ''Address1'') []))),
      (''Address2'', escapeXml (Some (strOr (p ''Address2'') []))),
      (''PostalCode'', escapeXml (Some (strOr (p ''PostalCode'') []))),
      (''City'', escapeXml (Some (strOr (p ''City'') []))),
      (''State'', escapeXml (Some (strOr (p ''State'') []))),
      (''Email'', escapeXml (Some (strOr (p ''Email'') []))),
      (''MobileNo'', escapeXml (Some (strOr (p ''MobileNo'') []))),
      (''Photo'', escapeXml (Some (strOr (p ''Photo'') []))),
      (''Download'', escapeXml (Some (strOr (p ''Download'') ''true'')))]
   \<and> filter (\<lambda>e. fst e = ''CardNo'') (beforeProfileBlock (buildAddCardEnvelope p ns ver)) = []
   \<and> filter (\<lambda>e. fst e = ''CardNo'') (beforeProfileBlock (buildUpdateCardEnvelope p ns ver))
       = [(''CardNo'', escapeXml (p ''CardNo''))]"
  using profileBlock_add [of ns p ver] profileBlock_update [of ns p ver]
    beforeProfileBlock_add [of ns p ver] beforeProfileBlock_update [of ns p ver]
  by blast

theorem envelope_profile_block_witness:
  "CHR ''>'' \<notin> set ''http://tempuri.org/''
   \<and> map fst (profileBlock (buildAddCardEnvelope [''CardNo'' \<mapsto> ''12<3''] ''http://tempuri.org/'' ''1.1''))
       = [''CardNo'', ''Name'', ''CardPinNo'', ''CardType'', ''Department'', ''Company'', ''Gentle'', ''AccessLevel'', ''FaceAccessLevel'', ''LiftAccessLevel'', ''BypassAP'', ''ActiveStatus'', ''NonExpired'', ''ExpiredDate'', ''VehicleNo'', ''FloorNo'', ''UnitNo'', ''ParkingNo'', ''StaffNo'', ''Title'', ''Position'', ''NRIC'', ''Passport'', ''Race'', ''DOB'', ''JoiningDate'', ''ResignDate'', ''Address1'', ''Address2'', ''PostalCode'', ''City'', ''State'', ''Email'', ''MobileNo'', ''Photo'', ''Download'']
   \<and> map fst (profileBlock (buildUpdateCardEnvelope [''CardNo'' \<mapsto> ''12<3''] ''http://tempuri.org/'' ''1.1''))
       = [''CardNo'', ''Name'', ''CardPinNo'', ''CardType'', ''Department'', ''Company'', ''Gentle'', ''AccessLevel'', ''FaceAccessLevel'', ''LiftAccessLevel'', ''BypassAP'', ''ActiveStatus'', ''NonExpired'', ''ExpiredDate'', ''VehicleNo'', ''FloorNo'', ''UnitNo'', ''ParkingNo'', ''StaffNo'', ''Title'', ''Position'', ''NRIC'', ''Passport'', ''Race'', ''DOB'', ''JoiningDate'', ''ResignDate'', ''Address1'', ''Address2'', ''PostalCode'', ''City'', ''State'', ''Email'', ''MobileNo'', ''Photo'', ''Download'']
   \<and> filter (\<lambda>e. fst e = ''CardNo'')
        (beforeProfileBlock (buildUpdateCardEnvelope [''CardNo'' \<mapsto> ''12<3''] ''http://tempuri.org/'' ''1.1''))
       = [(''CardNo'', ''12&lt;3'')]"
  using envelope_profile_block [where ns = "''http://tempuri.org/''" and ver = "''1.1''"
      and p = "[''CardNo'' \<mapsto> ''12<3'']"]
  by (simp add: escapeXml_def replaceAll_def)

subsection \<open>Trimming and clipping\<close>

lemma length_trim: "length (trim x) \<le> length x"
proof -
  have "length (dropWhile isWhiteSpace (rev (dropWhile isWhiteSpace x)))
      \<le> length (rev (dropWhile isWhiteSpace x))"
    by (rule length_dropWhile_le)
  also have "\<dots> \<le> length x"
    by (simp add: length_dropWhile_le)
  finally show ?thesis
    by (simp add: trim_def)
qed

lemma trim_prefix: "\<exists>rest. dropWhile isWhiteSpace x = trim x @ rest"
proof -
  let ?a = "dropWhile isWhiteSpace x"
  have "rev (takeWhile isWhiteSpace (rev ?a) @ dropWhile isWhiteSpace (rev ?a)) = ?a"
    by (simp only: takeWhile_dropWhile_id rev_rev_ident)
  then have "rev (dropWhile isWhiteSpace (rev ?a)) @ rev (takeWhile isWhiteSpace (rev ?a)) = ?a"
    by (simp only: rev_append)
  then have "?a = trim x @ rev (takeWhile isWhiteSpace (rev ?a))"
    by (simp only: trim_def)
  then show ?thesis ..
qed

lemma hd_trim: "trim x \<noteq> [] \<Longrightarrow> \<not> isWhiteSpace (hd (trim x))"
proof -
  assume ne: "trim x \<noteq> []"
  obtain rest where a: "dropWhile isWhiteSpace x = trim x @ rest"
    using trim_prefix by blast
  with ne have "dropWhile isWhiteSpace x \<noteq> []" by auto
  then have "\<not> isWhiteSpace (hd (dropWhile isWhiteSpace x))"
    by (rule hd_dropWhile)
  with a ne show ?thesis by simp
qed

lemma trim_id:
  assumes "y = [] \<or> (\<not> isWhiteSpace (hd y) \<and> \<not> isWhiteSpace (last y))"
  shows "trim y = y"
proof (cases y)
  case Nil
  then show ?thesis by (simp add: trim_def)
next
  case (Cons c cs)
  with assms have h: "\<not> isWhiteSpace (hd y)" and l: "\<not> isWhiteSpace (last y)" by auto
  from h Cons have 1: "dropWhile isWhiteSpace y = y" by simp
  from Cons have "rev y \<noteq> []" by simp
  moreover from l Cons have "\<not> isWhiteSpace (hd (rev y))"
    by (metis hd_rev list.distinct(1))
  ultimately have 2: "dropWhile isWhiteSpace (rev y) = rev y"
    by (cases "rev y") auto
  show ?thesis by (simp add: trim_def 1 2)
qed

lemma length_clip: "m \<noteq> 0 \<Longrightarrow> length (clip v m) \<le> m"
  by (cases v) (auto simp: clip_def Let_def)

lemma clip_twice: "clip (Some (clip v m)) m = trim (clip v m)"
proof (cases "m = 0")
  case True
  then show ?thesis by (simp add: clip_def Let_def)
next
  case False
  have "length (trim (clip v m)) \<le> m"
    using length_trim [of "clip v m"] length_clip [OF False, of v] by linarith
  then show ?thesis by (simp add: clip_def Let_def)
qed

lemma hd_clip: "clip v m \<noteq> [] \<Longrightarrow> \<not> isWhiteSpace (hd (clip v m))"
proof (cases v)
  case None
  then show "clip v m \<noteq> [] \<Longrightarrow> ?thesis" by (simp add: clip_def)
next
  case (Some x)
  assume ne: "clip v m \<noteq> []"
  with Some have t: "trim x \<noteq> []"
    by (auto simp: clip_def Let_def split: if_splits)
  from Some ne have "hd (clip v m) = hd (trim x)"
    by (auto simp: clip_def Let_def split: if_splits)
  with hd_trim [OF t] show ?thesis by simp
qed

lemma clip_stable:
  assumes "clip v m = [] \<or> \<not> isWhiteSpace (last (clip v m))"
  shows "clip (Some (clip v m)) m = clip v m"
  unfolding clip_twice
  using assms hd_clip [of v m] by (intro trim_id) blast

subsection \<open>Field lengths of the update profile\<close>

lemma update_field_lengths:
  "\<exists>x. mapRowToUpdateProfile row ''Name'' = Some x \<and> length x \<le> 40"
  "\<exists>x. mapRowToUpdateProfile row ''Department'' = Some x \<and> length x \<le> 30"
  "\<exists>x. mapRowToUpdateProfile row ''Company'' = Some x \<and> length x \<le> 30"
  "\<exists>x. mapRowToUpdateProfile row ''Title'' = Some x \<and> length x \<le> 25"
  "\<exists>x. mapRowToUpdateProfile row ''Position'' = Some x \<and> length x \<le> 25"
  "\<exists>x. mapRowToUpdateProfile row ''Address1'' = Some x \<and> length x \<le> 50"
  "\<exists>x. mapRowToUpdateProfile row ''Email'' = Some x \<and> length x \<le> 50"
  "\<exists>x. mapRowToUpdateProfile row ''MobileNo'' = Some x \<and> length x \<le> 20"
  "\<exists>x. mapRowToUpdateProfile row ''VehicleNo'' = Some x \<and> length x \<le> 15"
  "\<exists>x. mapRowToUpdateProfile row ''StaffNo'' = Some x \<and> length x \<le> 15"
  "\<exists>x. mapRowToUpdateProfile row ''CardNo'' = Some x \<and> length x \<le> 10"
  by (simp_all add: mapRowToUpdateProfile_def Let_def maxOf_def MAX_table_def length_clip)

lemma update_within_table:
  assumes "(k, m) \<in> set MAX_table" "mapRowToUpdateProfile row k = Some x"
  shows "length x \<le> m"
  using assms update_field_lengths [of row]
  by (auto simp: MAX_table_def)

lemma create_cardNo_length:
  "\<exists>x. mapRowToProfile row ''CardNo'' = Some x \<and> length x \<le> 10"
  by (simp add: mapRowToProfile_def Let_def)

subsection \<open>Blank card-number columns\<close>

lemma blank_orChain: "list_all blankCell vs \<Longrightarrow> blankCell (orChain vs)"
  by (induction vs rule: orChain.induct) (auto simp: blankCell_def)

lemma s_str_blank: "blankCell v \<Longrightarrow> s_str v = []"
  by (auto simp: blankCell_def s_str_def cellToString_def split: option.splits cell.splits)

lemma create_cardNo_blank:
  assumes "list_all (\<lambda>k. blankCell (row k)) createCardNoColumns"
  shows "mapRowToProfile row ''CardNo'' = Some []"
proof -
  have "blankCell (orChain [row ''Card No #[Max 10]'', row ''Card No [Max 10]'', row ''Card No'',
          row ''CardNo'', row ''Card Number''])"
    by (rule blank_orChain) (use assms in \<open>simp add: createCardNoColumns_def\<close>)
  then have "s_str (orChain [row ''Card No #[Max 10]'', row ''Card No [Max 10]'', row ''Card No'',
          row ''CardNo'', row ''Card Number'']) = []"
    by (rule s_str_blank)
  then show ?thesis
    by (simp add: mapRowToProfile_def Let_def)
qed

lemma update_cardNo_blank:
  assumes "list_all (\<lambda>k. blankCell (row k)) updateCardNoColumns"
  shows "mapRowToUpdateProfile row ''CardNo'' = Some []"
proof -
  have "blankCell (orChain [row ''CARD NO'', row ''Card No'', row ''CardNo'', row ''Card Number''])"
    by (rule blank_orChain) (use assms in \<open>simp add: updateCardNoColumns_def\<close>)
  then have "s_str (orChain [row ''CARD NO'', row ''Card No'', row ''CardNo'', row ''Card Number'']) = []"
    by (rule s_str_blank)
  then show ?thesis
    by (simp add: mapRowToUpdateProfile_def Let_def)
qed

lemma create_cardNo_depends:
  assumes "list_all (\<lambda>k. row k = row' k) createCardNoColumns"
  shows "mapRowToProfile row ''CardNo'' = mapRowToProfile row' ''CardNo''"
  using assms by (simp add: mapRowToProfile_def Let_def createCardNoColumns_def)

lemma update_cardNo_depends:
  assumes "list_all (\<lambda>k. row k = row' k) updateCardNoColumns"
  shows "mapRowToUpdateProfile row ''CardNo'' = mapRowToUpdateProfile row' ''CardNo''"
  using assms by (simp add: mapRowToUpdateProfile_def Let_def updateCardNoColumns_def)

subsection \<open>Evaluating the date normalisation\<close>

lemmas date_text = normalizeExcelDate_def Let_def trim_def isWhiteSpace_def isNumericText_def
  isDigit_def months_def intToString_def natToString.simps digitChar_def

lemmas serial_eval = serialTimeValue_def Let_def isDigit_def digitsToNat_def digitValue_def
  roundDouble_def roundMagnitude_def fractionOf_def subDouble_def mulDouble_def bitLength.simps

lemma serial_35524: "serialTimeValue ''35524'' = Some 860112000000"
  by (simp add: serial_eval cong: let_weak_cong)

lemma serial_0: "serialTimeValue ''0'' = Some (- 2209161600000)"
  by (simp add: serial_eval cong: let_weak_cong)

lemma serial_25569: "serialTimeValue ''25569'' = Some 0"
  by (simp add: serial_eval cong: let_weak_cong)

text \<open>A fraction that no double holds is rounded first: \<open>25569.999999999999\<close> reads as 25570.\<close>

lemma serial_rounded: "serialTimeValue ''25569.999999999999'' = Some 86400000"
  by (simp add: serial_eval cong: let_weak_cong)

lemma civil_9955: "civilFromDays 9955 = (1997, 3, 4)"
  by (simp add: civilFromDays_def Let_def cong: let_weak_cong)

lemma civil_before_1900: "civilFromDays (- 25569) = (1899, 11, 30)"
  by (simp add: civilFromDays_def Let_def cong: let_weak_cong)

lemma civil_0: "civilFromDays 0 = (1970, 0, 1)"
  by (simp add: civilFromDays_def Let_def cong: let_weak_cong)

lemma date_35524: "normalizeExcelDate (Some ''35524'') = ''4 Apr 1997''"
  by (simp add: date_text serial_35524 civil_9955 cong: let_weak_cong)

lemma date_iso_text: "normalizeExcelDate (Some ''1990-01-02'') = ''1990-01-02''"
  by (simp add: date_text cong: let_weak_cong)

lemma date_untrimmed: "normalizeExcelDate (Some '' 1990-01-02'') = ''1990-01-02''"
  by (simp add: date_text cong: let_weak_cong)

lemma date_serial_0: "normalizeExcelDate (Some ''0'') = ''30 Dec 1899''"
  by (simp add: date_text serial_0 civil_before_1900 cong: let_weak_cong)

lemma date_serial_25569: "normalizeExcelDate (Some ''25569'') = ''1 Jan 1970''"
  by (simp add: date_text serial_25569 civil_0 cong: let_weak_cong)

lemma date_not_numeric:
  "\<not> isNumericText (trim v) \<Longrightarrow> normalizeExcelDate (Some v) = trim v"
  by (simp add: normalizeExcelDate_def Let_def)

subsection \<open>Claims on the mappers\<close>

text \<open>
  C7, as stated, fails: the serial 35524 is 4 April 1997 (17 April 1997 is the serial
  35537), and a non-numeric input with white space around it comes back trimmed.
\<close>

theorem date_normalisation_counterexample:
  "normalizeExcelDate (Some ''35524'') \<noteq> ''17 Apr 1997''
   \<and> normalizeExcelDate (Some '' 1990-01-02'') \<noteq> '' 1990-01-02''"
  by (simp add: date_35524 date_untrimmed)

text \<open>
  C7 (amended). Date normalisation maps the numeric day-count input \<open>35524\<close> to the text
  \<open>4 Apr 1997\<close> (serial days since 1899-12-30, so that the serial 0 is \<open>30 Dec 1899\<close> and
  the serial 25569 is \<open>1 Jan 1970\<close>; rendered as \<open>D Mon YYYY\<close>), and maps every
  non-numeric input to its trimmed text: an input without white space around it, such as
  \<open>1990-01-02\<close>, comes back unchanged.
\<close>

theorem date_normalisation:
  "normalizeExcelDate (Some ''35524'') = ''4 Apr 1997''
   \<and> normalizeExcelDate (Some ''0'') = ''30 Dec 1899''
   \<and> normalizeExcelDate (Some ''25569'') = ''1 Jan 1970''
   \<and> normalizeExcelDate (Some ''1990-01-02'') = ''1990-01-02''
   \<and> (\<not> isNumericText (trim v) \<longrightarrow> normalizeExcelDate (Some v) = trim v)
   \<and> (\<not> isNumericText v \<and> trim v = v \<longrightarrow> normalizeExcelDate (Some v) = v)"
  using date_35524 date_serial_0 date_serial_25569 date_iso_text date_not_numeric [of v]
  by auto

theorem date_normalisation_witness:
  "\<not> isNumericText (trim ''2 January 1990'') \<and> trim ''2 January 1990'' = ''2 January 1990''
   \<and> normalizeExcelDate (Some ''2 January 1990'') = ''2 January 1990''"
  using date_normalisation [of "''2 January 1990''"]
  by (simp add: trim_def isWhiteSpace_def isNumericText_def isDigit_def)

text \<open>
  C4, as stated, fails twice. The create mapper clips nothing but \<open>CardNo\<close>: a name of
  51 characters in the column \<open>Card Name [Max 50]\<close> stays 51 characters long. And
  \<open>clip\<close> trims before it cuts, so a cut that ends in a blank is trimmed again by a
  second clipping.
\<close>

theorem clipping_counterexample:
  "map_option length
     (mapRowToProfile [''Card Name [Max 50]'' \<mapsto> CStr ''aaaaaaaaaaaaaaaaaaaaaaaaaaaaaaaaaaaaaaaaaaaaaaaaaaa''] ''Name'') = Some 51
   \<and> clip (Some ''ab cd'') 3 = ''ab ''
   \<and> clip (Some (clip (Some ''ab cd'') 3)) 3 = ''ab''"
  by (simp add: mapRowToProfile_def Let_def s_str_def truthy_def cellToString_def clip_def
        trim_def isWhiteSpace_def cong: let_weak_cong)

text \<open>
  C4 (amended). For every input row, every string field of the profile of the update
  mapper that has an entry in its table of maximum lengths (\<open>Name\<close> 40, \<open>Department\<close>
  30, \<open>Company\<close> 30, \<open>Title\<close> 25, \<open>Position\<close> 25, \<open>Address1\<close> 50, \<open>Email\<close> 50,
  \<open>MobileNo\<close> 20, \<open>VehicleNo\<close> 15, \<open>StaffNo\<close> 15) is no longer than that maximum, and
  \<open>CardNo\<close> is at most 10 characters long in both mapper variants. Clipping an already
  clipped value to the same maximum gives its trimmed form, which is never longer, and
  gives it back unchanged whenever it does not end in white space.
\<close>

theorem update_profile_within_limits:
  "(\<forall>k m x. (k, m) \<in> set MAX_table \<longrightarrow> mapRowToUpdateProfile row k = Some x \<longrightarrow> length x \<le> m)
   \<and> (\<exists>x. mapRowToUpdateProfile row ''CardNo'' = Some x \<and> length x \<le> 10)
   \<and> (\<exists>x. mapRowToProfile row ''CardNo'' = Some x \<and> length x \<le> 10)
   \<and> (m \<noteq> 0 \<longrightarrow> length (clip v m) \<le> m)
   \<and> clip (Some (clip v m)) m = trim (clip v m)
   \<and> length (clip (Some (clip v m)) m) \<le> length (clip v m)
   \<and> (clip v m = [] \<or> \<not> isWhiteSpace (last (clip v m)) \<longrightarrow> clip (Some (clip v m)) m = clip v m)"
proof -
  have "length (clip (Some (clip v m)) m) \<le> length (clip v m)"
    unfolding clip_twice by (rule length_trim)
  then show ?thesis
    using update_within_table [of _ _ row] update_field_lengths(11) [of row]
      create_cardNo_length [of row] length_clip [of m v] clip_twice [of v m] clip_stable [of v m]
    by blast
qed

theorem update_profile_within_limits_witness:
  "(''Name'', 40) \<in> set MAX_table
   \<and> mapRowToUpdateProfile [''NAME'' \<mapsto> CStr ''aaaaaaaaaaaaaaaaaaaaaaaaaaaaaaaaaaaaaaaaaaaaaaaaaaa''] ''Name''
       = Some (take 40 ''aaaaaaaaaaaaaaaaaaaaaaaaaaaaaaaaaaaaaaaaaaaaaaaaaaa'')
   \<and> (3::nat) \<noteq> 0 \<and> length (clip (Some ''ab cd'') 3) \<le> 3
   \<and> \<not> isWhiteSpace (last (clip (Some ''abcd'') 3))
   \<and> clip (Some (clip (Some ''abcd'') 3)) 3 = clip (Some ''abcd'') 3"
  using update_profile_within_limits [where row = "[''NAME'' \<mapsto> CStr ''aaaaaaaaaaaaaaaaaaaaaaaaaaaaaaaaaaaaaaaaaaaaaaaaaaa'']"
      and v = "Some ''abcd''" and m = 3]
    update_profile_within_limits [where row = "[''NAME'' \<mapsto> CStr ''aaaaaaaaaaaaaaaaaaaaaaaaaaaaaaaaaaaaaaaaaaaaaaaaaaa'']"
      and v = "Some ''ab cd''" and m = 3]
  by (simp add: MAX_table_def mapRowToUpdateProfile_def Let_def s_str_def truthy_def
        cellToString_def clip_def maxOf_def trim_def isWhiteSpace_def cong: let_weak_cong)

text \<open>
  C8. For every input row and both mapper variants, the \<open>CardNo\<close> of the produced profile
  is derived only from the card-number columns: rows that agree on these columns get the
  same \<open>CardNo\<close>, and if every card-number column is blank the \<open>CardNo\<close> is the empty
  string, whatever the staff-number columns hold.
\<close>

theorem cardNo_only_from_card_columns:
  "(list_all (\<lambda>k. blankCell (row k)) createCardNoColumns
      \<longrightarrow> mapRowToProfile row ''CardNo'' = Some [])
   \<and> (list_all (\<lambda>k. blankCell (row k)) updateCardNoColumns
      \<longrightarrow> mapRowToUpdateProfile row ''CardNo'' = Some [])
   \<and> (list_all (\<lambda>k. row k = row' k) createCardNoColumns
      \<longrightarrow> mapRowToProfile row ''CardNo'' = mapRowToProfile row' ''CardNo'')
   \<and> (list_all (\<lambda>k. row k = row' k) updateCardNoColumns
      \<longrightarrow> mapRowToUpdateProfile row ''CardNo'' = mapRowToUpdateProfile row' ''CardNo'')"
  using create_cardNo_blank [of row] update_cardNo_blank [of row]
    create_cardNo_depends [of row row'] update_cardNo_depends [of row row']
  by blast

theorem cardNo_only_from_card_columns_witness:
  "list_all (\<lambda>k. blankCell
       ([''Staff No [Max 15]'' \<mapsto> CStr ''778899'', ''STAFF ID'' \<mapsto> CStr ''778899'',
         ''Card No'' \<mapsto> CStr ''  ''] k)) createCardNoColumns
   \<and> list_all (\<lambda>k. blankCell
       ([''Staff No [Max 15]'' \<mapsto> CStr ''778899'', ''STAFF ID'' \<mapsto> CStr ''778899'',
         ''Card No'' \<mapsto> CStr ''  ''] k)) updateCardNoColumns
   \<and> \<not> blankCell ([''Staff No [Max 15]'' \<mapsto> CStr ''778899'', ''STAFF ID'' \<mapsto> CStr ''778899'',
         ''Card No'' \<mapsto> CStr ''  ''] ''STAFF ID'')
   \<and> mapRowToProfile [''Staff No [Max 15]'' \<mapsto> CStr ''778899'', ''STAFF ID'' \<mapsto> CStr ''778899'',
         ''Card No'' \<mapsto> CStr ''  ''] ''CardNo'' = Some []
   \<and> mapRowToUpdateProfile [''Staff No [Max 15]'' \<mapsto> CStr ''778899'', ''STAFF ID'' \<mapsto> CStr ''778899'',
         ''Card No'' \<mapsto> CStr ''  ''] ''CardNo'' = Some []"
  using cardNo_only_from_card_columns
    [where row = "[''Staff No [Max 15]'' \<mapsto> CStr ''778899'', ''STAFF ID'' \<mapsto> CStr ''778899'',
         ''Card No'' \<mapsto> CStr ''  '']" and row' = Map.empty]
  by (simp add: createCardNoColumns_def updateCardNoColumns_def blankCell_def trim_def
        isWhiteSpace_def)

subsection \<open>One row of the create batch\<close>

lemma code_mkError [simp]:
  "code (mkError c m) = c" "message (mkError c m) = m" "e_index (mkError c m) = None"
  "e_errCode (mkError c m) = None" "e_cardNo (mkError c m) = None"
  by (simp_all add: mkError_def)

lemma registerRow_missing:
  assumes "\<not> truthyStr (createProfile om i row ''CardNo'')"
  shows "registerRow post fs ns ver om i row (res, net) =
    (res\<lparr>attempted := attempted res + 1,
         errors := errors res @
           [(mkError ''CARD_NO_MISSING'' ''Card No is required'')
              \<lparr>e_index := Some i, e_name := createProfile om i row ''Name''\<rparr>],
         details := details res @
           [\<lparr>d_cardNo = Some [], d_name = createProfile om i row ''Name'', d_hasPhoto = False,
             d_respCode = Some ''CARD_NO_MISSING'',
             d_respMessage = Some ''Card No is required'', d_profile = None\<rparr>]\<rparr>, net)"
  using assms by (simp add: registerRow_def Let_def)

lemma registerRow_response:
  assumes "truthyStr (createProfile om i row ''CardNo'')"
    and "post net (buildAddCardEnvelope (fst (tryAttachPhoto fs (createProfile om i row))) ns ver)
           = (Inr r, net')"
  shows "registered (fst (registerRow post fs ns ver om i row (res, net))) =
           registered res +
             (if (200 \<le> httpStatus r \<and> httpStatus r < 300)
                 \<and> (case errCode r of None \<Rightarrow> False
                     | Some c \<Rightarrow> isZero (jsNumber c) \<or> isOne (jsNumber c)) then 1 else 0)"
    and "errors (fst (registerRow post fs ns ver om i row (res, net))) =
           errors res @
             (if (200 \<le> httpStatus r \<and> httpStatus r < 300)
                 \<and> (case errCode r of None \<Rightarrow> False
                     | Some c \<Rightarrow> isZero (jsNumber c) \<or> isOne (jsNumber c)) then []
              else if \<not> (200 \<le> httpStatus r \<and> httpStatus r < 300) then
                [(mkError ''HTTP_ERROR'' (''HTTP '' @ intToString (httpStatus r)))
                   \<lparr>e_cardNo := fst (tryAttachPhoto fs (createProfile om i row)) ''CardNo''\<rparr>]
              else
                [(mkError ''VAULT_ERROR'' (strOr (errMessage r) ''Unknown error''))
                   \<lparr>e_errCode := errCode r,
                    e_cardNo := fst (tryAttachPhoto fs (createProfile om i row)) ''CardNo''\<rparr>])"
    and "snd (registerRow post fs ns ver om i row (res, net)) = net'"
  using assms
  by (cases "tryAttachPhoto fs (createProfile om i row)";
      cases "errCode r"; simp add: registerRow_def Let_def isZero_def isOne_def)+

lemma registerRow_attempted:
  "attempted (fst (registerRow post fs ns ver om i row st)) = attempted (fst st) + 1"
  by (cases st) (simp add: registerRow_def Let_def split: prod.splits sum.splits)

lemma registerRow_errors_grow:
  "\<exists>es. errors (fst (registerRow post fs ns ver om i row st)) = errors (fst st) @ es"
  by (cases st) (simp add: registerRow_def Let_def split: prod.splits sum.splits)

lemma registerRows_append:
  "registerRows post fs ns ver om i (xs @ ys) st =
     registerRows post fs ns ver om (i + length xs) ys (registerRows post fs ns ver om i xs st)"
  by (induction xs arbitrary: i st) simp_all

lemma registerRows_attempted:
  "attempted (fst (registerRows post fs ns ver om i rows st)) = attempted (fst st) + length rows"
  by (induction rows arbitrary: i st) (simp_all add: registerRow_attempted)

lemma registerRows_errors_grow:
  "\<exists>es. errors (fst (registerRows post fs ns ver om i rows st)) = errors (fst st) @ es"
proof (induction rows arbitrary: i st)
  case Nil
  then show ?case by simp
next
  case (Cons row rows)
  obtain es1 where 1: "errors (fst (registerRow post fs ns ver om i row st)) = errors (fst st) @ es1"
    using registerRow_errors_grow by blast
  obtain es2 where "errors (fst (registerRows post fs ns ver om (Suc i) rows
        (registerRow post fs ns ver om i row st)))
      = errors (fst (registerRow post fs ns ver om i row st)) @ es2"
    using Cons.IH by blast
  with 1 show ?case by simp
qed

lemma registerRows_at:
  assumes "i < length rows"
  shows "registerRows post fs ns ver om 0 rows st =
     registerRows post fs ns ver om (Suc i) (drop (Suc i) rows)
       (registerRow post fs ns ver om i (rows ! i)
          (registerRows post fs ns ver om 0 (take i rows) st))"
proof -
  have "rows = take i rows @ (rows ! i # drop (Suc i) rows)"
    using assms by (simp add: id_take_nth_drop)
  then have "registerRows post fs ns ver om 0 rows st =
      registerRows post fs ns ver om 0 (take i rows @ (rows ! i # drop (Suc i) rows)) st"
    by simp
  also have "\<dots> = registerRows post fs ns ver om (Suc i) (drop (Suc i) rows)
       (registerRow post fs ns ver om i (rows ! i)
          (registerRows post fs ns ver om 0 (take i rows) st))"
    using assms by (simp add: registerRows_append min_def)
  finally show ?thesis .
qed

subsection \<open>One row of the update batch\<close>

lemma updateRow_response:
  assumes "post net (buildUpdateCardEnvelope (fst (tryAttachPhoto fs (updateProfile ovs i row))) ns ver)
           = (Inr r, net')"
  shows "registered (fst (updateRow post fs ns ver ovs i row (res, net))) =
           registered res + (if updateOk r then 1 else 0)"
    and "errors (fst (updateRow post fs ns ver ovs i row (res, net))) =
           errors res @
             (if updateOk r then []
              else [(mkError ''VAULT_ERROR'' (strOr (errMessage r) ''Unknown error''))
                      \<lparr>e_errCode := errCode r,
                       e_cardNo := fst (tryAttachPhoto fs (updateProfile ovs i row)) ''CardNo'',
                       e_index := Some i\<rparr>])"
    and "snd (updateRow post fs ns ver ovs i row (res, net)) = net'"
  using assms
  by (cases "tryAttachPhoto fs (updateProfile ovs i row)"; simp add: updateRow_def Let_def)+

lemma updateOk_iff:
  "updateOk r \<longleftrightarrow> (200 \<le> httpStatus r \<and> httpStatus r < 300)
      \<and> (errCode r = None \<or> errCode r = Some [] \<or> errCode r = Some ''0'')"
  by (cases "errCode r") (auto simp: updateOk_def status_def truthyStr_def)

lemma updateRow_step:
  "case updateRow post fs ns ver ovs i row (res, net) of (res', net') \<Rightarrow>
     attempted res' = attempted res
     \<and> withPhoto res' + withoutPhoto res' = withPhoto res + withoutPhoto res + 1
     \<and> ((registered res' = registered res + 1 \<and> errors res' = errors res)
        \<or> (registered res' = registered res
           \<and> (\<exists>e. errors res' = errors res @ [e] \<and> e_index e = Some i)))"
  by (simp add: updateRow_def Let_def split: prod.splits sum.splits)

lemma updateRows_invariant:
  "case updateRows post fs ns ver ovs i rows (res, net) of (res', net') \<Rightarrow>
     attempted res' = attempted res
     \<and> withPhoto res' + withoutPhoto res' = withPhoto res + withoutPhoto res + length rows
     \<and> registered res' + length (errors res') = registered res + length (errors res) + length rows"
proof (induction rows arbitrary: i res net)
  case Nil
  then show ?case by simp
next
  case (Cons row rows)
  obtain res1 net1 where s: "updateRow post fs ns ver ovs i row (res, net) = (res1, net1)"
    by (cases "updateRow post fs ns ver ovs i row (res, net)")
  have 1: "attempted res1 = attempted res
     \<and> withPhoto res1 + withoutPhoto res1 = withPhoto res + withoutPhoto res + 1
     \<and> registered res1 + length (errors res1) = registered res + length (errors res) + 1"
    using updateRow_step [where post = post and fs = fs and ns = ns and ver = ver and ovs = ovs
        and i = i and row = row and res = res and net = net] s by auto
  show ?case
    using Cons.IH [where i = "Suc i" and res = res1 and net = net1] 1 s
    by (auto split: prod.splits)
qed

lemma updateRows_indices:
  "\<exists>js. map e_index (errors (fst (updateRows post fs ns ver ovs i rows (res, net))))
          = map e_index (errors res) @ map Some js
        \<and> sorted_wrt (<) js \<and> (\<forall>j\<in>set js. i \<le> j \<and> j < i + length rows)"
proof (induction rows arbitrary: i res net)
  case Nil
  show ?case by (rule exI [of _ "[]"]) simp
next
  case (Cons row rows)
  obtain res1 net1 where s: "updateRow post fs ns ver ovs i row (res, net) = (res1, net1)"
    by (cases "updateRow post fs ns ver ovs i row (res, net)")
  obtain js where js: "map e_index (errors (fst (updateRows post fs ns ver ovs (Suc i) rows (res1, net1))))
          = map e_index (errors res1) @ map Some js"
      "sorted_wrt (<) js" "\<forall>j\<in>set js. Suc i \<le> j \<and> j < Suc i + length rows"
    using Cons.IH [where i = "Suc i" and res = res1 and net = net1] by blast
  have "errors res1 = errors res \<or> (\<exists>e. errors res1 = errors res @ [e] \<and> e_index e = Some i)"
    using updateRow_step [where post = post and fs = fs and ns = ns and ver = ver and ovs = ovs
        and i = i and row = row and res = res and net = net] s by auto
  then show ?case
  proof
    assume "errors res1 = errors res"
    with js s show ?thesis
      by (intro exI [of _ js]) auto
  next
    assume "\<exists>e. errors res1 = errors res @ [e] \<and> e_index e = Some i"
    then obtain e where e: "errors res1 = errors res @ [e]" "e_index e = Some i" by blast
    with js s show ?thesis
      by (intro exI [of _ "i # js"]) auto
  qed
qed

subsection \<open>Claims on the classification of responses\<close>

text \<open>
  C1. For every response with an HTTP status in [200,300): the create operation counts
  the row as registered (and records no error) exactly when the vendor error code parses,
  by \<open>Number\<close>, to 0 or 1, and otherwise records \<open>VAULT_ERROR\<close>; the update operation counts
  the row as updated exactly when the vendor error code is absent, empty or the string
  \<open>0\<close>, and otherwise records \<open>VAULT_ERROR\<close>. In particular the vendor code \<open>1\<close> with
  HTTP 200 is a success for create and a \<open>VAULT_ERROR\<close> for update.
\<close>

theorem business_success_rules:
  "200 \<le> httpStatus r \<and> httpStatus r < 300 \<longrightarrow>
   (truthyStr (createProfile om i row ''CardNo'')
    \<and> post net (buildAddCardEnvelope (fst (tryAttachPhoto fs (createProfile om i row))) ns ver)
        = (Inr r, net')
    \<longrightarrow> (if (case errCode r of None \<Rightarrow> False
               | Some c \<Rightarrow> isZero (jsNumber c) \<or> isOne (jsNumber c))
         then registered (fst (registerRow post fs ns ver om i row (res, net))) = registered res + 1
            \<and> errors (fst (registerRow post fs ns ver om i row (res, net))) = errors res
         else registered (fst (registerRow post fs ns ver om i row (res, net))) = registered res
            \<and> map code (errors (fst (registerRow post fs ns ver om i row (res, net))))
                = map code (errors res) @ [''VAULT_ERROR'']))
   \<and> (post net (buildUpdateCardEnvelope (fst (tryAttachPhoto fs (updateProfile ovs i row'))) ns ver)
        = (Inr r, net')
    \<longrightarrow> (if errCode r = None \<or> errCode r = Some [] \<or> errCode r = Some ''0''
         then registered (fst (updateRow post fs ns ver ovs i row' (res, net))) = registered res + 1
            \<and> errors (fst (updateRow post fs ns ver ovs i row' (res, net))) = errors res
         else registered (fst (updateRow post fs ns ver ovs i row' (res, net))) = registered res
            \<and> map code (errors (fst (updateRow post fs ns ver ovs i row' (res, net))))
                = map code (errors res) @ [''VAULT_ERROR'']))"
proof (intro impI conjI)
  assume ok: "200 \<le> httpStatus r \<and> httpStatus r < 300"
  {
    assume a: "truthyStr (createProfile om i row ''CardNo'')
      \<and> post net (buildAddCardEnvelope (fst (tryAttachPhoto fs (createProfile om i row))) ns ver)
        = (Inr r, net')"
    show "if (case errCode r of None \<Rightarrow> False
               | Some c \<Rightarrow> isZero (jsNumber c) \<or> isOne (jsNumber c))
         then registered (fst (registerRow post fs ns ver om i row (res, net))) = registered res + 1
            \<and> errors (fst (registerRow post fs ns ver om i row (res, net))) = errors res
         else registered (fst (registerRow post fs ns ver om i row (res, net))) = registered res
            \<and> map code (errors (fst (registerRow post fs ns ver om i row (res, net))))
                = map code (errors res) @ [''VAULT_ERROR'']"
      using ok a registerRow_response(1,2) [where om = om and i = i and row = row and post = post
          and net = net and fs = fs and ns = ns and ver = ver and r = r and net' = net' and res = res]
      by simp
  }
  {
    assume a: "post net (buildUpdateCardEnvelope (fst (tryAttachPhoto fs (updateProfile ovs i row'))) ns ver)
        = (Inr r, net')"
    show "if errCode r = None \<or> errCode r = Some [] \<or> errCode r = Some ''0''
         then registered (fst (updateRow post fs ns ver ovs i row' (res, net))) = registered res + 1
            \<and> errors (fst (updateRow post fs ns ver ovs i row' (res, net))) = errors res
         else registered (fst (updateRow post fs ns ver ovs i row' (res, net))) = registered res
            \<and> map code (errors (fst (updateRow post fs ns ver ovs i row' (res, net))))
                = map code (errors res) @ [''VAULT_ERROR'']"
      using ok a updateOk_iff [of r] updateRow_response(1,2) [where ovs = ovs and i = i and row = row'
          and post = post and net = net and fs = fs and ns = ns and ver = ver and r = r
          and net' = net' and res = res]
      by simp
  }
qed
theorem business_success_rules_witness:
  "200 \<le> httpStatus \<lparr>httpStatus = 200, errCode = Some ''1'', errMessage = None\<rparr>
   \<and> httpStatus \<lparr>httpStatus = 200, errCode = Some ''1'', errMessage = None\<rparr> < 300
   \<and> truthyStr (createProfile Map.empty 0 [''Card No'' \<mapsto> CStr ''1234''] ''CardNo'')
   \<and> registered (fst (registerRow
         (constantTransport \<lparr>httpStatus = 200, errCode = Some ''1'', errMessage = None\<rparr>)
         Map.empty ''http://tempuri.org/'' ''1.1'' Map.empty 0 [''Card No'' \<mapsto> CStr ''1234'']
         (emptyResult, 0))) = 1
   \<and> errors (fst (registerRow
         (constantTransport \<lparr>httpStatus = 200, errCode = Some ''1'', errMessage = None\<rparr>)
         Map.empty ''http://tempuri.org/'' ''1.1'' Map.empty 0 [''Card No'' \<mapsto> CStr ''1234'']
         (emptyResult, 0))) = []
   \<and> registered (fst (updateRow
         (constantTransport \<lparr>httpStatus = 200, errCode = Some ''1'', errMessage = None\<rparr>)
         Map.empty ''http://tempuri.org/'' ''1.1'' [] 0 [''CARD NO'' \<mapsto> CStr ''1234'']
         (emptyResult, 0))) = 0
   \<and> map code (errors (fst (updateRow
         (constantTransport \<lparr>httpStatus = 200, errCode = Some ''1'', errMessage = None\<rparr>)
         Map.empty ''http://tempuri.org/'' ''1.1'' [] 0 [''CARD NO'' \<mapsto> CStr ''1234'']
         (emptyResult, 0)))) = [''VAULT_ERROR'']"
  using business_success_rules
    [where r = "\<lparr>httpStatus = 200, errCode = Some ''1'', errMessage = None\<rparr>"
       and post = "constantTransport \<lparr>httpStatus = 200, errCode = Some ''1'', errMessage = None\<rparr>"
       and fs = Map.empty and ns = "''http://tempuri.org/''" and ver = "''1.1''"
       and om = Map.empty and ovs = "[]" and i = 0 and net = 0 and net' = "Suc 0"
       and row = "[''Card No'' \<mapsto> CStr ''1234'']" and row' = "[''CARD NO'' \<mapsto> CStr ''1234'']"
       and res = emptyResult]
  by (simp add: constantTransport_def emptyResult_def createProfile_def mapRowToProfile_def
        Let_def s_str_def truthy_def truthyStr_def cellToString_def trim_def isWhiteSpace_def
        jsNumber_def isOne_def isZero_def parseUnsignedDecimal_def toLowerCase_def lowerChar_def
        upperChars_def lowerChars_def isDigit_def digitsToNat_def digitValue_def
        cong: let_weak_cong)

text \<open>
  C2, as stated, fails for the update batch: there a response with a status outside
  [200,300) is recorded as \<open>VAULT_ERROR\<close>, not as \<open>HTTP_ERROR\<close>. An HTTP 500 without a
  vendor code shows it.
\<close>

theorem error_classification_counterexample:
  "map code (errors (fst (updateRow
      (constantTransport \<lparr>httpStatus = 500, errCode = None, errMessage = None\<rparr>)
      Map.empty ''http://tempuri.org/'' ''1.1'' [] 0 Map.empty (emptyResult, 0))))
     = [''VAULT_ERROR'']"
  using updateRow_response(2)
    [where r = "\<lparr>httpStatus = 500, errCode = None, errMessage = None\<rparr>"
       and post = "constantTransport \<lparr>httpStatus = 500, errCode = None, errMessage = None\<rparr>"
       and fs = Map.empty and ns = "''http://tempuri.org/''" and ver = "''1.1''"
       and ovs = "[]" and i = 0 and net = 0 and net' = "Suc 0" and row = Map.empty
       and res = emptyResult]
  by (simp add: constantTransport_def emptyResult_def updateOk_def status_def)

text \<open>
  C2 (amended). For every row that reaches the network call and receives a response
  without throwing: in the create batch, a status outside [200,300) records an error with
  code \<open>HTTP_ERROR\<close> (message \<open>HTTP\<close> and the status) whatever the vendor code is, and a
  status in [200,300) with a vendor code that is not a business-success code records
  \<open>VAULT_ERROR\<close> carrying the vendor code and the vendor message (\<open>Unknown error\<close> when
  there is none); in the update batch, a status in [200,300) with a vendor code that is
  not a business-success code records \<open>VAULT_ERROR\<close> carrying the vendor code and message.
\<close>

theorem error_classification:
  "(truthyStr (createProfile om i row ''CardNo'')
    \<and> post net (buildAddCardEnvelope (fst (tryAttachPhoto fs (createProfile om i row))) ns ver)
        = (Inr r, net')
    \<longrightarrow> (\<not> (200 \<le> httpStatus r \<and> httpStatus r < 300)
          \<longrightarrow> errors (fst (registerRow post fs ns ver om i row (res, net))) =
                errors res @
                  [(mkError ''HTTP_ERROR'' (''HTTP '' @ intToString (httpStatus r)))
                     \<lparr>e_cardNo := fst (tryAttachPhoto fs (createProfile om i row)) ''CardNo''\<rparr>])
        \<and> ((200 \<le> httpStatus r \<and> httpStatus r < 300)
            \<and> \<not> (case errCode r of None \<Rightarrow> False
                   | Some c \<Rightarrow> isZero (jsNumber c) \<or> isOne (jsNumber c))
          \<longrightarrow> errors (fst (registerRow post fs ns ver om i row (res, net))) =
                errors res @
                  [(mkError ''VAULT_ERROR'' (strOr (errMessage r) ''Unknown error''))
                     \<lparr>e_errCode := errCode r,
                      e_cardNo := fst (tryAttachPhoto fs (createProfile om i row)) ''CardNo''\<rparr>]))
   \<and> (post net (buildUpdateCardEnvelope (fst (tryAttachPhoto fs (updateProfile ovs i row'))) ns ver)
        = (Inr r, net')
      \<and> (200 \<le> httpStatus r \<and> httpStatus r < 300)
      \<and> \<not> (errCode r = None \<or> errCode r = Some [] \<or> errCode r = Some ''0'')
    \<longrightarrow> errors (fst (updateRow post fs ns ver ovs i row' (res, net))) =
          errors res @
            [(mkError ''VAULT_ERROR'' (strOr (errMessage r) ''Unknown error''))
               \<lparr>e_errCode := errCode r,
                e_cardNo := fst (tryAttachPhoto fs (updateProfile ovs i row')) ''CardNo'',
                e_index := Some i\<rparr>])"
proof (intro conjI impI)
  assume a: "truthyStr (createProfile om i row ''CardNo'')
    \<and> post net (buildAddCardEnvelope (fst (tryAttachPhoto fs (createProfile om i row))) ns ver)
        = (Inr r, net')"
  note create = registerRow_response(2) [where om = om and i = i and row = row and post = post
          and net = net and fs = fs and ns = ns and ver = ver and r = r and net' = net' and res = res]
  {
    assume "\<not> (200 \<le> httpStatus r \<and> httpStatus r < 300)"
    with a create
    show "errors (fst (registerRow post fs ns ver om i row (res, net))) =
                errors res @
                  [(mkError ''HTTP_ERROR'' (''HTTP '' @ intToString (httpStatus r)))
                     \<lparr>e_cardNo := fst (tryAttachPhoto fs (createProfile om i row)) ''CardNo''\<rparr>]"
      by simp
  }
  {
    assume "(200 \<le> httpStatus r \<and> httpStatus r < 300)
            \<and> \<not> (case errCode r of None \<Rightarrow> False
                   | Some c \<Rightarrow> isZero (jsNumber c) \<or> isOne (jsNumber c))"
    with a create
    show "errors (fst (registerRow post fs ns ver om i row (res, net))) =
                errors res @
                  [(mkError ''VAULT_ERROR'' (strOr (errMessage r) ''Unknown error''))
                     \<lparr>e_errCode := errCode r,
                      e_cardNo := fst (tryAttachPhoto fs (createProfile om i row)) ''CardNo''\<rparr>]"
      by simp
  }
next
  assume a: "post net (buildUpdateCardEnvelope (fst (tryAttachPhoto fs (updateProfile ovs i row'))) ns ver)
        = (Inr r, net')
      \<and> (200 \<le> httpStatus r \<and> httpStatus r < 300)
      \<and> \<not> (errCode r = None \<or> errCode r = Some [] \<or> errCode r = Some ''0'')"
  then have "\<not> updateOk r"
    by (simp add: updateOk_iff)
  with a show "errors (fst (updateRow post fs ns ver ovs i row' (res, net))) =
          errors res @
            [(mkError ''VAULT_ERROR'' (strOr (errMessage r) ''Unknown error''))
               \<lparr>e_errCode := errCode r,
                e_cardNo := fst (tryAttachPhoto fs (updateProfile ovs i row')) ''CardNo'',
                e_index := Some i\<rparr>]"
    using updateRow_response(2) [where ovs = ovs and i = i and row = row'
          and post = post and net = net and fs = fs and ns = ns and ver = ver and r = r
          and net' = net' and res = res]
    by simp
qed

theorem error_classification_witness:
  "truthyStr (createProfile Map.empty 0 [''Card No'' \<mapsto> CStr ''1234''] ''CardNo'')
   \<and> \<not> (200 \<le> httpStatus \<lparr>httpStatus = 503, errCode = Some ''0'', errMessage = None\<rparr>
        \<and> httpStatus \<lparr>httpStatus = 503, errCode = Some ''0'', errMessage = None\<rparr> < 300)
   \<and> map code (errors (fst (registerRow
         (constantTransport \<lparr>httpStatus = 503, errCode = Some ''0'', errMessage = None\<rparr>)
         Map.empty ''http://tempuri.org/'' ''1.1'' Map.empty 0 [''Card No'' \<mapsto> CStr ''1234'']
         (emptyResult, 0)))) = [''HTTP_ERROR'']
   \<and> map message (errors (fst (registerRow
         (constantTransport \<lparr>httpStatus = 503, errCode = Some ''0'', errMessage = None\<rparr>)
         Map.empty ''http://tempuri.org/'' ''1.1'' Map.empty 0 [''Card No'' \<mapsto> CStr ''1234'']
         (emptyResult, 0)))) = [''HTTP 503'']"
  using error_classification
    [where r = "\<lparr>httpStatus = 503, errCode = Some ''0'', errMessage = None\<rparr>"
       and post = "constantTransport \<lparr>httpStatus = 503, errCode = Some ''0'', errMessage = None\<rparr>"
       and fs = Map.empty and ns = "''http://tempuri.org/''" and ver = "''1.1''"
       and om = Map.empty and ovs = "[]" and i = 0 and net = 0 and net' = "Suc 0"
       and row = "[''Card No'' \<mapsto> CStr ''1234'']" and row' = Map.empty
       and res = emptyResult]
  by (simp add: constantTransport_def emptyResult_def createProfile_def mapRowToProfile_def
        Let_def s_str_def truthy_def truthyStr_def cellToString_def trim_def isWhiteSpace_def
        intToString_def natToString.simps digitChar_def
        cong: let_weak_cong)

subsection \<open>Claims on the batch runs\<close>

text \<open>
  C5, as stated, fails for the update batch, which has no check of \<open>CardNo\<close>: a row
  whose \<open>CardNo\<close> is blank is posted like any other (the call counter of the remote end
  goes to 1) and, when the remote end accepts it, counted as updated with no error.
\<close>

theorem card_no_missing_counterexample:
  "updateProfile [] 0 Map.empty ''CardNo'' = Some []
   \<and> snd (updateCsvPathToVault
         (constantTransport \<lparr>httpStatus = 200, errCode = Some ''0'', errMessage = None\<rparr>)
         Map.empty ''http://tempuri.org/'' ''1.1'' [Map.empty] [] 0) = Suc 0
   \<and> errors (fst (updateCsvPathToVault
         (constantTransport \<lparr>httpStatus = 200, errCode = Some ''0'', errMessage = None\<rparr>)
         Map.empty ''http://tempuri.org/'' ''1.1'' [Map.empty] [] 0)) = []
   \<and> registered (fst (updateCsvPathToVault
         (constantTransport \<lparr>httpStatus = 200, errCode = Some ''0'', errMessage = None\<rparr>)
         Map.empty ''http://tempuri.org/'' ''1.1'' [Map.empty] [] 0)) = 1"
proof -
  have blank: "updateProfile [] 0 Map.empty ''CardNo'' = Some []"
    by (simp add: updateProfile_def mapRowToUpdateProfile_def Let_def s_str_def truthy_def)
  note step = updateRow_response
    [where r = "\<lparr>httpStatus = 200, errCode = Some ''0'', errMessage = None\<rparr>"
       and post = "constantTransport \<lparr>httpStatus = 200, errCode = Some ''0'', errMessage = None\<rparr>"
       and fs = Map.empty and ns = "''http://tempuri.org/''" and ver = "''1.1''"
       and ovs = "[]" and i = 0 and net = 0 and net' = "Suc 0" and row = Map.empty
       and res = "emptyResult\<lparr>attempted := Suc 0\<rparr>"]
  show ?thesis
    using blank step
    by (simp add: updateCsvPathToVault_def constantTransport_def emptyResult_def updateOk_def
          status_def truthyStr_def)
qed

text \<open>
  C5 (amended). For every run of the create batch and every row whose \<open>CardNo\<close> is blank
  after mapping and override application, the orchestrator records an error with code
  \<open>CARD_NO_MISSING\<close> and the index of that row, performs no network call for it (the
  state of the remote end after the row is the state before it), and goes on with the
  remaining rows: all rows are counted as attempted.
\<close>

theorem card_no_missing:
  "i < length rows
   \<and> \<not> truthyStr (createProfile (overrideMapOf ovs) i (rows ! i) ''CardNo'') \<longrightarrow>
   registerJobToVault post fs ns ver dir True rows ovs net =
     registerRows post fs ns ver (overrideMapOf ovs) (Suc i) (drop (Suc i) rows)
       ((fst (registerRows post fs ns ver (overrideMapOf ovs) 0 (take i rows) (emptyResult, net)))
          \<lparr>attempted :=
             attempted (fst (registerRows post fs ns ver (overrideMapOf ovs) 0 (take i rows)
                              (emptyResult, net))) + 1,
           errors :=
             errors (fst (registerRows post fs ns ver (overrideMapOf ovs) 0 (take i rows)
                           (emptyResult, net))) @
               [(mkError ''CARD_NO_MISSING'' ''Card No is required'')
                  \<lparr>e_index := Some i,
                   e_name := createProfile (overrideMapOf ovs) i (rows ! i) ''Name''\<rparr>],
           details :=
             details (fst (registerRows post fs ns ver (overrideMapOf ovs) 0 (take i rows)
                           (emptyResult, net))) @
               [\<lparr>d_cardNo = Some [],
                 d_name = createProfile (overrideMapOf ovs) i (rows ! i) ''Name'',
                 d_hasPhoto = False, d_respCode = Some ''CARD_NO_MISSING'',
                 d_respMessage = Some ''Card No is required'', d_profile = None\<rparr>]\<rparr>,
        snd (registerRows post fs ns ver (overrideMapOf ovs) 0 (take i rows) (emptyResult, net)))
   \<and> (\<exists>e \<in> set (errors (fst (registerJobToVault post fs ns ver dir True rows ovs net))).
         code e = ''CARD_NO_MISSING'' \<and> e_index e = Some i)
   \<and> attempted (fst (registerJobToVault post fs ns ver dir True rows ovs net)) = length rows"
proof (intro impI)
  let ?om = "overrideMapOf ovs"
  let ?before = "registerRows post fs ns ver ?om 0 (take i rows) (emptyResult, net)"
  let ?e = "(mkError ''CARD_NO_MISSING'' ''Card No is required'')
                  \<lparr>e_index := Some i, e_name := createProfile ?om i (rows ! i) ''Name''\<rparr>"
  let ?after = "((fst ?before)
          \<lparr>attempted := attempted (fst ?before) + 1,
           errors := errors (fst ?before) @ [?e],
           details := details (fst ?before) @
               [\<lparr>d_cardNo = Some [], d_name = createProfile ?om i (rows ! i) ''Name'',
                 d_hasPhoto = False, d_respCode = Some ''CARD_NO_MISSING'',
                 d_respMessage = Some ''Card No is required'', d_profile = None\<rparr>]\<rparr>,
        snd ?before)"
  assume a: "i < length rows \<and> \<not> truthyStr (createProfile ?om i (rows ! i) ''CardNo'')"
  then have ne: "rows \<noteq> []" by auto
  have step: "registerRow post fs ns ver ?om i (rows ! i) ?before = ?after"
    using registerRow_missing [where om = ?om and i = i and row = "rows ! i" and post = post
        and fs = fs and ns = ns and ver = ver and res = "fst ?before" and net = "snd ?before"] a
    by simp
  have run: "registerJobToVault post fs ns ver dir True rows ovs net =
      registerRows post fs ns ver ?om (Suc i) (drop (Suc i) rows) ?after"
    using ne a registerRows_at [of i rows post fs ns ver ?om "(emptyResult, net)"] step
    by (simp add: registerJobToVault_def)
  obtain es where "errors (fst (registerRows post fs ns ver ?om (Suc i) (drop (Suc i) rows) ?after))
      = errors (fst ?after) @ es"
    using registerRows_errors_grow by blast
  then have mem: "?e \<in> set (errors (fst (registerJobToVault post fs ns ver dir True rows ovs net)))"
    using run by simp
  have att: "attempted (fst (registerJobToVault post fs ns ver dir True rows ovs net)) = length rows"
    using ne by (simp add: registerJobToVault_def registerRows_attempted emptyResult_def)
  have "code ?e = ''CARD_NO_MISSING'' \<and> e_index ?e = Some i"
    by simp
  with mem have "\<exists>e \<in> set (errors (fst (registerJobToVault post fs ns ver dir True rows ovs net))).
         code e = ''CARD_NO_MISSING'' \<and> e_index e = Some i"
    by blast
  with run att show "registerJobToVault post fs ns ver dir True rows ovs net =
      registerRows post fs ns ver ?om (Suc i) (drop (Suc i) rows) ?after
    \<and> (\<exists>e \<in> set (errors (fst (registerJobToVault post fs ns ver dir True rows ovs net))).
         code e = ''CARD_NO_MISSING'' \<and> e_index e = Some i)
    \<and> attempted (fst (registerJobToVault post fs ns ver dir True rows ovs net)) = length rows"
    by blast
qed

theorem card_no_missing_witness:
  "(0::nat) < length [Map.empty :: row]
   \<and> \<not> truthyStr (createProfile (overrideMapOf []) 0 ([Map.empty] ! 0) ''CardNo'')
   \<and> snd (registerJobToVault
         (constantTransport \<lparr>httpStatus = 200, errCode = Some ''0'', errMessage = None\<rparr>)
         Map.empty ''http://tempuri.org/'' ''1.1'' ''out'' True [Map.empty] [] 0) = 0
   \<and> map code (errors (fst (registerJobToVault
         (constantTransport \<lparr>httpStatus = 200, errCode = Some ''0'', errMessage = None\<rparr>)
         Map.empty ''http://tempuri.org/'' ''1.1'' ''out'' True [Map.empty] [] 0)))
       = [''CARD_NO_MISSING'']
   \<and> attempted (fst (registerJobToVault
         (constantTransport \<lparr>httpStatus = 200, errCode = Some ''0'', errMessage = None\<rparr>)
         Map.empty ''http://tempuri.org/'' ''1.1'' ''out'' True [Map.empty] [] 0)) = 1"
  using card_no_missing
    [where post = "constantTransport \<lparr>httpStatus = 200, errCode = Some ''0'', errMessage = None\<rparr>"
       and fs = Map.empty and ns = "''http://tempuri.org/''" and ver = "''1.1''"
       and dir = "''out''" and rows = "[Map.empty]" and ovs = "[]" and i = 0 and net = "0::nat"]
  by (simp add: emptyResult_def overrideMapOf_def createProfile_def mapRowToProfile_def
        Let_def s_str_def truthy_def truthyStr_def cong: let_weak_cong)

text \<open>
  C9. In the update batch each processed row contributes exactly one of: an increment of
  the registered counter, or exactly one appended error record; the returned summary
  always satisfies \<open>attempted = registered + errors.length\<close> and
  \<open>withPhoto + withoutPhoto = attempted\<close>, with \<open>attempted\<close> the number of rows read.
\<close>

theorem update_summary_counts:
  "((registered (fst (updateRow post fs ns ver ovs i row (res, net))) = registered res + 1
       \<and> errors (fst (updateRow post fs ns ver ovs i row (res, net))) = errors res)
      \<or> (registered (fst (updateRow post fs ns ver ovs i row (res, net))) = registered res
         \<and> (\<exists>e. errors (fst (updateRow post fs ns ver ovs i row (res, net))) = errors res @ [e])))
   \<and> attempted (fst (updateCsvPathToVault post fs ns ver rows ovs net)) = length rows
   \<and> attempted (fst (updateCsvPathToVault post fs ns ver rows ovs net))
       = registered (fst (updateCsvPathToVault post fs ns ver rows ovs net))
         + length (errors (fst (updateCsvPathToVault post fs ns ver rows ovs net)))
   \<and> withPhoto (fst (updateCsvPathToVault post fs ns ver rows ovs net))
       + withoutPhoto (fst (updateCsvPathToVault post fs ns ver rows ovs net))
       = attempted (fst (updateCsvPathToVault post fs ns ver rows ovs net))"
proof -
  have step: "(registered (fst (updateRow post fs ns ver ovs i row (res, net))) = registered res + 1
       \<and> errors (fst (updateRow post fs ns ver ovs i row (res, net))) = errors res)
      \<or> (registered (fst (updateRow post fs ns ver ovs i row (res, net))) = registered res
         \<and> (\<exists>e. errors (fst (updateRow post fs ns ver ovs i row (res, net))) = errors res @ [e]))"
    using updateRow_step [where post = post and fs = fs and ns = ns and ver = ver and ovs = ovs
        and i = i and row = row and res = res and net = net]
    by (auto split: prod.splits)
  have run: "attempted (fst (updateCsvPathToVault post fs ns ver rows ovs net)) = length rows
   \<and> attempted (fst (updateCsvPathToVault post fs ns ver rows ovs net))
       = registered (fst (updateCsvPathToVault post fs ns ver rows ovs net))
         + length (errors (fst (updateCsvPathToVault post fs ns ver rows ovs net)))
   \<and> withPhoto (fst (updateCsvPathToVault post fs ns ver rows ovs net))
       + withoutPhoto (fst (updateCsvPathToVault post fs ns ver rows ovs net))
       = attempted (fst (updateCsvPathToVault post fs ns ver rows ovs net))"
    using updateRows_invariant [where post = post and fs = fs and ns = ns and ver = ver
        and ovs = ovs and i = 0 and rows = rows and res = "emptyResult\<lparr>attempted := length rows\<rparr>"
        and net = net]
    by (auto simp: updateCsvPathToVault_def emptyResult_def split: prod.splits)
  from step run show ?thesis by blast
qed

theorem update_summary_counts_witness:
  "attempted (fst (updateCsvPathToVault
       (constantTransport \<lparr>httpStatus = 200, errCode = Some ''5'', errMessage = None\<rparr>)
       Map.empty ''http://tempuri.org/'' ''1.1'' [Map.empty, Map.empty] [] 0)) = 2
   \<and> registered (fst (updateCsvPathToVault
       (constantTransport \<lparr>httpStatus = 200, errCode = Some ''5'', errMessage = None\<rparr>)
       Map.empty ''http://tempuri.org/'' ''1.1'' [Map.empty, Map.empty] [] 0))
     + length (errors (fst (updateCsvPathToVault
       (constantTransport \<lparr>httpStatus = 200, errCode = Some ''5'', errMessage = None\<rparr>)
       Map.empty ''http://tempuri.org/'' ''1.1'' [Map.empty, Map.empty] [] 0))) = 2
   \<and> withPhoto (fst (updateCsvPathToVault
       (constantTransport \<lparr>httpStatus = 200, errCode = Some ''5'', errMessage = None\<rparr>)
       Map.empty ''http://tempuri.org/'' ''1.1'' [Map.empty, Map.empty] [] 0))
     + withoutPhoto (fst (updateCsvPathToVault
       (constantTransport \<lparr>httpStatus = 200, errCode = Some ''5'', errMessage = None\<rparr>)
       Map.empty ''http://tempuri.org/'' ''1.1'' [Map.empty, Map.empty] [] 0)) = 2"
  using update_summary_counts
    [where post = "constantTransport \<lparr>httpStatus = 200, errCode = Some ''5'', errMessage = None\<rparr>"
       and fs = Map.empty and ns = "''http://tempuri.org/''" and ver = "''1.1''"
       and rows = "[Map.empty, Map.empty]" and ovs = "[]" and net = "0::nat"
       and res = emptyResult and i = 0 and row = Map.empty]
  by simp

subsection \<open>The retry resubmits the mapped profile\<close>

lemma foldl_overrides_id:
  assumes "\<And>k v. flds k = Some v \<Longrightarrow> q k = Some v"
  shows "foldl (\<lambda>q key. case flds key of None \<Rightarrow> q | Some val \<Rightarrow> q(key \<mapsto> val)) q ks = q"
proof (induction ks)
  case Nil
  show ?case by simp
next
  case (Cons k ks)
  have "(case flds k of None \<Rightarrow> q | Some val \<Rightarrow> q(k \<mapsto> val)) = q"
    using assms [of k] by (auto split: option.splits simp: map_upd_triv)
  with Cons show ?case by simp
qed

lemma take_all_strOr: "p k = Some x \<Longrightarrow> length x \<le> m \<Longrightarrow> take m (strOr (p k) []) = x"
  by (simp add: strOr_def)

lemma update_Address2: "mapRowToUpdateProfile row ''Address2'' = None"
  by (simp add: mapRowToUpdateProfile_def Let_def)

lemma update_Email: "mapRowToUpdateProfile row ''Email'' = Some []"
  by (simp add: mapRowToUpdateProfile_def Let_def)

lemma update_Download: "mapRowToUpdateProfile row ''Download'' = Some ''true''"
  by (simp add: mapRowToUpdateProfile_def Let_def)

lemma foldl_clip_fields:
  assumes "foldl (\<lambda>ov km. case km of (key, m) \<Rightarrow>
                     if truthyStr (p key) then ov(key \<mapsto> take m (strOr (p key) []))
                     else ov) base table k = Some v"
    and "\<forall>(key, m) \<in> set table. \<forall>x. p key = Some x \<longrightarrow> length x \<le> m"
  shows "base k = Some v \<or> p k = Some v"
  using assms
proof (induction table arbitrary: base)
  case Nil
  then show ?case by simp
next
  case (Cons km table)
  obtain key m where km: "km = (key, m)" by (cases km)
  let ?ov1 = "if truthyStr (p key) then base(key \<mapsto> take m (strOr (p key) [])) else base"
  have "?ov1 k = Some v \<or> p k = Some v"
    using Cons.IH [of ?ov1] Cons.prems km by simp
  moreover have "?ov1 k = Some v \<Longrightarrow> base k = Some v \<or> p k = Some v"
  proof (cases "truthyStr (p key) \<and> k = key")
    case True
    then obtain x where x: "p key = Some x"
      by (cases "p key") (auto simp: truthyStr_def)
    with Cons.prems(2) km have "length x \<le> m" by auto
    with x have "take m (strOr (p key) []) = x"
      by (rule take_all_strOr)
    moreover assume "?ov1 k = Some v"
    ultimately show ?thesis using True x by simp
  next
    case False
    assume "?ov1 k = Some v"
    with False show ?thesis by (auto split: if_splits)
  qed
  ultimately show ?case by blast
qed

lemma retry_table_fits:
  "\<forall>(key, m) \<in> set retry_MAX_table. \<forall>x. mapRowToUpdateProfile row key = Some x \<longrightarrow> length x \<le> m"
  using update_field_lengths [of row] update_Address2 [of row]
  by (auto simp: retry_MAX_table_def)

lemma retryOverride_fields:
  assumes "ro_fields (retryOverride (mapRowToUpdateProfile row)) k = Some v"
  shows "mapRowToUpdateProfile row k = Some v"
proof -
  let ?p = "mapRowToUpdateProfile row"
  let ?clipped = "foldl (\<lambda>ov km. case km of (key, m) \<Rightarrow>
                     if truthyStr (?p key) then ov(key \<mapsto> take m (strOr (?p key) []))
                     else ov) Map.empty retry_MAX_table"
  have clipped: "?clipped k = Some v \<Longrightarrow> ?p k = Some v"
    using foldl_clip_fields [where p = ?p and base = Map.empty and table = retry_MAX_table
        and k = k and v = v] retry_table_fits [of row]
    by simp
  have "ro_fields (retryOverride ?p) = ?clipped(''Download'' \<mapsto> ''true'')"
    by (simp add: retryOverride_def Let_def update_Download)
  with assms have "(?clipped(''Download'' \<mapsto> ''true'')) k = Some v"
    by simp
  then show ?thesis
    using clipped update_Download [of row]
    by (cases "k = ''Download''") simp_all
qed

lemma retry_profile_same:
  "singleProfile (Some (retryOverride (mapRowToUpdateProfile row))) row = mapRowToUpdateProfile row"
proof -
  have "applyFieldOverrides (ro_fields (retryOverride (mapRowToUpdateProfile row)))
          (mapRowToUpdateProfile row) = mapRowToUpdateProfile row"
    unfolding applyFieldOverrides_def
    by (rule foldl_overrides_id) (rule retryOverride_fields)
  moreover have "ro_cardNo (retryOverride (mapRowToUpdateProfile row)) = None"
    "ro_downloadCard (retryOverride (mapRowToUpdateProfile row)) = None"
    by (simp_all add: retryOverride_def Let_def)
  ultimately show ?thesis
    by (simp add: singleProfile_def Let_def truthy_def)
qed

lemma retry_profile_limits:
  assumes "(k, m) \<in> set retry_MAX_table"
    and "singleProfile (Some (retryOverride (mapRowToUpdateProfile row))) row k = Some x"
  shows "length x \<le> m"
  using assms update_field_lengths [of row] update_Address2 [of row]
  unfolding retry_profile_same
  by (auto simp: retry_MAX_table_def)

lemma preview_nth:
  "idx < length rows \<Longrightarrow>
     fst (previewUpdateCsvPathToVault fs rows ! idx) = mapRowToUpdateProfile (rows ! idx)"
  by (simp add: previewUpdateCsvPathToVault_def Let_def)

lemma retryEnvelope_eq:
  "idx < length rows \<Longrightarrow>
     retryEnvelope fs ns ver rows idx =
       buildUpdateCardEnvelope (fst (tryAttachPhoto fs (mapRowToUpdateProfile (rows ! idx)))) ns ver"
  by (simp add: retryEnvelope_def preview_nth retry_profile_same)

subsection \<open>One turn of the retry loop\<close>

lemma single_row_status:
  assumes "idx < length rows"
    and "post net (buildUpdateCardEnvelope
            (fst (tryAttachPhoto fs (singleProfile ov (rows ! idx)))) ns ver) = (answer, net')"
  shows "snd (fst (updateCsvRowToVault post fs ns ver rows (int idx) ov net)) =
           Some \<lparr>rs_ok = retrySucceeds answer,
                 rs_code = (case answer of Inl msg \<Rightarrow> None | Inr r \<Rightarrow> errCode r),
                 rs_message = (case answer of
                                 Inl msg \<Rightarrow> (if msg = [] then None else Some msg)
                               | Inr r \<Rightarrow> errMessage r)\<rparr>"
    and "snd (updateCsvRowToVault post fs ns ver rows (int idx) ov net) = net'"
  using assms
  by (cases "tryAttachPhoto fs (singleProfile ov (rows ! idx))"; cases answer;
      simp add: updateCsvRowToVault_def Let_def retrySucceeds_def emptyResult_def)+

lemma retryStep_answer:
  assumes "e_index e = Some idx" "idx < length rows"
    and "post net (retryEnvelope fs ns ver rows idx) = (answer, net')"
  shows "retryStep post fs ns ver rows (previewUpdateCsvPathToVault fs rows) e (u, errs, net) =
     Some (if retrySucceeds answer then (u + 1, errs, net')
           else (u, errs @ [\<lparr>re_index = idx, re_cardNo = e_cardNo e,
                             re_message = retryMessage answer\<rparr>], net'))"
proof -
  let ?ov = "Some (retryOverride (fst (previewUpdateCsvPathToVault fs rows ! idx)))"
  have len: "idx < length (previewUpdateCsvPathToVault fs rows)"
    using assms(2) by (simp add: previewUpdateCsvPathToVault_def)
  have post: "post net (buildUpdateCardEnvelope
            (fst (tryAttachPhoto fs (singleProfile ?ov (rows ! idx)))) ns ver) = (answer, net')"
    using assms(3) by (simp add: retryEnvelope_def)
  note st = single_row_status [where post = post and net = net and fs = fs and ns = ns
      and ver = ver and rows = rows and idx = idx and ov = ?ov, OF assms(2) post]
  obtain single rowStatus net2 where run:
    "updateCsvRowToVault post fs ns ver rows (int idx) ?ov net = ((single, rowStatus), net2)"
    by (metis surj_pair)
  with st have rs: "rowStatus = Some \<lparr>rs_ok = retrySucceeds answer,
                 rs_code = (case answer of Inl msg \<Rightarrow> None | Inr r \<Rightarrow> errCode r),
                 rs_message = (case answer of
                                 Inl msg \<Rightarrow> (if msg = [] then None else Some msg)
                               | Inr r \<Rightarrow> errMessage r)\<rparr>" and n2: "net2 = net'"
    by simp_all
  have msg: "strOr (case answer of Inl msg \<Rightarrow> (if msg = [] then None else Some msg)
                               | Inr r \<Rightarrow> errMessage r) ''Unknown error'' = retryMessage answer"
    by (cases answer) (simp_all add: retryMessage_def strOr_def)
  show ?thesis
    using assms(1) len run rs n2 msg
    by (simp add: retryStep_def Let_def)
qed

lemma recording_post:
  "recording post (n, received) envelope =
     (fst (post n envelope), (snd (post n envelope), received @ [envelope]))"
  by (simp add: recording_def split: prod.splits)

lemma retryLoop_recording:
  assumes "map e_index targets = map Some idxs" "\<forall>j\<in>set idxs. j < length rows"
  shows "\<exists>n'.
     retryLoop (recording post) fs ns ver rows (previewUpdateCsvPathToVault fs rows) targets
        (u, errs, (n, received))
       = Some (u + length (filter (\<lambda>(idx, e, answer). retrySucceeds answer)
                    (zip idxs (zip targets
                       (answersOf post n (map (retryEnvelope fs ns ver rows) idxs))))),
               errs @ map (\<lambda>(idx, e, answer).
                        \<lparr>re_index = idx, re_cardNo = e_cardNo e,
                          re_message = retryMessage answer\<rparr>)
                    (filter (\<lambda>(idx, e, answer). \<not> retrySucceeds answer)
                       (zip idxs (zip targets
                          (answersOf post n (map (retryEnvelope fs ns ver rows) idxs))))),
               (n', received @ map (retryEnvelope fs ns ver rows) idxs))"
  using assms
proof (induction targets arbitrary: idxs u errs n received)
  case Nil
  then show ?case by simp
next
  case (Cons e es)
  from Cons.prems(1) obtain idx rest where idxs: "idxs = idx # rest"
    and e: "e_index e = Some idx" and es: "map e_index es = map Some rest"
    by (cases idxs) auto
  from Cons.prems(2) idxs have lt: "idx < length rows" and rest: "\<forall>j\<in>set rest. j < length rows"
    by auto
  let ?env = "retryEnvelope fs ns ver rows idx"
  let ?answer = "fst (post n ?env)"
  let ?n1 = "snd (post n ?env)"
  have post: "recording post (n, received) ?env = (?answer, (?n1, received @ [?env]))"
    by (rule recording_post)
  note step = retryStep_answer [where post = "recording post" and net = "(n, received)"
      and fs = fs and ns = ns and ver = ver and rows = rows and idx = idx and e = e
      and u = u and errs = errs, OF e lt post]
  show ?case
  proof (cases "retrySucceeds ?answer")
    case True
    from Cons.IH [OF es rest, of "u + 1" errs ?n1 "received @ [?env]"]
    obtain n' where
      "retryLoop (recording post) fs ns ver rows (previewUpdateCsvPathToVault fs rows) es
          (u + 1, errs, (?n1, received @ [?env]))
        = Some (u + 1 + length (filter (\<lambda>(idx, e, answer). retrySucceeds answer)
                    (zip rest (zip es
                       (answersOf post ?n1 (map (retryEnvelope fs ns ver rows) rest))))),
               errs @ map (\<lambda>(idx, e, answer).
                        \<lparr>re_index = idx, re_cardNo = e_cardNo e,
                          re_message = retryMessage answer\<rparr>)
                    (filter (\<lambda>(idx, e, answer). \<not> retrySucceeds answer)
                       (zip rest (zip es
                          (answersOf post ?n1 (map (retryEnvelope fs ns ver rows) rest))))),
               (n', (received @ [?env]) @ map (retryEnvelope fs ns ver rows) rest))"
      by blast
    with True step idxs show ?thesis
      by (intro exI [of _ n']) simp
  next
    case False
    let ?errs1 = "errs @ [\<lparr>re_index = idx, re_cardNo = e_cardNo e,
                             re_message = retryMessage ?answer\<rparr>]"
    from Cons.IH [OF es rest, of u ?errs1 ?n1 "received @ [?env]"]
    obtain n' where
      "retryLoop (recording post) fs ns ver rows (previewUpdateCsvPathToVault fs rows) es
          (u, ?errs1, (?n1, received @ [?env]))
        = Some (u + length (filter (\<lambda>(idx, e, answer). retrySucceeds answer)
                    (zip rest (zip es
                       (answersOf post ?n1 (map (retryEnvelope fs ns ver rows) rest))))),
               ?errs1 @ map (\<lambda>(idx, e, answer).
                        \<lparr>re_index = idx, re_cardNo = e_cardNo e,
                          re_message = retryMessage answer\<rparr>)
                    (filter (\<lambda>(idx, e, answer). \<not> retrySucceeds answer)
                       (zip rest (zip es
                          (answersOf post ?n1 (map (retryEnvelope fs ns ver rows) rest))))),
               (n', (received @ [?env]) @ map (retryEnvelope fs ns ver rows) rest))"
      by blast
    with False step idxs show ?thesis
      by (intro exI [of _ n']) simp
  qed
qed

lemma filter_indices:
  assumes "map e_index es = map Some js" "sorted_wrt (<) js"
  shows "\<exists>js'. map e_index (filter Q es) = map Some js' \<and> sorted_wrt (<) js' \<and> set js' \<subseteq> set js"
  using assms
proof (induction es arbitrary: js)
  case Nil
  then show ?case by simp
next
  case (Cons e es)
  from Cons.prems obtain j rest where js: "js = j # rest" and e: "e_index e = Some j"
    and es: "map e_index es = map Some rest" and sorted: "sorted_wrt (<) rest"
    and less: "\<forall>k\<in>set rest. j < k"
    by (cases js) auto
  obtain js' where js': "map e_index (filter Q es) = map Some js'" "sorted_wrt (<) js'"
      "set js' \<subseteq> set rest"
    using Cons.IH [OF es sorted] by blast
  show ?case
  proof (cases "Q e")
    case True
    with js e js' less show ?thesis
      by (intro exI [of _ "j # js'"]) auto
  next
    case False
    with js js' show ?thesis
      by (intro exI [of _ js']) auto
  qed
qed

lemma first_pass_indices:
  "\<exists>js. map e_index (errors (fst (updateCsvPathToVault post fs ns ver rows ovs net))) = map Some js
        \<and> sorted_wrt (<) js \<and> (\<forall>j\<in>set js. j < length rows)"
  using updateRows_indices [where post = post and fs = fs and ns = ns and ver = ver and ovs = ovs
      and i = 0 and rows = rows and res = "emptyResult\<lparr>attempted := length rows\<rparr>" and net = net]
  by (auto simp: updateCsvPathToVault_def emptyResult_def)

lemma sorted_less_distinct: "sorted_wrt (<) (js :: nat list) \<Longrightarrow> distinct js"
  by (induction js) auto

lemma length_answersOf: "length (answersOf post n envelopes) = length envelopes"
  by (induction envelopes arbitrary: n) simp_all

lemma mainBatch_retry:
  fixes post :: "'n transport" and fs ns ver rows net
  defines "first \<equiv> updateCsvPathToVault (recording post) fs ns ver rows [] (net, [])"
  defines "targets \<equiv> filter (\<lambda>e. isTruncated (message e)) (errors (fst first))"
  defines "final \<equiv> mainBatch (recording post) fs ns ver rows (net, [])"
  shows "firstPass (fst final) = fst first
    \<and> (\<exists>idxs. map e_index targets = map Some idxs \<and> sorted_wrt (<) idxs
          \<and> (\<forall>j\<in>set idxs. j < length rows)
          \<and> snd (snd final) = snd (snd first) @ map (retryEnvelope fs ns ver rows) idxs
          \<and> retryUpdated (fst final) =
               length (filter (\<lambda>(idx, e, answer). retrySucceeds answer)
                  (zip idxs (zip targets
                     (answersOf post (fst (snd first)) (map (retryEnvelope fs ns ver rows) idxs)))))
          \<and> retryErrors (fst final) =
               map (\<lambda>(idx, e, answer).
                      \<lparr>re_index = idx, re_cardNo = e_cardNo e, re_message = retryMessage answer\<rparr>)
                 (filter (\<lambda>(idx, e, answer). \<not> retrySucceeds answer)
                    (zip idxs (zip targets
                       (answersOf post (fst (snd first))
                          (map (retryEnvelope fs ns ver rows) idxs))))))"
proof -
  obtain res n1 log1 where f: "first = (res, (n1, log1))"
    by (metis surj_pair)
  obtain js where js: "map e_index (errors res) = map Some js" "sorted_wrt (<) js"
      "\<forall>j\<in>set js. j < length rows"
    using first_pass_indices [of "recording post" fs ns ver rows "[]" "(net, [])"] f
    unfolding first_def by auto
  obtain idxs where idxs: "map e_index targets = map Some idxs" "sorted_wrt (<) idxs"
      "set idxs \<subseteq> set js"
    using filter_indices [OF js(1,2), of "\<lambda>e. isTruncated (message e)"] f
    unfolding targets_def by auto
  have lt: "\<forall>j\<in>set idxs. j < length rows"
    using idxs(3) js(3) by blast
  let ?z = "zip idxs (zip targets (answersOf post n1 (map (retryEnvelope fs ns ver rows) idxs)))"
  obtain n' where loop:
     "retryLoop (recording post) fs ns ver rows (previewUpdateCsvPathToVault fs rows) targets
        (0, [], (n1, log1))
       = Some (0 + length (filter (\<lambda>(idx, e, answer). retrySucceeds answer) ?z),
               [] @ map (\<lambda>(idx, e, answer).
                      \<lparr>re_index = idx, re_cardNo = e_cardNo e, re_message = retryMessage answer\<rparr>)
                    (filter (\<lambda>(idx, e, answer). \<not> retrySucceeds answer) ?z),
               (n', log1 @ map (retryEnvelope fs ns ver rows) idxs))"
    using retryLoop_recording [OF idxs(1) lt, of post fs ns ver 0 "[]" n1 log1] by blast
  have t: "targets = filter (\<lambda>e. isTruncated (message e)) (errors res)"
    using f by (simp add: targets_def)
  have fin: "final = (case first of (res, net1) \<Rightarrow>
      if length (errors res) > 0 then
        (let preview = previewUpdateCsvPathToVault fs rows;
             retryTargets = filter (\<lambda>e. isTruncated (message e)) (errors res)
         in if length retryTargets > 0 then
              (case retryLoop (recording post) fs ns ver rows preview retryTargets (0, [], net1) of
                 None \<Rightarrow>
                   (\<lparr>firstPass = res, retryUpdated = 0, retryErrors = [], exitCode = 1\<rparr>, net1)
               | Some (updated, errs, net2) \<Rightarrow>
                   (\<lparr>firstPass = res, retryUpdated = updated, retryErrors = errs,
                     exitCode = (if errs = [] then 0 else 2)\<rparr>, net2))
            else (\<lparr>firstPass = res, retryUpdated = 0, retryErrors = [], exitCode = 2\<rparr>, net1))
      else (\<lparr>firstPass = res, retryUpdated = 0, retryErrors = [], exitCode = 0\<rparr>, net1))"
    unfolding final_def first_def mainBatch_def ..
  show ?thesis
  proof (cases "targets = []")
    case True
    with idxs(1) have "idxs = []" by simp
    with True t f fin show ?thesis
      by (auto simp: Let_def)
  next
    case False
    then have "errors res \<noteq> []" using t by auto
    with False t f fin loop idxs(1,2) lt show ?thesis
      by (intro conjI exI [of _ idxs]) (simp_all add: Let_def)
  qed
qed

lemma zip_functional:
  assumes "distinct xs" "(x, y) \<in> set (zip xs ys)" "(x, y') \<in> set (zip xs ys)"
  shows "y = y'"
proof -
  from assms(2) obtain i where i: "i < length xs" "i < length ys" "xs ! i = x" "ys ! i = y"
    by (auto simp: in_set_zip)
  from assms(3) obtain j where j: "j < length xs" "j < length ys" "xs ! j = x" "ys ! j = y'"
    by (auto simp: in_set_zip)
  from assms(1) i(1,3) j(1,3) have "i = j"
    by (metis nth_eq_iff_index_eq)
  with i j show ?thesis by simp
qed

lemma outcome_not_reported:
  assumes "distinct xs" "(x, y) \<in> set (zip xs ys)" "\<not> P (x, y)"
  shows "x \<notin> fst ` set (filter P (zip xs ys))"
proof
  assume "x \<in> fst ` set (filter P (zip xs ys))"
  then obtain y' where y': "(x, y') \<in> set (zip xs ys)" "P (x, y')"
    by auto
  with assms(1,2) have "y = y'"
    by (metis zip_functional)
  with y'(2) assms(3) show False by simp
qed

lemma retry_run:
  fixes post :: "'n transport" and fs ns ver rows net
  defines "first \<equiv> updateCsvPathToVault (recording post) fs ns ver rows [] (net, [])"
  defines "targets \<equiv> filter (\<lambda>e. isTruncated (message e)) (errors (fst first))"
  defines "final \<equiv> mainBatch (recording post) fs ns ver rows (net, [])"
  shows "firstPass (fst final) = fst first
    \<and> (\<exists>idxs. map e_index targets = map Some idxs \<and> distinct idxs
          \<and> (\<forall>j\<in>set idxs. j < length rows)
          \<and> snd (snd final) = snd (snd first) @ map (retryEnvelope fs ns ver rows) idxs
          \<and> retryUpdated (fst final) =
               length (filter (\<lambda>(idx, e, answer). retrySucceeds answer)
                  (retryOutcomes post fs ns ver rows (fst (snd first)) targets idxs))
          \<and> retryErrors (fst final) =
               map (\<lambda>(idx, e, answer).
                      \<lparr>re_index = idx, re_cardNo = e_cardNo e, re_message = retryMessage answer\<rparr>)
                 (filter (\<lambda>(idx, e, answer). \<not> retrySucceeds answer)
                    (retryOutcomes post fs ns ver rows (fst (snd first)) targets idxs))
          \<and> (\<forall>idx e answer.
                 (idx, e, answer) \<in> set (retryOutcomes post fs ns ver rows (fst (snd first)) targets idxs)
                 \<and> retrySucceeds answer
                 \<longrightarrow> idx \<notin> re_index ` set (retryErrors (fst final)))
          \<and> (\<forall>idx e answer.
                 (idx, e, answer) \<in> set (retryOutcomes post fs ns ver rows (fst (snd first)) targets idxs)
                 \<and> \<not> retrySucceeds answer
                 \<longrightarrow> \<lparr>re_index = idx, re_cardNo = e_cardNo e, re_message = retryMessage answer\<rparr>
                       \<in> set (retryErrors (fst final)))
          \<and> set (map re_index (retryErrors (fst final))) \<subseteq> set idxs)
    \<and> retryUpdated (fst final) + length (retryErrors (fst final)) = length targets"
proof -
  let ?succ = "\<lambda>(idx :: nat, e :: errorRecord, answer). retrySucceeds answer"
  let ?fail = "\<lambda>(idx :: nat, e :: errorRecord, answer). \<not> retrySucceeds answer"
  let ?report = "\<lambda>(idx, e, answer).
                      \<lparr>re_index = idx, re_cardNo = e_cardNo e, re_message = retryMessage answer\<rparr>"
  have fst1: "firstPass (fst final) = fst first"
    unfolding first_def final_def
    using mainBatch_retry [of post fs ns ver rows net] by blast
  obtain idxs where idxs: "map e_index targets = map Some idxs" "sorted_wrt (<) idxs"
      "\<forall>j\<in>set idxs. j < length rows"
      "snd (snd final) = snd (snd first) @ map (retryEnvelope fs ns ver rows) idxs"
      "retryUpdated (fst final) = length (filter ?succ
          (zip idxs (zip targets
             (answersOf post (fst (snd first)) (map (retryEnvelope fs ns ver rows) idxs)))))"
      "retryErrors (fst final) = map ?report (filter ?fail
          (zip idxs (zip targets
             (answersOf post (fst (snd first)) (map (retryEnvelope fs ns ver rows) idxs)))))"
    unfolding first_def final_def targets_def
    using mainBatch_retry [of post fs ns ver rows net] by blast
  let ?ys = "zip targets (answersOf post (fst (snd first)) (map (retryEnvelope fs ns ver rows) idxs))"
  let ?z = "retryOutcomes post fs ns ver rows (fst (snd first)) targets idxs"
  have z: "?z = zip idxs ?ys"
    by (simp add: retryOutcomes_def)
  have dist: "distinct idxs"
    using idxs(2) by (rule sorted_less_distinct)
  have len: "length idxs = length targets"
    using idxs(1) by (metis length_map)
  then have lenz: "length ?z = length targets"
    by (simp add: z length_answersOf)
  have upd: "retryUpdated (fst final) = length (filter ?succ ?z)"
    using idxs(5) z by simp
  have errs: "retryErrors (fst final) = map ?report (filter ?fail ?z)"
    using idxs(6) z by simp
  have idx_image: "re_index ` set (retryErrors (fst final)) = fst ` set (filter ?fail ?z)"
    unfolding errs by force
  have gone: "\<forall>idx e answer. (idx, e, answer) \<in> set ?z \<and> retrySucceeds answer
                 \<longrightarrow> idx \<notin> re_index ` set (retryErrors (fst final))"
  proof (intro allI impI)
    fix idx e answer
    assume a: "(idx, e, answer) \<in> set ?z \<and> retrySucceeds answer"
    then have "(idx, (e, answer)) \<in> set (zip idxs ?ys)" "\<not> ?fail (idx, (e, answer))"
      using z by simp_all
    with dist have "idx \<notin> fst ` set (filter ?fail (zip idxs ?ys))"
      by (rule outcome_not_reported)
    then show "idx \<notin> re_index ` set (retryErrors (fst final))"
      using idx_image z by simp
  qed
  have stays: "\<forall>idx e answer. (idx, e, answer) \<in> set ?z \<and> \<not> retrySucceeds answer
                 \<longrightarrow> \<lparr>re_index = idx, re_cardNo = e_cardNo e, re_message = retryMessage answer\<rparr>
                       \<in> set (retryErrors (fst final))"
    unfolding errs by force
  have sub: "set (map re_index (retryErrors (fst final))) \<subseteq> set idxs"
  proof -
    have "fst ` set (filter ?fail ?z) \<subseteq> set idxs"
      unfolding z by (auto dest: set_zip_leftD)
    with idx_image show ?thesis by simp
  qed
  have total: "retryUpdated (fst final) + length (retryErrors (fst final)) = length targets"
  proof -
    have "length (filter ?succ ?z) + length (filter ?fail ?z) = length ?z"
      using sum_length_filter_compl [of ?succ ?z]
      by (simp add: case_prod_unfold)
    with upd errs lenz show ?thesis by simp
  qed
  from fst1 idxs(1,3,4) dist upd errs gone stays sub total show ?thesis
    by blast
qed

lemma firstExisting_no_files: "firstExisting Map.empty fnames = None"
  by (induction fnames) simp_all

lemma tryAttachPhoto_no_files: "tryAttachPhoto Map.empty p = (p, False)"
  by (simp add: tryAttachPhoto_def firstExisting_no_files)

lemma updateProfile_no_overrides: "updateProfile [] i row = mapRowToUpdateProfile row"
  by (simp add: updateProfile_def)

lemma update_cardNo_only:
  "mapRowToUpdateProfile [''CARD NO'' \<mapsto> CStr c] ''CardNo'' = Some (take 10 (trim c))"
  by (simp add: mapRowToUpdateProfile_def Let_def s_str_def truthy_def cellToString_def
        trim_def cong: let_weak_cong)

subsection \<open>Claim on the retry\<close>

text \<open>
  C3. After a full update-batch pass, exactly the errors whose message contains
  \<open>truncated\<close> (case-insensitive) are retried: the envelopes the remote end receives after
  those of the batch pass are the retry envelopes of the rows of these errors, one each and
  in their order, and no row occurs twice. The retry re-derives the profile from the
  original row; every field of the retry's table of maximum lengths is within that
  maximum, the \<open>Download\<close> flag is the one of the mapping, and the row goes through the
  single-row operation. At the end of the run the count of updated rows is the number of
  retries the remote end answered with a success, and the reported errors are, in the order
  of the retries, one entry for each retry answered otherwise, with the index and card
  number of the row and the message of that answer (\<open>Unknown error\<close> when there is none).
  So a row whose retry fails is among the reported errors with its latest message, and a
  row whose retry succeeds is not among them. Each turn of the retry loop follows the same
  rule.
\<close>

theorem truncation_retry:
  fixes post :: "'n transport" and fs ns ver rows net
  defines "first \<equiv> updateCsvPathToVault (recording post) fs ns ver rows [] (net, [])"
  defines "targets \<equiv> filter (\<lambda>e. isTruncated (message e)) (errors (fst first))"
  defines "final \<equiv> mainBatch (recording post) fs ns ver rows (net, [])"
  shows "firstPass (fst final) = fst first
    \<and> (\<exists>idxs. map e_index targets = map Some idxs \<and> distinct idxs
          \<and> (\<forall>j\<in>set idxs. j < length rows)
          \<and> snd (snd final) = snd (snd first) @ map (retryEnvelope fs ns ver rows) idxs
          \<and> retryUpdated (fst final) =
               length (filter (\<lambda>(idx, e, answer). retrySucceeds answer)
                  (retryOutcomes post fs ns ver rows (fst (snd first)) targets idxs))
          \<and> retryErrors (fst final) =
               map (\<lambda>(idx, e, answer).
                      \<lparr>re_index = idx, re_cardNo = e_cardNo e, re_message = retryMessage answer\<rparr>)
                 (filter (\<lambda>(idx, e, answer). \<not> retrySucceeds answer)
                    (retryOutcomes post fs ns ver rows (fst (snd first)) targets idxs))
          \<and> (\<forall>idx e answer.
                 (idx, e, answer) \<in> set (retryOutcomes post fs ns ver rows (fst (snd first)) targets idxs)
                 \<and> retrySucceeds answer
                 \<longrightarrow> idx \<notin> re_index ` set (retryErrors (fst final)))
          \<and> (\<forall>idx e answer.
                 (idx, e, answer) \<in> set (retryOutcomes post fs ns ver rows (fst (snd first)) targets idxs)
                 \<and> \<not> retrySucceeds answer
                 \<longrightarrow> \<lparr>re_index = idx, re_cardNo = e_cardNo e, re_message = retryMessage answer\<rparr>
                       \<in> set (retryErrors (fst final)))
          \<and> set (map re_index (retryErrors (fst final))) \<subseteq> set idxs)
    \<and> retryUpdated (fst final) + length (retryErrors (fst final)) = length targets
    \<and> (\<forall>row k m x. (k, m) \<in> set retry_MAX_table
          \<longrightarrow> singleProfile (Some (retryOverride (mapRowToUpdateProfile row))) row k = Some x
          \<longrightarrow> length x \<le> m)
    \<and> (\<forall>row. singleProfile (Some (retryOverride (mapRowToUpdateProfile row))) row ''Download''
              = mapRowToUpdateProfile row ''Download'')
    \<and> (\<forall>e idx answer net0 net' u errs.
          e_index e = Some idx \<and> idx < length rows
          \<and> recording post net0 (retryEnvelope fs ns ver rows idx) = (answer, net')
          \<longrightarrow> retryStep (recording post) fs ns ver rows (previewUpdateCsvPathToVault fs rows) e
                (u, errs, net0)
              = Some (if retrySucceeds answer then (u + 1, errs, net')
                      else (u, errs @ [\<lparr>re_index = idx, re_cardNo = e_cardNo e,
                                        re_message = retryMessage answer\<rparr>], net')))"
proof -
  note run = retry_run [of post fs ns ver rows net, folded first_def, folded targets_def final_def]
  have limits: "\<forall>row k m x. (k, m) \<in> set retry_MAX_table
          \<longrightarrow> singleProfile (Some (retryOverride (mapRowToUpdateProfile row))) row k = Some x
          \<longrightarrow> length x \<le> m"
    using retry_profile_limits by blast
  have download: "\<forall>row. singleProfile (Some (retryOverride (mapRowToUpdateProfile row))) row ''Download''
              = mapRowToUpdateProfile row ''Download''"
    by (simp add: retry_profile_same)
  have step: "\<forall>e idx answer net0 net' u errs.
          e_index e = Some idx \<and> idx < length rows
          \<and> recording post net0 (retryEnvelope fs ns ver rows idx) = (answer, net')
          \<longrightarrow> retryStep (recording post) fs ns ver rows (previewUpdateCsvPathToVault fs rows) e
                (u, errs, net0)
              = Some (if retrySucceeds answer then (u + 1, errs, net')
                      else (u, errs @ [\<lparr>re_index = idx, re_cardNo = e_cardNo e,
                                        re_message = retryMessage answer\<rparr>], net'))"
    using retryStep_answer [where post = "recording post" and fs = fs and ns = ns and ver = ver
        and rows = rows]
    by blast
  from run limits download step show ?thesis by blast
qed

theorem truncation_retry_witness:
  "isTruncated ''String or binary data would be truncated.''
   \<and> \<not> isTruncated ''Card not found''
   \<and> isTruncated ''Data TRUNCATED''
   \<and> (case mainBatch
        (recording (scriptedTransport
           [Inr \<lparr>httpStatus = 200, errCode = Some ''-1'',
                 errMessage = Some ''String or binary data would be truncated.''\<rparr>,
            Inr \<lparr>httpStatus = 200, errCode = Some ''5'', errMessage = Some ''Card not found''\<rparr>,
            Inr \<lparr>httpStatus = 200, errCode = Some ''-1'', errMessage = Some ''Data TRUNCATED''\<rparr>,
            Inr \<lparr>httpStatus = 200, errCode = Some ''0'', errMessage = None\<rparr>,
            Inr \<lparr>httpStatus = 200, errCode = Some ''-1'', errMessage = Some ''Name too long''\<rparr>]))
        Map.empty ''http://tempuri.org/'' ''1.1''
        [[''CARD NO'' \<mapsto> CStr ''1001''], [''CARD NO'' \<mapsto> CStr ''1002''],
         [''CARD NO'' \<mapsto> CStr ''1003'']] (0, []) of
        (out, n, received) \<Rightarrow>
          map message (errors (firstPass out)) =
            [''String or binary data would be truncated.'', ''Card not found'', ''Data TRUNCATED'']
          \<and> retryUpdated out = 1
          \<and> retryErrors out =
               [\<lparr>re_index = 2, re_cardNo = Some ''1003'', re_message = ''Name too long''\<rparr>]
          \<and> exitCode out = 2
          \<and> n = 5
          \<and> received =
              [buildUpdateCardEnvelope (mapRowToUpdateProfile [''CARD NO'' \<mapsto> CStr ''1001''])
                 ''http://tempuri.org/'' ''1.1'',
               buildUpdateCardEnvelope (mapRowToUpdateProfile [''CARD NO'' \<mapsto> CStr ''1002''])
                 ''http://tempuri.org/'' ''1.1'',
               buildUpdateCardEnvelope (mapRowToUpdateProfile [''CARD NO'' \<mapsto> CStr ''1003''])
                 ''http://tempuri.org/'' ''1.1'',
               retryEnvelope Map.empty ''http://tempuri.org/'' ''1.1''
                 [[''CARD NO'' \<mapsto> CStr ''1001''], [''CARD NO'' \<mapsto> CStr ''1002''],
         [''CARD NO'' \<mapsto> CStr ''1003'']] 0,
               retryEnvelope Map.empty ''http://tempuri.org/'' ''1.1''
                 [[''CARD NO'' \<mapsto> CStr ''1001''], [''CARD NO'' \<mapsto> CStr ''1002''],
         [''CARD NO'' \<mapsto> CStr ''1003'']] 2])"
proof -
  have trunc: "isTruncated ''String or binary data would be truncated.''"
    "\<not> isTruncated ''Card not found''" "isTruncated ''Data TRUNCATED''"
    by (simp_all add: isTruncated_def toLowerCase_def lowerChar_def upperChars_def lowerChars_def)
  have env: "retryEnvelope Map.empty ''http://tempuri.org/'' ''1.1'' [[''CARD NO'' \<mapsto> CStr ''1001''], [''CARD NO'' \<mapsto> CStr ''1002''],
         [''CARD NO'' \<mapsto> CStr ''1003'']] 0
      = buildUpdateCardEnvelope (mapRowToUpdateProfile [''CARD NO'' \<mapsto> CStr ''1001''])
           ''http://tempuri.org/'' ''1.1''"
    "retryEnvelope Map.empty ''http://tempuri.org/'' ''1.1'' [[''CARD NO'' \<mapsto> CStr ''1001''], [''CARD NO'' \<mapsto> CStr ''1002''],
         [''CARD NO'' \<mapsto> CStr ''1003'']] 2
      = buildUpdateCardEnvelope (mapRowToUpdateProfile [''CARD NO'' \<mapsto> CStr ''1003''])
           ''http://tempuri.org/'' ''1.1''"
    by (simp_all add: retryEnvelope_eq tryAttachPhoto_no_files)
  show ?thesis
    using trunc
      truncation_retry [where post = "scriptedTransport
           [Inr \<lparr>httpStatus = 200, errCode = Some ''-1'',
                 errMessage = Some ''String or binary data would be truncated.''\<rparr>,
            Inr \<lparr>httpStatus = 200, errCode = Some ''5'', errMessage = Some ''Card not found''\<rparr>,
            Inr \<lparr>httpStatus = 200, errCode = Some ''-1'', errMessage = Some ''Data TRUNCATED''\<rparr>,
            Inr \<lparr>httpStatus = 200, errCode = Some ''0'', errMessage = None\<rparr>,
            Inr \<lparr>httpStatus = 200, errCode = Some ''-1'', errMessage = Some ''Name too long''\<rparr>]"
        and fs = Map.empty and ns = "''http://tempuri.org/''" and ver = "''1.1''"
        and rows = "[[''CARD NO'' \<mapsto> CStr ''1001''], [''CARD NO'' \<mapsto> CStr ''1002''],
         [''CARD NO'' \<mapsto> CStr ''1003'']]" and net = 0, THEN conjunct2, THEN conjunct1]
    by (simp add: env mkError_def mainBatch_def updateCsvPathToVault_def updateRow_def updateCsvRowToVault_def
          retryStep_def previewUpdateCsvPathToVault_def retry_profile_same
          updateProfile_no_overrides tryAttachPhoto_no_files recording_def scriptedTransport_def
          updateOk_def status_def truthyStr_def strOr_def emptyResult_def update_cardNo_only
          trim_def isWhiteSpace_def Let_def
          cong: let_weak_cong)
qed

end
